theory Spec2Isabelle
  imports Main
begin

section \<open>Tables (db/tables.ts)\<close>

text \<open>
  A \<open>Date\<close> is its number of milliseconds since the epoch. A column declared
  \<open>optional\<close> holds \<open>null\<close> (\<open>None\<close>) or a value. Field names carry a prefix for
  their table, since the three tables share column names.
\<close>

type_synonym date = nat

record ai_character =
  c_id :: string
  c_userId :: "string option"
  c_name :: string
  c_slug :: "string option"
  c_shortDescription :: "string option"
  c_fullDescription :: "string option"
  c_systemPrompt :: "string option"
  c_speakingStyle :: "string option"
  c_domain :: "string option"
  c_avatarUrl :: "string option"
  c_isSystem :: bool
  c_isPublic :: bool
  c_createdAt :: date
  c_updatedAt :: date

record chat_session =
  s_id :: string
  s_characterId :: string
  s_userId :: string
  s_title :: "string option"
  s_contextSummary :: "string option"
  s_isPinned :: bool
  s_isArchived :: bool
  s_createdAt :: date
  s_updatedAt :: date
  s_lastMessageAt :: "date option"

record chat_message =
  m_id :: string
  m_sessionId :: string
  m_userId :: "string option"
  m_senderRole :: string
  m_content :: string
  m_metadataJson :: "string option"
  m_createdAt :: date

section \<open>The store (astro:db)\<close>

text \<open>
  Each table is the list of its rows in insertion order. The store also keeps the trace of
  the statements run against it, so that "no store access" is a property of the state: a
  handler that returns the store it was given has run no statement at all.
\<close>

datatype table_name = AiCharacters | CharacterChatSessions | CharacterChatMessages

datatype store_access = Select table_name | Insert table_name | Update table_name

record store =
  characters :: "ai_character list"
  sessions :: "chat_session list"
  messages :: "chat_message list"
  accesses :: "store_access list"

definition select_AiCharacters ::
  "(ai_character \<Rightarrow> bool) \<Rightarrow> store \<Rightarrow> ai_character list \<times> store" where
  "select_AiCharacters wh db =
     (filter wh (characters db), db\<lparr>accesses := accesses db @ [Select AiCharacters]\<rparr>)"

definition select_CharacterChatSessions ::
  "(chat_session \<Rightarrow> bool) \<Rightarrow> store \<Rightarrow> chat_session list \<times> store" where
  "select_CharacterChatSessions wh db =
     (filter wh (sessions db), db\<lparr>accesses := accesses db @ [Select CharacterChatSessions]\<rparr>)"

definition select_CharacterChatMessages ::
  "(chat_message \<Rightarrow> bool) \<Rightarrow> store \<Rightarrow> chat_message list \<times> store" where
  "select_CharacterChatMessages wh db =
     (filter wh (messages db), db\<lparr>accesses := accesses db @ [Select CharacterChatMessages]\<rparr>)"

text \<open>
  In each table \<open>id\<close> is the primary key; a session's \<open>characterId\<close> references a
  character's \<open>id\<close> and a message's \<open>sessionId\<close> a session's \<open>id\<close>. An insert whose
  \<open>id\<close> is already the \<open>id\<close> of a row, or whose reference names no row, is refused by
  the store: the statement is run, the table stays as it is, and the driver throws. An
  insert returns the error, if any, and the store after the statement.
\<close>

datatype store_error = UniqueConstraintFailed table_name | ForeignKeyConstraintFailed table_name

definition insert_AiCharacters :: "ai_character \<Rightarrow> store \<Rightarrow> store_error option \<times> store" where
  "insert_AiCharacters row db =
     (if c_id row \<in> set (map c_id (characters db))
      then (Some (UniqueConstraintFailed AiCharacters),
            db\<lparr>accesses := accesses db @ [Insert AiCharacters]\<rparr>)
      else (None,
            db\<lparr>characters := characters db @ [row],
               accesses := accesses db @ [Insert AiCharacters]\<rparr>))"

definition insert_CharacterChatSessions ::
  "chat_session \<Rightarrow> store \<Rightarrow> store_error option \<times> store" where
  "insert_CharacterChatSessions row db =
     (if s_id row \<in> set (map s_id (sessions db))
      then (Some (UniqueConstraintFailed CharacterChatSessions),
            db\<lparr>accesses := accesses db @ [Insert CharacterChatSessions]\<rparr>)
      else if s_characterId row \<notin> set (map c_id (characters db))
      then (Some (ForeignKeyConstraintFailed CharacterChatSessions),
            db\<lparr>accesses := accesses db @ [Insert CharacterChatSessions]\<rparr>)
      else (None,
            db\<lparr>sessions := sessions db @ [row],
               accesses := accesses db @ [Insert CharacterChatSessions]\<rparr>))"

definition insert_CharacterChatMessages ::
  "chat_message \<Rightarrow> store \<Rightarrow> store_error option \<times> store" where
  "insert_CharacterChatMessages row db =
     (if m_id row \<in> set (map m_id (messages db))
      then (Some (UniqueConstraintFailed CharacterChatMessages),
            db\<lparr>accesses := accesses db @ [Insert CharacterChatMessages]\<rparr>)
      else if m_sessionId row \<notin> set (map s_id (sessions db))
      then (Some (ForeignKeyConstraintFailed CharacterChatMessages),
            db\<lparr>accesses := accesses db @ [Insert CharacterChatMessages]\<rparr>)
      else (None,
            db\<lparr>messages := messages db @ [row],
               accesses := accesses db @ [Insert CharacterChatMessages]\<rparr>))"

text \<open>
  \<open>db.update(T).set(data).where(w)\<close> rewrites every row that satisfies \<open>w\<close> and leaves
  the others, and the order of the rows, as they are.
\<close>

definition update_AiCharacters ::
  "(ai_character \<Rightarrow> ai_character) \<Rightarrow> (ai_character \<Rightarrow> bool) \<Rightarrow> store \<Rightarrow> store" where
  "update_AiCharacters st wh db =
     db\<lparr>characters := map (\<lambda>r. if wh r then st r else r) (characters db),
        accesses := accesses db @ [Update AiCharacters]\<rparr>"

definition update_CharacterChatSessions ::
  "(chat_session \<Rightarrow> chat_session) \<Rightarrow> (chat_session \<Rightarrow> bool) \<Rightarrow> store \<Rightarrow> store" where
  "update_CharacterChatSessions st wh db =
     db\<lparr>sessions := map (\<lambda>r. if wh r then st r else r) (sessions db),
        accesses := accesses db @ [Update CharacterChatSessions]\<rparr>"

text \<open>
  The object handed to \<open>set\<close> is a \<open>Partial\<close> of the row type: a column that was never
  assigned (\<open>None\<close>) is not written.
\<close>

record character_update =
  cu_name :: "string option"
  cu_slug :: "string option"
  cu_shortDescription :: "string option"
  cu_fullDescription :: "string option"
  cu_systemPrompt :: "string option"
  cu_speakingStyle :: "string option"
  cu_domain :: "string option"
  cu_avatarUrl :: "string option"
  cu_isPublic :: "bool option"
  cu_updatedAt :: "date option"

definition set_AiCharacters :: "character_update \<Rightarrow> ai_character \<Rightarrow> ai_character" where
  "set_AiCharacters u r =
     r\<lparr>c_name := (case cu_name u of None \<Rightarrow> c_name r | Some v \<Rightarrow> v),
       c_slug := (case cu_slug u of None \<Rightarrow> c_slug r | Some v \<Rightarrow> Some v),
       c_shortDescription :=
         (case cu_shortDescription u of None \<Rightarrow> c_shortDescription r | Some v \<Rightarrow> Some v),
       c_fullDescription :=
         (case cu_fullDescription u of None \<Rightarrow> c_fullDescription r | Some v \<Rightarrow> Some v),
       c_systemPrompt :=
         (case cu_systemPrompt u of None \<Rightarrow> c_systemPrompt r | Some v \<Rightarrow> Some v),
       c_speakingStyle :=
         (case cu_speakingStyle u of None \<Rightarrow> c_speakingStyle r | Some v \<Rightarrow> Some v),
       c_domain := (case cu_domain u of None \<Rightarrow> c_domain r | Some v \<Rightarrow> Some v),
       c_avatarUrl := (case cu_avatarUrl u of None \<Rightarrow> c_avatarUrl r | Some v \<Rightarrow> Some v),
       c_isPublic := (case cu_isPublic u of None \<Rightarrow> c_isPublic r | Some v \<Rightarrow> v),
       c_updatedAt := (case cu_updatedAt u of None \<Rightarrow> c_updatedAt r | Some v \<Rightarrow> v)\<rparr>"

record session_update =
  su_title :: "string option"
  su_contextSummary :: "string option"
  su_isPinned :: "bool option"
  su_isArchived :: "bool option"
  su_updatedAt :: "date option"
  su_lastMessageAt :: "date option"

definition set_CharacterChatSessions :: "session_update \<Rightarrow> chat_session \<Rightarrow> chat_session" where
  "set_CharacterChatSessions u r =
     r\<lparr>s_title := (case su_title u of None \<Rightarrow> s_title r | Some v \<Rightarrow> Some v),
       s_contextSummary :=
         (case su_contextSummary u of None \<Rightarrow> s_contextSummary r | Some v \<Rightarrow> Some v),
       s_isPinned := (case su_isPinned u of None \<Rightarrow> s_isPinned r | Some v \<Rightarrow> v),
       s_isArchived := (case su_isArchived u of None \<Rightarrow> s_isArchived r | Some v \<Rightarrow> v),
       s_updatedAt := (case su_updatedAt u of None \<Rightarrow> s_updatedAt r | Some v \<Rightarrow> v),
       s_lastMessageAt :=
         (case su_lastMessageAt u of None \<Rightarrow> s_lastMessageAt r | Some v \<Rightarrow> Some v)\<rparr>"

section \<open>Request context, errors and the action wrapper (astro:actions)\<close>

text \<open>
  Of \<open>App.Locals\<close> the handlers read only \<open>locals.user\<close>, and of the user only \<open>id\<close>.
  \<open>context.locals\<close> itself may be undefined.
\<close>

record app_user =
  u_id :: string

record app_locals =
  locals_user :: "app_user option"

record action_context =
  context_locals :: "app_locals option"

text \<open>\<open>new Date()\<close> and \<open>crypto.randomUUID()\<close> are inputs of a call.\<close>

record runtime =
  new_Date :: date
  randomUUID :: string

datatype error_code = UNAUTHORIZED | FORBIDDEN | NOT_FOUND | BAD_REQUEST | INTERNAL_SERVER_ERROR

text \<open>
  \<open>ActionInputError\<close> is the error \<open>defineAction\<close> throws when the input does not parse
  under the action's schema; its code is \<open>BAD_REQUEST\<close>. No handler catches what the
  store's driver throws: \<open>Uncaught\<close> is such an error as it leaves the handler, and the
  action reports it with the code \<open>INTERNAL_SERVER_ERROR\<close>.
\<close>

datatype action_error =
    ActionError error_code string
  | ActionInputError
  | Uncaught store_error

fun code :: "action_error \<Rightarrow> error_code" where
  "code (ActionError c m) = c"
| "code ActionInputError = BAD_REQUEST"
| "code (Uncaught e) = INTERNAL_SERVER_ERROR"

type_synonym 'a action_result = "(action_error + 'a) \<times> store"

text \<open>
  \<open>defineAction({input, handler})\<close> parses the raw input with the schema first and calls
  the handler on the parsed value only when that succeeds.
\<close>

definition defineAction ::
  "('r \<Rightarrow> 'i option) \<Rightarrow> ('i \<Rightarrow> action_context \<Rightarrow> runtime \<Rightarrow> store \<Rightarrow> 'a action_result) \<Rightarrow>
     'r \<Rightarrow> action_context \<Rightarrow> runtime \<Rightarrow> store \<Rightarrow> 'a action_result" where
  "defineAction schema handler raw ctx rt db =
     (case schema raw of
        None \<Rightarrow> (Inl ActionInputError, db)
      | Some inp \<Rightarrow> handler inp ctx rt db)"

text \<open>\<open>locals?.user\<close>\<close>

definition context_user :: "action_context \<Rightarrow> app_user option" where
  "context_user ctx =
     (case context_locals ctx of None \<Rightarrow> None | Some l \<Rightarrow> locals_user l)"

definition requireUser :: "action_context \<Rightarrow> action_error + app_user" where
  "requireUser ctx =
     (case context_user ctx of
        None \<Rightarrow> Inl (ActionError UNAUTHORIZED ''You must be signed in to perform this action.'')
      | Some user \<Rightarrow> Inr user)"

text \<open>The result of the two list actions: \<open>{ items, total }\<close>.\<close>

record 'a listing =
  items :: "'a list"
  total :: nat

section \<open>Actions (src/actions/index.ts)\<close>

subsection \<open>createCharacter\<close>

record createCharacter_input =
  cc_name :: string
  cc_slug :: "string option"
  cc_shortDescription :: "string option"
  cc_fullDescription :: "string option"
  cc_systemPrompt :: "string option"
  cc_speakingStyle :: "string option"
  cc_domain :: "string option"
  cc_avatarUrl :: "string option"
  cc_isPublic :: "bool option"

text \<open>
  \<open>z.string().min(1)\<close> is a non-empty string; \<open>.optional()\<close> lets the field be absent.
  What \<open>z.string().url()\<close> accepts is the library's matter and is the parameter \<open>isUrl\<close>.
\<close>

definition min1 :: "string \<Rightarrow> bool" where
  "min1 s = (1 \<le> length s)"

definition optional :: "('a \<Rightarrow> bool) \<Rightarrow> 'a option \<Rightarrow> bool" where
  "optional p v = (case v of None \<Rightarrow> True | Some x \<Rightarrow> p x)"

definition createCharacter_schema ::
  "(string \<Rightarrow> bool) \<Rightarrow> createCharacter_input \<Rightarrow> createCharacter_input option" where
  "createCharacter_schema isUrl raw =
     (if min1 (cc_name raw) \<and> optional min1 (cc_slug raw) \<and> optional isUrl (cc_avatarUrl raw)
      then Some raw else None)"

definition createCharacter_handler ::
  "createCharacter_input \<Rightarrow> action_context \<Rightarrow> runtime \<Rightarrow> store \<Rightarrow> ai_character action_result" where
  "createCharacter_handler inp ctx rt db =
     (case requireUser ctx of
        Inl e \<Rightarrow> (Inl e, db)
      | Inr user \<Rightarrow>
          let now = new_Date rt;
              character =
                \<lparr>c_id = randomUUID rt,
                 c_userId = Some (u_id user),
                 c_name = cc_name inp,
                 c_slug = cc_slug inp,
                 c_shortDescription = cc_shortDescription inp,
                 c_fullDescription = cc_fullDescription inp,
                 c_systemPrompt = cc_systemPrompt inp,
                 c_speakingStyle = cc_speakingStyle inp,
                 c_domain = cc_domain inp,
                 c_avatarUrl = cc_avatarUrl inp,
                 c_isSystem = False,
                 c_isPublic = (case cc_isPublic inp of None \<Rightarrow> False | Some b \<Rightarrow> b),
                 c_createdAt = now,
                 c_updatedAt = now\<rparr>
          in case insert_AiCharacters character db of
               (Some e, db1) \<Rightarrow> (Inl (Uncaught e), db1)
             | (None, db1) \<Rightarrow> (Inr character, db1))"

definition createCharacter ::
  "(string \<Rightarrow> bool) \<Rightarrow> createCharacter_input \<Rightarrow> action_context \<Rightarrow> runtime \<Rightarrow> store \<Rightarrow>
     ai_character action_result" where
  "createCharacter isUrl = defineAction (createCharacter_schema isUrl) createCharacter_handler"

subsection \<open>updateCharacter\<close>

record updateCharacter_input =
  uc_id :: string
  uc_name :: "string option"
  uc_slug :: "string option"
  uc_shortDescription :: "string option"
  uc_fullDescription :: "string option"
  uc_systemPrompt :: "string option"
  uc_speakingStyle :: "string option"
  uc_domain :: "string option"
  uc_avatarUrl :: "string option"
  uc_isPublic :: "bool option"

definition updateCharacter_schema ::
  "(string \<Rightarrow> bool) \<Rightarrow> updateCharacter_input \<Rightarrow> updateCharacter_input option" where
  "updateCharacter_schema isUrl raw =
     (if min1 (uc_id raw) \<and> optional min1 (uc_name raw) \<and> optional min1 (uc_slug raw)
         \<and> optional isUrl (uc_avatarUrl raw)
      then Some raw else None)"

text \<open>
  \<open>updateData\<close> starts as \<open>{ updatedAt: new Date() }\<close>; each input field that is not
  \<open>undefined\<close> is then copied into it.
\<close>

definition updateCharacter_updateData :: "updateCharacter_input \<Rightarrow> runtime \<Rightarrow> character_update" where
  "updateCharacter_updateData inp rt =
     \<lparr>cu_name = uc_name inp,
      cu_slug = uc_slug inp,
      cu_shortDescription = uc_shortDescription inp,
      cu_fullDescription = uc_fullDescription inp,
      cu_systemPrompt = uc_systemPrompt inp,
      cu_speakingStyle = uc_speakingStyle inp,
      cu_domain = uc_domain inp,
      cu_avatarUrl = uc_avatarUrl inp,
      cu_isPublic = uc_isPublic inp,
      cu_updatedAt = Some (new_Date rt)\<rparr>"

definition updateCharacter_handler ::
  "updateCharacter_input \<Rightarrow> action_context \<Rightarrow> runtime \<Rightarrow> store \<Rightarrow> string action_result" where
  "updateCharacter_handler inp ctx rt db =
     (case requireUser ctx of
        Inl e \<Rightarrow> (Inl e, db)
      | Inr user \<Rightarrow>
          (case select_AiCharacters (\<lambda>r. c_id r = uc_id inp) db of
             (existing, db1) \<Rightarrow>
               if (case existing of
                     [] \<Rightarrow> True
                   | character # _ \<Rightarrow> c_userId character \<noteq> Some (u_id user))
               then (Inl (ActionError FORBIDDEN
                            ''Character not found or you do not have access.''), db1)
               else
                 (Inr (uc_id inp),
                  update_AiCharacters
                    (set_AiCharacters (updateCharacter_updateData inp rt))
                    (\<lambda>r. c_id r = uc_id inp \<and> c_userId r = Some (u_id user))
                    db1)))"

definition updateCharacter ::
  "(string \<Rightarrow> bool) \<Rightarrow> updateCharacter_input \<Rightarrow> action_context \<Rightarrow> runtime \<Rightarrow> store \<Rightarrow>
     string action_result" where
  "updateCharacter isUrl = defineAction (updateCharacter_schema isUrl) updateCharacter_handler"

subsection \<open>listCharacters\<close>

record listCharacters_raw =
  lcr_includePrivate :: "bool option"

record listCharacters_input =
  lc_includePrivate :: bool

text \<open>\<open>z.boolean().default(false)\<close>\<close>

definition listCharacters_schema :: "listCharacters_raw \<Rightarrow> listCharacters_input option" where
  "listCharacters_schema raw =
     Some \<lparr>lc_includePrivate = (case lcr_includePrivate raw of None \<Rightarrow> False | Some b \<Rightarrow> b)\<rparr>"

text \<open>
  \<open>input.includePrivate && userId\<close> tests the identifier for truthiness: \<open>null\<close> and the
  empty string both fail it.
\<close>

definition truthy :: "string option \<Rightarrow> bool" where
  "truthy v = (case v of None \<Rightarrow> False | Some s \<Rightarrow> s \<noteq> [])"

definition baseVisibility :: "ai_character \<Rightarrow> bool" where
  "baseVisibility r = (c_isPublic r = True \<or> c_isSystem r = True)"

definition listCharacters_handler ::
  "listCharacters_input \<Rightarrow> action_context \<Rightarrow> runtime \<Rightarrow> store \<Rightarrow>
     ai_character listing action_result" where
  "listCharacters_handler inp ctx rt db =
     (let userId = (case context_user ctx of None \<Rightarrow> None | Some user \<Rightarrow> Some (u_id user));
          whereClause =
            (if lc_includePrivate inp \<and> truthy userId
             then (\<lambda>r. baseVisibility r \<or> c_userId r = userId)
             else baseVisibility)
      in case select_AiCharacters whereClause db of
           (chars, db1) \<Rightarrow> (Inr \<lparr>items = chars, total = length chars\<rparr>, db1))"

definition listCharacters ::
  "listCharacters_raw \<Rightarrow> action_context \<Rightarrow> runtime \<Rightarrow> store \<Rightarrow> ai_character listing action_result" where
  "listCharacters = defineAction listCharacters_schema listCharacters_handler"

subsection \<open>createChatSession\<close>

record createChatSession_input =
  cs_characterId :: string
  cs_title :: "string option"

definition createChatSession_schema :: "createChatSession_input \<Rightarrow> createChatSession_input option" where
  "createChatSession_schema raw = (if min1 (cs_characterId raw) then Some raw else None)"

definition createChatSession_handler ::
  "createChatSession_input \<Rightarrow> action_context \<Rightarrow> runtime \<Rightarrow> store \<Rightarrow> chat_session action_result" where
  "createChatSession_handler inp ctx rt db =
     (case requireUser ctx of
        Inl e \<Rightarrow> (Inl e, db)
      | Inr user \<Rightarrow>
          (case select_AiCharacters (\<lambda>r. c_id r = cs_characterId inp) db of
             (found, db1) \<Rightarrow>
               (case found of
                  [] \<Rightarrow> (Inl (ActionError NOT_FOUND ''Character not found.''), db1)
                | character # _ \<Rightarrow>
                    if \<not> c_isPublic character \<and> \<not> c_isSystem character
                        \<and> c_userId character \<noteq> Some (u_id user)
                    then (Inl (ActionError FORBIDDEN
                                 ''You do not have access to this character.''), db1)
                    else
                      let now = new_Date rt;
                          session =
                            \<lparr>s_id = randomUUID rt,
                             s_characterId = cs_characterId inp,
                             s_userId = u_id user,
                             s_title = cs_title inp,
                             s_contextSummary = None,
                             s_isPinned = False,
                             s_isArchived = False,
                             s_createdAt = now,
                             s_updatedAt = now,
                             s_lastMessageAt = None\<rparr>
                      in case insert_CharacterChatSessions session db1 of
                           (Some e, db2) \<Rightarrow> (Inl (Uncaught e), db2)
                         | (None, db2) \<Rightarrow> (Inr session, db2))))"

definition createChatSession ::
  "createChatSession_input \<Rightarrow> action_context \<Rightarrow> runtime \<Rightarrow> store \<Rightarrow> chat_session action_result" where
  "createChatSession = defineAction createChatSession_schema createChatSession_handler"

subsection \<open>updateChatSession\<close>

record updateChatSession_input =
  us_id :: string
  us_title :: "string option"
  us_contextSummary :: "string option"
  us_isPinned :: "bool option"
  us_isArchived :: "bool option"

definition updateChatSession_schema :: "updateChatSession_input \<Rightarrow> updateChatSession_input option" where
  "updateChatSession_schema raw = (if min1 (us_id raw) then Some raw else None)"

definition updateChatSession_updateData :: "updateChatSession_input \<Rightarrow> runtime \<Rightarrow> session_update" where
  "updateChatSession_updateData inp rt =
     \<lparr>su_title = us_title inp,
      su_contextSummary = us_contextSummary inp,
      su_isPinned = us_isPinned inp,
      su_isArchived = us_isArchived inp,
      su_updatedAt = Some (new_Date rt),
      su_lastMessageAt = None\<rparr>"

definition updateChatSession_handler ::
  "updateChatSession_input \<Rightarrow> action_context \<Rightarrow> runtime \<Rightarrow> store \<Rightarrow> string action_result" where
  "updateChatSession_handler inp ctx rt db =
     (case requireUser ctx of
        Inl e \<Rightarrow> (Inl e, db)
      | Inr user \<Rightarrow>
          (case select_CharacterChatSessions (\<lambda>r. s_id r = us_id inp) db of
             (found, db1) \<Rightarrow>
               if (case found of
                     [] \<Rightarrow> True
                   | session # _ \<Rightarrow> s_userId session \<noteq> u_id user)
               then (Inl (ActionError FORBIDDEN
                            ''Session not found or you do not have access.''), db1)
               else
                 (Inr (us_id inp),
                  update_CharacterChatSessions
                    (set_CharacterChatSessions (updateChatSession_updateData inp rt))
                    (\<lambda>r. s_id r = us_id inp \<and> s_userId r = u_id user)
                    db1)))"

definition updateChatSession ::
  "updateChatSession_input \<Rightarrow> action_context \<Rightarrow> runtime \<Rightarrow> store \<Rightarrow> string action_result" where
  "updateChatSession = defineAction updateChatSession_schema updateChatSession_handler"

subsection \<open>listMyChatSessions\<close>

record listMyChatSessions_raw =
  lsr_includeArchived :: "bool option"

record listMyChatSessions_input =
  ls_includeArchived :: bool

definition listMyChatSessions_schema ::
  "listMyChatSessions_raw \<Rightarrow> listMyChatSessions_input option" where
  "listMyChatSessions_schema raw =
     Some \<lparr>ls_includeArchived = (case lsr_includeArchived raw of None \<Rightarrow> False | Some b \<Rightarrow> b)\<rparr>"

definition listMyChatSessions_handler ::
  "listMyChatSessions_input \<Rightarrow> action_context \<Rightarrow> runtime \<Rightarrow> store \<Rightarrow>
     chat_session listing action_result" where
  "listMyChatSessions_handler inp ctx rt db =
     (case requireUser ctx of
        Inl e \<Rightarrow> (Inl e, db)
      | Inr user \<Rightarrow>
          let whereClause0 = (\<lambda>r. s_userId r = u_id user);
              whereClause =
                (if \<not> ls_includeArchived inp
                 then (\<lambda>r. whereClause0 r \<and> s_isArchived r = False)
                 else whereClause0)
          in case select_CharacterChatSessions whereClause db of
               (sess, db1) \<Rightarrow> (Inr \<lparr>items = sess, total = length sess\<rparr>, db1))"

definition listMyChatSessions ::
  "listMyChatSessions_raw \<Rightarrow> action_context \<Rightarrow> runtime \<Rightarrow> store \<Rightarrow>
     chat_session listing action_result" where
  "listMyChatSessions = defineAction listMyChatSessions_schema listMyChatSessions_handler"

subsection \<open>createChatMessage\<close>

text \<open>
  \<open>metadata\<close> is a JSON object of type \<open>'j\<close>; \<open>JSON.stringify\<close> is the parameter
  \<open>stringify\<close>. An object is truthy, so \<open>input.metadata ? ... : null\<close> tests presence.
\<close>

record 'j createChatMessage_input =
  cm_sessionId :: string
  cm_senderRole :: string
  cm_content :: string
  cm_metadata :: "'j option"

definition senderRole_enum :: "string list" where
  "senderRole_enum = [''user'', ''character'', ''system'']"

definition createChatMessage_schema ::
  "'j createChatMessage_input \<Rightarrow> 'j createChatMessage_input option" where
  "createChatMessage_schema raw =
     (if min1 (cm_sessionId raw) \<and> cm_senderRole raw \<in> set senderRole_enum
         \<and> min1 (cm_content raw)
      then Some raw else None)"

definition createChatMessage_handler ::
  "('j \<Rightarrow> string) \<Rightarrow> 'j createChatMessage_input \<Rightarrow> action_context \<Rightarrow> runtime \<Rightarrow> store \<Rightarrow>
     chat_message action_result" where
  "createChatMessage_handler stringify inp ctx rt db =
     (case requireUser ctx of
        Inl e \<Rightarrow> (Inl e, db)
      | Inr user \<Rightarrow>
          (case select_CharacterChatSessions (\<lambda>r. s_id r = cm_sessionId inp) db of
             (found, db1) \<Rightarrow>
               if (case found of
                     [] \<Rightarrow> True
                   | session # _ \<Rightarrow> s_userId session \<noteq> u_id user)
               then (Inl (ActionError FORBIDDEN
                            ''Session not found or you do not have access.''), db1)
               else
                 let now = new_Date rt;
                     message =
                       \<lparr>m_id = randomUUID rt,
                        m_sessionId = cm_sessionId inp,
                        m_userId = (if cm_senderRole inp = ''user'' then Some (u_id user) else None),
                        m_senderRole = cm_senderRole inp,
                        m_content = cm_content inp,
                        m_metadataJson =
                          (case cm_metadata inp of None \<Rightarrow> None | Some md \<Rightarrow> Some (stringify md)),
                        m_createdAt = now\<rparr>
                 in case insert_CharacterChatMessages message db1 of
                      (Some e, db2) \<Rightarrow> (Inl (Uncaught e), db2)
                    | (None, db2) \<Rightarrow>
                        (Inr message,
                         update_CharacterChatSessions
                           (set_CharacterChatSessions
                              \<lparr>su_title = None, su_contextSummary = None, su_isPinned = None,
                               su_isArchived = None, su_updatedAt = Some now,
                               su_lastMessageAt = Some now\<rparr>)
                           (\<lambda>r. s_id r = cm_sessionId inp \<and> s_userId r = u_id user)
                           db2)))"

definition createChatMessage ::
  "('j \<Rightarrow> string) \<Rightarrow> 'j createChatMessage_input \<Rightarrow> action_context \<Rightarrow> runtime \<Rightarrow> store \<Rightarrow>
     chat_message action_result" where
  "createChatMessage stringify =
     defineAction createChatMessage_schema (createChatMessage_handler stringify)"

subsection \<open>listChatMessages\<close>

record listChatMessages_input =
  lm_sessionId :: string

definition listChatMessages_schema :: "listChatMessages_input \<Rightarrow> listChatMessages_input option" where
  "listChatMessages_schema raw = (if min1 (lm_sessionId raw) then Some raw else None)"

definition listChatMessages_handler ::
  "listChatMessages_input \<Rightarrow> action_context \<Rightarrow> runtime \<Rightarrow> store \<Rightarrow>
     chat_message listing action_result" where
  "listChatMessages_handler inp ctx rt db =
     (case requireUser ctx of
        Inl e \<Rightarrow> (Inl e, db)
      | Inr user \<Rightarrow>
          (case select_CharacterChatSessions (\<lambda>r. s_id r = lm_sessionId inp) db of
             (found, db1) \<Rightarrow>
               if (case found of
                     [] \<Rightarrow> True
                   | session # _ \<Rightarrow> s_userId session \<noteq> u_id user)
               then (Inl (ActionError FORBIDDEN
                            ''Session not found or you do not have access.''), db1)
               else
                 (case select_CharacterChatMessages (\<lambda>r. m_sessionId r = lm_sessionId inp) db1 of
                    (msgs, db2) \<Rightarrow> (Inr \<lparr>items = msgs, total = length msgs\<rparr>, db2))))"

definition listChatMessages ::
  "listChatMessages_input \<Rightarrow> action_context \<Rightarrow> runtime \<Rightarrow> store \<Rightarrow>
     chat_message listing action_result" where
  "listChatMessages = defineAction listChatMessages_schema listChatMessages_handler"

section \<open>Sequences of update calls\<close>

text \<open>
  A client's series of \<open>updateCharacter\<close> and \<open>updateChatSession\<close> calls, each with its
  own input, request context and clock, run one after the other against the store.
\<close>

datatype update_call =
    UpdateCharacter updateCharacter_input action_context runtime
  | UpdateChatSession updateChatSession_input action_context runtime

fun run_update :: "update_call \<Rightarrow> store \<Rightarrow> store" where
  "run_update (UpdateCharacter inp ctx rt) db = snd (updateCharacter_handler inp ctx rt db)"
| "run_update (UpdateChatSession inp ctx rt) db = snd (updateChatSession_handler inp ctx rt db)"

fun run_updates :: "update_call list \<Rightarrow> store \<Rightarrow> store" where
  "run_updates [] db = db"
| "run_updates (call # calls) db = run_updates calls (run_update call db)"

text \<open>
  The relation between a row and its later version that the update actions maintain: the
  same row, and no optional text column that was set has become \<open>null\<close>.
\<close>

definition character_kept :: "ai_character \<Rightarrow> ai_character \<Rightarrow> bool" where
  "character_kept r r' \<longleftrightarrow>
     c_id r' = c_id r
   \<and> (c_slug r \<noteq> None \<longrightarrow> c_slug r' \<noteq> None)
   \<and> (c_shortDescription r \<noteq> None \<longrightarrow> c_shortDescription r' \<noteq> None)
   \<and> (c_fullDescription r \<noteq> None \<longrightarrow> c_fullDescription r' \<noteq> None)
   \<and> (c_systemPrompt r \<noteq> None \<longrightarrow> c_systemPrompt r' \<noteq> None)
   \<and> (c_speakingStyle r \<noteq> None \<longrightarrow> c_speakingStyle r' \<noteq> None)
   \<and> (c_domain r \<noteq> None \<longrightarrow> c_domain r' \<noteq> None)
   \<and> (c_avatarUrl r \<noteq> None \<longrightarrow> c_avatarUrl r' \<noteq> None)"

definition session_kept :: "chat_session \<Rightarrow> chat_session \<Rightarrow> bool" where
  "session_kept r r' \<longleftrightarrow>
     s_id r' = s_id r
   \<and> (s_title r \<noteq> None \<longrightarrow> s_title r' \<noteq> None)
   \<and> (s_contextSummary r \<noteq> None \<longrightarrow> s_contextSummary r' \<noteq> None)"

section \<open>Auxiliary facts\<close>

subsection \<open>Looking a row up by its key\<close>

text \<open>
  \<open>find\<close> returns the first row that satisfies a predicate: the row that
  \<open>select().where(eq(T.id, k))\<close> puts at index 0, if there is one.
\<close>

lemma find_None_filter: "find P xs = None \<Longrightarrow> filter P xs = []"
  by (induction xs) (auto split: if_splits)

lemma find_Some_filter: "find P xs = Some x \<Longrightarrow> \<exists>ys. filter P xs = x # ys"
  by (induction xs) (auto split: if_splits)

lemma find_Some_holds: "find P xs = Some x \<Longrightarrow> P x \<and> x \<in> set xs"
  by (induction xs) (auto split: if_splits)

lemma find_map_same_key:
  "(\<And>x. P (f x) = P x) \<Longrightarrow> find P (map f xs) = map_option f (find P xs)"
  by (induction xs) auto

lemma list_all2_map_self:
  "(\<And>x. x \<in> set xs \<Longrightarrow> P x (f x)) \<Longrightarrow> list_all2 P xs (map f xs)"
  by (simp add: list_all2_map2 list_all2_same)

subsection \<open>The wrapper and the identity check\<close>

lemma defineAction_invalid:
  "schema raw = None \<Longrightarrow> defineAction schema handler raw ctx rt db = (Inl ActionInputError, db)"
  by (simp add: defineAction_def)

lemma defineAction_valid:
  "schema raw = Some inp \<Longrightarrow> defineAction schema handler raw ctx rt db = handler inp ctx rt db"
  by (simp add: defineAction_def)

lemma requireUser_Some: "context_user ctx = Some user \<Longrightarrow> requireUser ctx = Inr user"
  by (simp add: requireUser_def)

lemma requireUser_None:
  "context_user ctx = None \<Longrightarrow>
     requireUser ctx
       = Inl (ActionError UNAUTHORIZED ''You must be signed in to perform this action.'')"
  by (simp add: requireUser_def)

lemma baseVisibility_fun: "baseVisibility = (\<lambda>r. c_isPublic r \<or> c_isSystem r)"
  by (auto simp add: fun_eq_iff baseVisibility_def)

subsection \<open>What each handler returns when the row is absent, foreign or the caller's own\<close>

lemma updateCharacter_absent:
  assumes "context_user ctx = Some user"
    and "find (\<lambda>r. c_id r = uc_id inp) (characters db) = None"
  shows "updateCharacter_handler inp ctx rt db =
           (Inl (ActionError FORBIDDEN ''Character not found or you do not have access.''),
            db\<lparr>accesses := accesses db @ [Select AiCharacters]\<rparr>)"
  using assms(1) find_None_filter [OF assms(2)]
  by (simp add: updateCharacter_handler_def requireUser_def select_AiCharacters_def)

lemma updateCharacter_foreign:
  assumes "context_user ctx = Some user"
    and "find (\<lambda>r. c_id r = uc_id inp) (characters db) = Some character"
    and "c_userId character \<noteq> Some (u_id user)"
  shows "updateCharacter_handler inp ctx rt db =
           (Inl (ActionError FORBIDDEN ''Character not found or you do not have access.''),
            db\<lparr>accesses := accesses db @ [Select AiCharacters]\<rparr>)"
proof -
  from find_Some_filter [OF assms(2)]
  obtain ys where "filter (\<lambda>r. c_id r = uc_id inp) (characters db) = character # ys" ..
  with assms(1,3) show ?thesis
    by (simp add: updateCharacter_handler_def requireUser_def select_AiCharacters_def)
qed

lemma updateCharacter_owner:
  assumes "context_user ctx = Some user"
    and "find (\<lambda>r. c_id r = uc_id inp) (characters db) = Some character"
    and "c_userId character = Some (u_id user)"
  shows "updateCharacter_handler inp ctx rt db =
           (Inr (uc_id inp),
            db\<lparr>characters :=
                 map (\<lambda>r. if c_id r = uc_id inp \<and> c_userId r = Some (u_id user)
                          then set_AiCharacters (updateCharacter_updateData inp rt) r else r)
                   (characters db),
               accesses := accesses db @ [Select AiCharacters, Update AiCharacters]\<rparr>)"
proof -
  from find_Some_filter [OF assms(2)]
  obtain ys where "filter (\<lambda>r. c_id r = uc_id inp) (characters db) = character # ys" ..
  with assms(1,3) show ?thesis
    by (simp add: updateCharacter_handler_def requireUser_def select_AiCharacters_def
        update_AiCharacters_def)
qed

lemma updateChatSession_absent:
  assumes "context_user ctx = Some user"
    and "find (\<lambda>r. s_id r = us_id inp) (sessions db) = None"
  shows "updateChatSession_handler inp ctx rt db =
           (Inl (ActionError FORBIDDEN ''Session not found or you do not have access.''),
            db\<lparr>accesses := accesses db @ [Select CharacterChatSessions]\<rparr>)"
  using assms(1) find_None_filter [OF assms(2)]
  by (simp add: updateChatSession_handler_def requireUser_def select_CharacterChatSessions_def)

lemma updateChatSession_foreign:
  assumes "context_user ctx = Some user"
    and "find (\<lambda>r. s_id r = us_id inp) (sessions db) = Some session"
    and "s_userId session \<noteq> u_id user"
  shows "updateChatSession_handler inp ctx rt db =
           (Inl (ActionError FORBIDDEN ''Session not found or you do not have access.''),
            db\<lparr>accesses := accesses db @ [Select CharacterChatSessions]\<rparr>)"
proof -
  from find_Some_filter [OF assms(2)]
  obtain ys where "filter (\<lambda>r. s_id r = us_id inp) (sessions db) = session # ys" ..
  with assms(1,3) show ?thesis
    by (simp add: updateChatSession_handler_def requireUser_def select_CharacterChatSessions_def)
qed

lemma updateChatSession_owner:
  assumes "context_user ctx = Some user"
    and "find (\<lambda>r. s_id r = us_id inp) (sessions db) = Some session"
    and "s_userId session = u_id user"
  shows "updateChatSession_handler inp ctx rt db =
           (Inr (us_id inp),
            db\<lparr>sessions :=
                 map (\<lambda>r. if s_id r = us_id inp \<and> s_userId r = u_id user
                          then set_CharacterChatSessions (updateChatSession_updateData inp rt) r
                          else r)
                   (sessions db),
               accesses := accesses db
                 @ [Select CharacterChatSessions, Update CharacterChatSessions]\<rparr>)"
proof -
  from find_Some_filter [OF assms(2)]
  obtain ys where "filter (\<lambda>r. s_id r = us_id inp) (sessions db) = session # ys" ..
  with assms(1,3) show ?thesis
    by (simp add: updateChatSession_handler_def requireUser_def
        select_CharacterChatSessions_def update_CharacterChatSessions_def)
qed

lemma createChatMessage_absent:
  assumes "context_user ctx = Some user"
    and "find (\<lambda>r. s_id r = cm_sessionId inp) (sessions db) = None"
  shows "createChatMessage_handler stringify inp ctx rt db =
           (Inl (ActionError FORBIDDEN ''Session not found or you do not have access.''),
            db\<lparr>accesses := accesses db @ [Select CharacterChatSessions]\<rparr>)"
  using assms(1) find_None_filter [OF assms(2)]
  by (simp add: createChatMessage_handler_def requireUser_def select_CharacterChatSessions_def)

lemma createChatMessage_foreign:
  assumes "context_user ctx = Some user"
    and "find (\<lambda>r. s_id r = cm_sessionId inp) (sessions db) = Some session"
    and "s_userId session \<noteq> u_id user"
  shows "createChatMessage_handler stringify inp ctx rt db =
           (Inl (ActionError FORBIDDEN ''Session not found or you do not have access.''),
            db\<lparr>accesses := accesses db @ [Select CharacterChatSessions]\<rparr>)"
proof -
  from find_Some_filter [OF assms(2)]
  obtain ys where "filter (\<lambda>r. s_id r = cm_sessionId inp) (sessions db) = session # ys" ..
  with assms(1,3) show ?thesis
    by (simp add: createChatMessage_handler_def requireUser_def select_CharacterChatSessions_def)
qed

lemma createChatMessage_owner:
  assumes "context_user ctx = Some user"
    and "find (\<lambda>r. s_id r = cm_sessionId inp) (sessions db) = Some session"
    and "s_userId session = u_id user"
    and "randomUUID rt \<notin> set (map m_id (messages db))"
  shows "createChatMessage_handler stringify inp ctx rt db =
           (Inr \<lparr>m_id = randomUUID rt,
                 m_sessionId = cm_sessionId inp,
                 m_userId = (if cm_senderRole inp = ''user'' then Some (u_id user) else None),
                 m_senderRole = cm_senderRole inp,
                 m_content = cm_content inp,
                 m_metadataJson =
                   (case cm_metadata inp of None \<Rightarrow> None | Some md \<Rightarrow> Some (stringify md)),
                 m_createdAt = new_Date rt\<rparr>,
            db\<lparr>messages := messages db @
                   [\<lparr>m_id = randomUUID rt,
                     m_sessionId = cm_sessionId inp,
                     m_userId = (if cm_senderRole inp = ''user'' then Some (u_id user) else None),
                     m_senderRole = cm_senderRole inp,
                     m_content = cm_content inp,
                     m_metadataJson =
                       (case cm_metadata inp of None \<Rightarrow> None | Some md \<Rightarrow> Some (stringify md)),
                     m_createdAt = new_Date rt\<rparr>],
               sessions :=
                 map (\<lambda>r. if s_id r = cm_sessionId inp \<and> s_userId r = u_id user
                          then r\<lparr>s_updatedAt := new_Date rt,
                                 s_lastMessageAt := Some (new_Date rt)\<rparr>
                          else r)
                   (sessions db),
               accesses := accesses db
                 @ [Select CharacterChatSessions, Insert CharacterChatMessages,
                    Update CharacterChatSessions]\<rparr>)"
proof -
  from find_Some_filter [OF assms(2)]
  obtain ys where "filter (\<lambda>r. s_id r = cm_sessionId inp) (sessions db) = session # ys" ..
  moreover from find_Some_holds [OF assms(2)]
  have "cm_sessionId inp \<in> s_id ` set (sessions db)" by force
  ultimately show ?thesis using assms(1,3,4)
    by (simp add: createChatMessage_handler_def requireUser_def
        select_CharacterChatSessions_def insert_CharacterChatMessages_def
        update_CharacterChatSessions_def set_CharacterChatSessions_def Let_def)
qed

lemma createChatMessage_collision:
  assumes "context_user ctx = Some user"
    and "find (\<lambda>r. s_id r = cm_sessionId inp) (sessions db) = Some session"
    and "s_userId session = u_id user"
    and "randomUUID rt \<in> set (map m_id (messages db))"
  shows "createChatMessage_handler stringify inp ctx rt db =
           (Inl (Uncaught (UniqueConstraintFailed CharacterChatMessages)),
            db\<lparr>accesses := accesses db
                 @ [Select CharacterChatSessions, Insert CharacterChatMessages]\<rparr>)"
proof -
  from find_Some_filter [OF assms(2)]
  obtain ys where "filter (\<lambda>r. s_id r = cm_sessionId inp) (sessions db) = session # ys" ..
  with assms(1,3,4) show ?thesis
    by (simp add: createChatMessage_handler_def requireUser_def
        select_CharacterChatSessions_def insert_CharacterChatMessages_def Let_def)
qed

lemma listChatMessages_absent:
  assumes "context_user ctx = Some user"
    and "find (\<lambda>r. s_id r = lm_sessionId inp) (sessions db) = None"
  shows "listChatMessages_handler inp ctx rt db =
           (Inl (ActionError FORBIDDEN ''Session not found or you do not have access.''),
            db\<lparr>accesses := accesses db @ [Select CharacterChatSessions]\<rparr>)"
  using assms(1) find_None_filter [OF assms(2)]
  by (simp add: listChatMessages_handler_def requireUser_def select_CharacterChatSessions_def)

lemma listChatMessages_foreign:
  assumes "context_user ctx = Some user"
    and "find (\<lambda>r. s_id r = lm_sessionId inp) (sessions db) = Some session"
    and "s_userId session \<noteq> u_id user"
  shows "listChatMessages_handler inp ctx rt db =
           (Inl (ActionError FORBIDDEN ''Session not found or you do not have access.''),
            db\<lparr>accesses := accesses db @ [Select CharacterChatSessions]\<rparr>)"
proof -
  from find_Some_filter [OF assms(2)]
  obtain ys where "filter (\<lambda>r. s_id r = lm_sessionId inp) (sessions db) = session # ys" ..
  with assms(1,3) show ?thesis
    by (simp add: listChatMessages_handler_def requireUser_def select_CharacterChatSessions_def)
qed

lemma listChatMessages_owner:
  assumes "context_user ctx = Some user"
    and "find (\<lambda>r. s_id r = lm_sessionId inp) (sessions db) = Some session"
    and "s_userId session = u_id user"
  shows "listChatMessages_handler inp ctx rt db =
           (Inr \<lparr>items = filter (\<lambda>r. m_sessionId r = lm_sessionId inp) (messages db),
                 total = length (filter (\<lambda>r. m_sessionId r = lm_sessionId inp) (messages db))\<rparr>,
            db\<lparr>accesses := accesses db
                 @ [Select CharacterChatSessions, Select CharacterChatMessages]\<rparr>)"
proof -
  from find_Some_filter [OF assms(2)]
  obtain ys where "filter (\<lambda>r. s_id r = lm_sessionId inp) (sessions db) = session # ys" ..
  with assms(1,3) show ?thesis
    by (simp add: listChatMessages_handler_def requireUser_def
        select_CharacterChatSessions_def select_CharacterChatMessages_def)
qed

lemma createChatSession_absent:
  assumes "context_user ctx = Some user"
    and "find (\<lambda>r. c_id r = cs_characterId inp) (characters db) = None"
  shows "createChatSession_handler inp ctx rt db =
           (Inl (ActionError NOT_FOUND ''Character not found.''),
            db\<lparr>accesses := accesses db @ [Select AiCharacters]\<rparr>)"
  using assms(1) find_None_filter [OF assms(2)]
  by (simp add: createChatSession_handler_def requireUser_def select_AiCharacters_def)

lemma createChatSession_hidden:
  assumes "context_user ctx = Some user"
    and "find (\<lambda>r. c_id r = cs_characterId inp) (characters db) = Some character"
    and "\<not> c_isPublic character" and "\<not> c_isSystem character"
    and "c_userId character \<noteq> Some (u_id user)"
  shows "createChatSession_handler inp ctx rt db =
           (Inl (ActionError FORBIDDEN ''You do not have access to this character.''),
            db\<lparr>accesses := accesses db @ [Select AiCharacters]\<rparr>)"
proof -
  from find_Some_filter [OF assms(2)]
  obtain ys where "filter (\<lambda>r. c_id r = cs_characterId inp) (characters db) = character # ys" ..
  with assms(1,3,4,5) show ?thesis
    by (simp add: createChatSession_handler_def requireUser_def select_AiCharacters_def)
qed

lemma createChatSession_visible:
  assumes "context_user ctx = Some user"
    and "find (\<lambda>r. c_id r = cs_characterId inp) (characters db) = Some character"
    and "c_isPublic character \<or> c_isSystem character \<or> c_userId character = Some (u_id user)"
    and "randomUUID rt \<notin> set (map s_id (sessions db))"
  shows "createChatSession_handler inp ctx rt db =
           (Inr \<lparr>s_id = randomUUID rt, s_characterId = cs_characterId inp,
                 s_userId = u_id user, s_title = cs_title inp, s_contextSummary = None,
                 s_isPinned = False, s_isArchived = False, s_createdAt = new_Date rt,
                 s_updatedAt = new_Date rt, s_lastMessageAt = None\<rparr>,
            db\<lparr>sessions := sessions db @
                   [\<lparr>s_id = randomUUID rt, s_characterId = cs_characterId inp,
                     s_userId = u_id user, s_title = cs_title inp, s_contextSummary = None,
                     s_isPinned = False, s_isArchived = False, s_createdAt = new_Date rt,
                     s_updatedAt = new_Date rt, s_lastMessageAt = None\<rparr>],
               accesses := accesses db @ [Select AiCharacters, Insert CharacterChatSessions]\<rparr>)"
proof -
  from find_Some_filter [OF assms(2)]
  obtain ys where "filter (\<lambda>r. c_id r = cs_characterId inp) (characters db) = character # ys" ..
  moreover from find_Some_holds [OF assms(2)]
  have "cs_characterId inp \<in> c_id ` set (characters db)" by force
  ultimately show ?thesis using assms(1,3,4)
    by (auto simp add: createChatSession_handler_def requireUser_def select_AiCharacters_def
        insert_CharacterChatSessions_def Let_def)
qed

lemma createChatSession_collision:
  assumes "context_user ctx = Some user"
    and "find (\<lambda>r. c_id r = cs_characterId inp) (characters db) = Some character"
    and "c_isPublic character \<or> c_isSystem character \<or> c_userId character = Some (u_id user)"
    and "randomUUID rt \<in> set (map s_id (sessions db))"
  shows "createChatSession_handler inp ctx rt db =
           (Inl (Uncaught (UniqueConstraintFailed CharacterChatSessions)),
            db\<lparr>accesses := accesses db @ [Select AiCharacters, Insert CharacterChatSessions]\<rparr>)"
proof -
  from find_Some_filter [OF assms(2)]
  obtain ys where "filter (\<lambda>r. c_id r = cs_characterId inp) (characters db) = character # ys" ..
  with assms(1,3,4) show ?thesis
    by (auto simp add: createChatSession_handler_def requireUser_def select_AiCharacters_def
        insert_CharacterChatSessions_def Let_def)
qed

lemma createCharacter_fresh:
  assumes "context_user ctx = Some user"
    and "randomUUID rt \<notin> set (map c_id (characters db))"
  shows "createCharacter_handler inp ctx rt db =
           (Inr \<lparr>c_id = randomUUID rt, c_userId = Some (u_id user), c_name = cc_name inp,
                 c_slug = cc_slug inp, c_shortDescription = cc_shortDescription inp,
                 c_fullDescription = cc_fullDescription inp,
                 c_systemPrompt = cc_systemPrompt inp,
                 c_speakingStyle = cc_speakingStyle inp, c_domain = cc_domain inp,
                 c_avatarUrl = cc_avatarUrl inp, c_isSystem = False,
                 c_isPublic = (case cc_isPublic inp of None \<Rightarrow> False | Some b \<Rightarrow> b),
                 c_createdAt = new_Date rt, c_updatedAt = new_Date rt\<rparr>,
            db\<lparr>characters := characters db @
                   [\<lparr>c_id = randomUUID rt, c_userId = Some (u_id user), c_name = cc_name inp,
                     c_slug = cc_slug inp, c_shortDescription = cc_shortDescription inp,
                     c_fullDescription = cc_fullDescription inp,
                     c_systemPrompt = cc_systemPrompt inp,
                     c_speakingStyle = cc_speakingStyle inp, c_domain = cc_domain inp,
                     c_avatarUrl = cc_avatarUrl inp, c_isSystem = False,
                     c_isPublic = (case cc_isPublic inp of None \<Rightarrow> False | Some b \<Rightarrow> b),
                     c_createdAt = new_Date rt, c_updatedAt = new_Date rt\<rparr>],
               accesses := accesses db @ [Insert AiCharacters]\<rparr>)"
  using assms
  by (simp add: createCharacter_handler_def requireUser_def insert_AiCharacters_def Let_def)

lemma createCharacter_collision:
  assumes "context_user ctx = Some user"
    and "randomUUID rt \<in> set (map c_id (characters db))"
  shows "createCharacter_handler inp ctx rt db =
           (Inl (Uncaught (UniqueConstraintFailed AiCharacters)),
            db\<lparr>accesses := accesses db @ [Insert AiCharacters]\<rparr>)"
  using assms
  by (simp add: createCharacter_handler_def requireUser_def insert_AiCharacters_def Let_def)

subsection \<open>What \<open>set\<close> writes\<close>

lemma set_AiCharacters_fields:
  "c_name (set_AiCharacters (updateCharacter_updateData inp rt) r)
     = (case uc_name inp of None \<Rightarrow> c_name r | Some v \<Rightarrow> v)"
  "c_slug (set_AiCharacters (updateCharacter_updateData inp rt) r)
     = (case uc_slug inp of None \<Rightarrow> c_slug r | Some v \<Rightarrow> Some v)"
  "c_shortDescription (set_AiCharacters (updateCharacter_updateData inp rt) r)
     = (case uc_shortDescription inp of None \<Rightarrow> c_shortDescription r | Some v \<Rightarrow> Some v)"
  "c_fullDescription (set_AiCharacters (updateCharacter_updateData inp rt) r)
     = (case uc_fullDescription inp of None \<Rightarrow> c_fullDescription r | Some v \<Rightarrow> Some v)"
  "c_systemPrompt (set_AiCharacters (updateCharacter_updateData inp rt) r)
     = (case uc_systemPrompt inp of None \<Rightarrow> c_systemPrompt r | Some v \<Rightarrow> Some v)"
  "c_speakingStyle (set_AiCharacters (updateCharacter_updateData inp rt) r)
     = (case uc_speakingStyle inp of None \<Rightarrow> c_speakingStyle r | Some v \<Rightarrow> Some v)"
  "c_domain (set_AiCharacters (updateCharacter_updateData inp rt) r)
     = (case uc_domain inp of None \<Rightarrow> c_domain r | Some v \<Rightarrow> Some v)"
  "c_avatarUrl (set_AiCharacters (updateCharacter_updateData inp rt) r)
     = (case uc_avatarUrl inp of None \<Rightarrow> c_avatarUrl r | Some v \<Rightarrow> Some v)"
  "c_isPublic (set_AiCharacters (updateCharacter_updateData inp rt) r)
     = (case uc_isPublic inp of None \<Rightarrow> c_isPublic r | Some v \<Rightarrow> v)"
  "c_updatedAt (set_AiCharacters (updateCharacter_updateData inp rt) r) = new_Date rt"
  "c_isSystem (set_AiCharacters (updateCharacter_updateData inp rt) r) = c_isSystem r"
  "c_userId (set_AiCharacters (updateCharacter_updateData inp rt) r) = c_userId r"
  "c_id (set_AiCharacters (updateCharacter_updateData inp rt) r) = c_id r"
  "c_createdAt (set_AiCharacters (updateCharacter_updateData inp rt) r) = c_createdAt r"
  by (simp_all add: set_AiCharacters_def updateCharacter_updateData_def)

lemma set_CharacterChatSessions_fields:
  "s_title (set_CharacterChatSessions (updateChatSession_updateData inp rt) r)
     = (case us_title inp of None \<Rightarrow> s_title r | Some v \<Rightarrow> Some v)"
  "s_contextSummary (set_CharacterChatSessions (updateChatSession_updateData inp rt) r)
     = (case us_contextSummary inp of None \<Rightarrow> s_contextSummary r | Some v \<Rightarrow> Some v)"
  "s_isPinned (set_CharacterChatSessions (updateChatSession_updateData inp rt) r)
     = (case us_isPinned inp of None \<Rightarrow> s_isPinned r | Some v \<Rightarrow> v)"
  "s_isArchived (set_CharacterChatSessions (updateChatSession_updateData inp rt) r)
     = (case us_isArchived inp of None \<Rightarrow> s_isArchived r | Some v \<Rightarrow> v)"
  "s_updatedAt (set_CharacterChatSessions (updateChatSession_updateData inp rt) r) = new_Date rt"
  "s_userId (set_CharacterChatSessions (updateChatSession_updateData inp rt) r) = s_userId r"
  "s_id (set_CharacterChatSessions (updateChatSession_updateData inp rt) r) = s_id r"
  "s_characterId (set_CharacterChatSessions (updateChatSession_updateData inp rt) r)
     = s_characterId r"
  "s_createdAt (set_CharacterChatSessions (updateChatSession_updateData inp rt) r)
     = s_createdAt r"
  "s_lastMessageAt (set_CharacterChatSessions (updateChatSession_updateData inp rt) r)
     = s_lastMessageAt r"
  by (simp_all add: set_CharacterChatSessions_def updateChatSession_updateData_def)

lemma find_session_touched:
  assumes "find (\<lambda>r. s_id r = sid) xs = Some session" and "s_userId session = uid"
  shows "find (\<lambda>r. s_id r = sid)
           (map (\<lambda>r. if s_id r = sid \<and> s_userId r = uid
                    then r\<lparr>s_updatedAt := t, s_lastMessageAt := Some t\<rparr> else r) xs)
         = Some (session\<lparr>s_updatedAt := t, s_lastMessageAt := Some t\<rparr>)"
proof -
  have "find (\<lambda>r. s_id r = sid)
           (map (\<lambda>r. if s_id r = sid \<and> s_userId r = uid
                    then r\<lparr>s_updatedAt := t, s_lastMessageAt := Some t\<rparr> else r) xs)
        = map_option (\<lambda>r. if s_id r = sid \<and> s_userId r = uid
                    then r\<lparr>s_updatedAt := t, s_lastMessageAt := Some t\<rparr> else r)
            (find (\<lambda>r. s_id r = sid) xs)"
    by (rule find_map_same_key) simp
  with assms find_Some_holds [OF assms(1)] show ?thesis by simp
qed

subsection \<open>What the update actions keep\<close>

lemma updateCharacter_tables:
  "updateCharacter_handler inp ctx rt db = (res, db') \<Longrightarrow>
     sessions db' = sessions db \<and> messages db' = messages db
   \<and> (characters db' = characters db
      \<or> (\<exists>uid. characters db' =
            map (\<lambda>r. if c_id r = uc_id inp \<and> c_userId r = Some uid
                     then set_AiCharacters (updateCharacter_updateData inp rt) r else r)
              (characters db)))"
  by (auto simp add: updateCharacter_handler_def select_AiCharacters_def update_AiCharacters_def
      split: sum.splits if_splits)

lemma updateChatSession_tables:
  "updateChatSession_handler inp ctx rt db = (res, db') \<Longrightarrow>
     characters db' = characters db \<and> messages db' = messages db
   \<and> (sessions db' = sessions db
      \<or> (\<exists>uid. sessions db' =
            map (\<lambda>r. if s_id r = us_id inp \<and> s_userId r = uid
                     then set_CharacterChatSessions (updateChatSession_updateData inp rt) r
                     else r)
              (sessions db)))"
  by (auto simp add: updateChatSession_handler_def select_CharacterChatSessions_def
      update_CharacterChatSessions_def split: sum.splits if_splits)

lemma character_kept_refl: "character_kept r r"
  by (simp add: character_kept_def)

lemma session_kept_refl: "session_kept r r"
  by (simp add: session_kept_def)

lemma character_kept_trans:
  "character_kept a b \<Longrightarrow> character_kept b c \<Longrightarrow> character_kept a c"
  by (simp add: character_kept_def)

lemma session_kept_trans:
  "session_kept a b \<Longrightarrow> session_kept b c \<Longrightarrow> session_kept a c"
  by (simp add: session_kept_def)

lemma character_kept_set:
  "character_kept r (set_AiCharacters (updateCharacter_updateData inp rt) r)"
  by (simp add: character_kept_def set_AiCharacters_def updateCharacter_updateData_def
      split: option.split)

lemma session_kept_set:
  "session_kept r (set_CharacterChatSessions (updateChatSession_updateData inp rt) r)"
  by (simp add: session_kept_def set_CharacterChatSessions_def updateChatSession_updateData_def
      split: option.split)

lemma run_update_kept:
  "list_all2 character_kept (characters db) (characters (run_update call db))
   \<and> list_all2 session_kept (sessions db) (sessions (run_update call db))"
proof (cases call)
  case (UpdateCharacter inp ctx rt)
  obtain res db' where r: "updateCharacter_handler inp ctx rt db = (res, db')"
    by (cases "updateCharacter_handler inp ctx rt db")
  from updateCharacter_tables [OF r]
  have "list_all2 character_kept (characters db) (characters db')"
    by (auto simp add: list_all2_same character_kept_refl character_kept_set
        intro!: list_all2_map_self)
  moreover from updateCharacter_tables [OF r]
  have "list_all2 session_kept (sessions db) (sessions db')"
    by (simp add: list_all2_same session_kept_refl)
  ultimately show ?thesis using UpdateCharacter r by simp
next
  case (UpdateChatSession inp ctx rt)
  obtain res db' where r: "updateChatSession_handler inp ctx rt db = (res, db')"
    by (cases "updateChatSession_handler inp ctx rt db")
  from updateChatSession_tables [OF r]
  have "list_all2 session_kept (sessions db) (sessions db')"
    by (auto simp add: list_all2_same session_kept_refl session_kept_set
        intro!: list_all2_map_self)
  moreover from updateChatSession_tables [OF r]
  have "list_all2 character_kept (characters db) (characters db')"
    by (simp add: list_all2_same character_kept_refl)
  ultimately show ?thesis using UpdateChatSession r by simp
qed

lemma run_updates_kept:
  "list_all2 character_kept (characters db) (characters (run_updates calls db))
   \<and> list_all2 session_kept (sessions db) (sessions (run_updates calls db))"
proof (induction calls arbitrary: db)
  case Nil
  show ?case by (simp add: list_all2_same character_kept_refl session_kept_refl)
next
  case (Cons call calls)
  from run_update_kept [of db call] Cons.IH [of "run_update call db"]
  show ?case
    by (auto intro: list_all2_trans [of character_kept character_kept character_kept]
        list_all2_trans [of session_kept session_kept session_kept]
        character_kept_trans session_kept_trans)
qed

section \<open>Properties of the actions\<close>

text \<open>
  An action is its handler behind its input schema: \<open>defineAction\<close> parses the input
  first and runs the handler only on input that has passed. The outcomes of
  \<open>createChatSession\<close>, the calls without an identity and the two list actions are stated
  on the action. The records that \<open>createCharacter\<close> and \<open>createChatMessage\<close> create are
  stated on the handler and on the action. The remaining properties are about the
  handlers, on every value of their input type, or about a schema itself. An insert fails
  when the new row's primary key is already in the table; the handler does not catch that
  failure.
\<close>

subsection \<open>listCharacters: who sees which character\<close>

text \<open>
  Claim C1, amended. For every content of the character table and every call of
  \<open>listCharacters\<close>, by any caller or none: a character is in the result if and only if it
  is public, or it is a system character, or \<open>includePrivate\<close> was requested as \<open>true\<close>
  and a caller with a non-empty identifier is present and the character's owner is that
  caller. The result keeps the table's order and \<open>total\<close> is its length. When
  \<open>includePrivate\<close> is not \<open>true\<close>, no character of the result has both
  \<open>isPublic = false\<close> and \<open>isSystem = false\<close>. No table is changed.
\<close>

theorem listCharacters_visibility:
  "\<exists>chars db'.
     listCharacters raw ctx rt db = (Inr \<lparr>items = chars, total = length chars\<rparr>, db')
   \<and> characters db' = characters db
   \<and> sessions db' = sessions db
   \<and> messages db' = messages db
   \<and> chars = filter
         (\<lambda>r. c_isPublic r \<or> c_isSystem r
              \<or> (lcr_includePrivate raw = Some True
                  \<and> (case context_user ctx of
                       None \<Rightarrow> False
                     | Some user \<Rightarrow> u_id user \<noteq> [] \<and> c_userId r = Some (u_id user))))
         (characters db)
   \<and> (\<forall>r. r \<in> set chars \<longleftrightarrow>
            r \<in> set (characters db)
          \<and> (c_isPublic r \<or> c_isSystem r
              \<or> (lcr_includePrivate raw = Some True
                  \<and> (\<exists>user. context_user ctx = Some user \<and> u_id user \<noteq> []
                        \<and> c_userId r = Some (u_id user)))))
   \<and> (lcr_includePrivate raw \<noteq> Some True \<longrightarrow>
         (\<forall>r \<in> set chars. \<not> (c_isPublic r = False \<and> c_isSystem r = False)))"
proof (cases "context_user ctx")
  case None
  then show ?thesis
    by (auto simp add: listCharacters_def defineAction_def listCharacters_schema_def
        listCharacters_handler_def select_AiCharacters_def truthy_def baseVisibility_fun Let_def
        split: option.splits)
next
  case (Some user)
  then show ?thesis
    by (cases "u_id user = []")
       (auto simp add: listCharacters_def defineAction_def listCharacters_schema_def
          listCharacters_handler_def select_AiCharacters_def truthy_def baseVisibility_fun
          Let_def
          split: option.splits intro!: filter_cong)
qed

text \<open>
  The claim as first stated asks only that a caller be present. It fails for a caller
  whose identifier is the empty string: \<open>input.includePrivate && userId\<close> is then falsy,
  the base filter is used, and the caller's own private character is left out although
  \<open>includePrivate\<close> was requested, a caller is present and the owner equals the caller.
\<close>

theorem listCharacters_empty_identifier:
  "context_user \<lparr>context_locals = Some \<lparr>locals_user = Some \<lparr>u_id = ''''\<rparr>\<rparr>\<rparr>
     = Some \<lparr>u_id = ''''\<rparr>
   \<and> c_userId
        \<lparr>c_id = ''c-1'', c_userId = Some '''', c_name = ''Diary'', c_slug = None,
         c_shortDescription = None, c_fullDescription = None, c_systemPrompt = None,
         c_speakingStyle = None, c_domain = None, c_avatarUrl = None,
         c_isSystem = False, c_isPublic = False, c_createdAt = 1000,
         c_updatedAt = 1000\<rparr>
       = Some (u_id \<lparr>u_id = ''''\<rparr>)
   \<and> fst (listCharacters \<lparr>lcr_includePrivate = Some True\<rparr>
         \<lparr>context_locals = Some \<lparr>locals_user = Some \<lparr>u_id = ''''\<rparr>\<rparr>\<rparr>
         \<lparr>new_Date = 2000, randomUUID = ''x''\<rparr>
         \<lparr>characters =
            [\<lparr>c_id = ''c-1'', c_userId = Some '''', c_name = ''Diary'', c_slug = None,
              c_shortDescription = None, c_fullDescription = None, c_systemPrompt = None,
              c_speakingStyle = None, c_domain = None, c_avatarUrl = None,
              c_isSystem = False, c_isPublic = False, c_createdAt = 1000,
              c_updatedAt = 1000\<rparr>],
          sessions = [], messages = [], accesses = []\<rparr>)
     = Inr \<lparr>items = [], total = 0\<rparr>"
  by (simp add: context_user_def listCharacters_def defineAction_def listCharacters_schema_def
      listCharacters_handler_def select_AiCharacters_def truthy_def baseVisibility_def Let_def)

text \<open>
  The amended property at concrete calls. \<open>bob\<close> owns the private \<open>c-1\<close>, \<open>amy\<close> the
  private \<open>c-2\<close> and the public \<open>c-3\<close>. Asking for his private characters too, \<open>bob\<close>
  gets \<open>c-1\<close> and \<open>c-3\<close>; not asking, he gets \<open>c-3\<close> alone.
\<close>

theorem listCharacters_visibility_witness:
  "fst (listCharacters \<lparr>lcr_includePrivate = Some True\<rparr>
         \<lparr>context_locals = Some \<lparr>locals_user = Some \<lparr>u_id = ''bob''\<rparr>\<rparr>\<rparr>
         \<lparr>new_Date = 2000, randomUUID = ''x''\<rparr>
         \<lparr>characters =
            [\<lparr>c_id = ''c-1'', c_userId = Some ''bob'', c_name = ''Diary'', c_slug = None,
              c_shortDescription = None, c_fullDescription = None, c_systemPrompt = None,
              c_speakingStyle = None, c_domain = None, c_avatarUrl = None,
              c_isSystem = False, c_isPublic = False, c_createdAt = 1000,
              c_updatedAt = 1000\<rparr>,
             \<lparr>c_id = ''c-2'', c_userId = Some ''amy'', c_name = ''Secret'', c_slug = None,
              c_shortDescription = None, c_fullDescription = None, c_systemPrompt = None,
              c_speakingStyle = None, c_domain = None, c_avatarUrl = None,
              c_isSystem = False, c_isPublic = False, c_createdAt = 1000,
              c_updatedAt = 1000\<rparr>,
             \<lparr>c_id = ''c-3'', c_userId = Some ''amy'', c_name = ''Mentor'', c_slug = None,
              c_shortDescription = None, c_fullDescription = None, c_systemPrompt = None,
              c_speakingStyle = None, c_domain = None, c_avatarUrl = None,
              c_isSystem = False, c_isPublic = True, c_createdAt = 1000,
              c_updatedAt = 1000\<rparr>],
          sessions = [], messages = [], accesses = []\<rparr>)
     = Inr \<lparr>items =
            [\<lparr>c_id = ''c-1'', c_userId = Some ''bob'', c_name = ''Diary'', c_slug = None,
              c_shortDescription = None, c_fullDescription = None, c_systemPrompt = None,
              c_speakingStyle = None, c_domain = None, c_avatarUrl = None,
              c_isSystem = False, c_isPublic = False, c_createdAt = 1000,
              c_updatedAt = 1000\<rparr>,
             \<lparr>c_id = ''c-3'', c_userId = Some ''amy'', c_name = ''Mentor'', c_slug = None,
              c_shortDescription = None, c_fullDescription = None, c_systemPrompt = None,
              c_speakingStyle = None, c_domain = None, c_avatarUrl = None,
              c_isSystem = False, c_isPublic = True, c_createdAt = 1000,
              c_updatedAt = 1000\<rparr>], total = 2\<rparr>
   \<and> lcr_includePrivate \<lparr>lcr_includePrivate = None\<rparr> \<noteq> Some True
   \<and> fst (listCharacters \<lparr>lcr_includePrivate = None\<rparr>
         \<lparr>context_locals = Some \<lparr>locals_user = Some \<lparr>u_id = ''bob''\<rparr>\<rparr>\<rparr>
         \<lparr>new_Date = 2000, randomUUID = ''x''\<rparr>
         \<lparr>characters =
            [\<lparr>c_id = ''c-1'', c_userId = Some ''bob'', c_name = ''Diary'', c_slug = None,
              c_shortDescription = None, c_fullDescription = None, c_systemPrompt = None,
              c_speakingStyle = None, c_domain = None, c_avatarUrl = None,
              c_isSystem = False, c_isPublic = False, c_createdAt = 1000,
              c_updatedAt = 1000\<rparr>,
             \<lparr>c_id = ''c-2'', c_userId = Some ''amy'', c_name = ''Secret'', c_slug = None,
              c_shortDescription = None, c_fullDescription = None, c_systemPrompt = None,
              c_speakingStyle = None, c_domain = None, c_avatarUrl = None,
              c_isSystem = False, c_isPublic = False, c_createdAt = 1000,
              c_updatedAt = 1000\<rparr>,
             \<lparr>c_id = ''c-3'', c_userId = Some ''amy'', c_name = ''Mentor'', c_slug = None,
              c_shortDescription = None, c_fullDescription = None, c_systemPrompt = None,
              c_speakingStyle = None, c_domain = None, c_avatarUrl = None,
              c_isSystem = False, c_isPublic = True, c_createdAt = 1000,
              c_updatedAt = 1000\<rparr>],
          sessions = [], messages = [], accesses = []\<rparr>)
     = Inr \<lparr>items =
            [\<lparr>c_id = ''c-3'', c_userId = Some ''amy'', c_name = ''Mentor'', c_slug = None,
              c_shortDescription = None, c_fullDescription = None, c_systemPrompt = None,
              c_speakingStyle = None, c_domain = None, c_avatarUrl = None,
              c_isSystem = False, c_isPublic = True, c_createdAt = 1000,
              c_updatedAt = 1000\<rparr>], total = 1\<rparr>"
  using
    listCharacters_visibility
      [of "\<lparr>lcr_includePrivate = Some True\<rparr>"
          "\<lparr>context_locals = Some \<lparr>locals_user = Some \<lparr>u_id = ''bob''\<rparr>\<rparr>\<rparr>"
          "\<lparr>new_Date = 2000, randomUUID = ''x''\<rparr>"
          "\<lparr>characters =
            [\<lparr>c_id = ''c-1'', c_userId = Some ''bob'', c_name = ''Diary'', c_slug = None,
              c_shortDescription = None, c_fullDescription = None, c_systemPrompt = None,
              c_speakingStyle = None, c_domain = None, c_avatarUrl = None,
              c_isSystem = False, c_isPublic = False, c_createdAt = 1000,
              c_updatedAt = 1000\<rparr>,
             \<lparr>c_id = ''c-2'', c_userId = Some ''amy'', c_name = ''Secret'', c_slug = None,
              c_shortDescription = None, c_fullDescription = None, c_systemPrompt = None,
              c_speakingStyle = None, c_domain = None, c_avatarUrl = None,
              c_isSystem = False, c_isPublic = False, c_createdAt = 1000,
              c_updatedAt = 1000\<rparr>,
             \<lparr>c_id = ''c-3'', c_userId = Some ''amy'', c_name = ''Mentor'', c_slug = None,
              c_shortDescription = None, c_fullDescription = None, c_systemPrompt = None,
              c_speakingStyle = None, c_domain = None, c_avatarUrl = None,
              c_isSystem = False, c_isPublic = True, c_createdAt = 1000,
              c_updatedAt = 1000\<rparr>],
          sessions = [], messages = [], accesses = []\<rparr>"]
    listCharacters_visibility
      [of "\<lparr>lcr_includePrivate = None\<rparr>"
          "\<lparr>context_locals = Some \<lparr>locals_user = Some \<lparr>u_id = ''bob''\<rparr>\<rparr>\<rparr>"
          "\<lparr>new_Date = 2000, randomUUID = ''x''\<rparr>"
          "\<lparr>characters =
            [\<lparr>c_id = ''c-1'', c_userId = Some ''bob'', c_name = ''Diary'', c_slug = None,
              c_shortDescription = None, c_fullDescription = None, c_systemPrompt = None,
              c_speakingStyle = None, c_domain = None, c_avatarUrl = None,
              c_isSystem = False, c_isPublic = False, c_createdAt = 1000,
              c_updatedAt = 1000\<rparr>,
             \<lparr>c_id = ''c-2'', c_userId = Some ''amy'', c_name = ''Secret'', c_slug = None,
              c_shortDescription = None, c_fullDescription = None, c_systemPrompt = None,
              c_speakingStyle = None, c_domain = None, c_avatarUrl = None,
              c_isSystem = False, c_isPublic = False, c_createdAt = 1000,
              c_updatedAt = 1000\<rparr>,
             \<lparr>c_id = ''c-3'', c_userId = Some ''amy'', c_name = ''Mentor'', c_slug = None,
              c_shortDescription = None, c_fullDescription = None, c_systemPrompt = None,
              c_speakingStyle = None, c_domain = None, c_avatarUrl = None,
              c_isSystem = False, c_isPublic = True, c_createdAt = 1000,
              c_updatedAt = 1000\<rparr>],
          sessions = [], messages = [], accesses = []\<rparr>"]
  by (simp add: context_user_def listCharacters_def defineAction_def listCharacters_schema_def
      listCharacters_handler_def select_AiCharacters_def truthy_def baseVisibility_def Let_def)

subsection \<open>Owner-scoped actions: absent and foreign rows look the same\<close>

text \<open>
  Claim C2. For an authenticated caller, each of \<open>updateCharacter\<close>, \<open>updateChatSession\<close>,
  \<open>createChatMessage\<close> and \<open>listChatMessages\<close> answers a call on a row that does not
  exist (store \<open>dbA\<close>) and the same call on a row that exists but belongs to someone else
  (store \<open>dbB\<close>) with the same value: the \<open>FORBIDDEN\<close> error with one fixed message. In
  both cases no table is changed, so nothing the caller can observe tells the two apart.
\<close>

theorem absent_and_foreign_indistinguishable:
  assumes "context_user ctx = Some user"
  shows
    "(find (\<lambda>r. c_id r = uc_id uc) (characters dbA) = None
        \<and> find (\<lambda>r. c_id r = uc_id uc) (characters dbB) = Some character
        \<and> c_userId character \<noteq> Some (u_id user)
      \<longrightarrow> fst (updateCharacter_handler uc ctx rt dbA) = fst (updateCharacter_handler uc ctx rt dbB)
        \<and> fst (updateCharacter_handler uc ctx rt dbA)
            = Inl (ActionError FORBIDDEN ''Character not found or you do not have access.'')
        \<and> characters (snd (updateCharacter_handler uc ctx rt dbA)) = characters dbA
        \<and> characters (snd (updateCharacter_handler uc ctx rt dbB)) = characters dbB)
   \<and> (find (\<lambda>r. s_id r = us_id us) (sessions dbA) = None
        \<and> find (\<lambda>r. s_id r = us_id us) (sessions dbB) = Some session
        \<and> s_userId session \<noteq> u_id user
      \<longrightarrow> fst (updateChatSession_handler us ctx rt dbA) = fst (updateChatSession_handler us ctx rt dbB)
        \<and> fst (updateChatSession_handler us ctx rt dbA)
            = Inl (ActionError FORBIDDEN ''Session not found or you do not have access.'')
        \<and> sessions (snd (updateChatSession_handler us ctx rt dbA)) = sessions dbA
        \<and> sessions (snd (updateChatSession_handler us ctx rt dbB)) = sessions dbB)
   \<and> (find (\<lambda>r. s_id r = cm_sessionId cm) (sessions dbA) = None
        \<and> find (\<lambda>r. s_id r = cm_sessionId cm) (sessions dbB) = Some session
        \<and> s_userId session \<noteq> u_id user
      \<longrightarrow> fst (createChatMessage_handler stringify cm ctx rt dbA)
            = fst (createChatMessage_handler stringify cm ctx rt dbB)
        \<and> fst (createChatMessage_handler stringify cm ctx rt dbA)
            = Inl (ActionError FORBIDDEN ''Session not found or you do not have access.'')
        \<and> sessions (snd (createChatMessage_handler stringify cm ctx rt dbA)) = sessions dbA
        \<and> messages (snd (createChatMessage_handler stringify cm ctx rt dbA)) = messages dbA
        \<and> sessions (snd (createChatMessage_handler stringify cm ctx rt dbB)) = sessions dbB
        \<and> messages (snd (createChatMessage_handler stringify cm ctx rt dbB)) = messages dbB)
   \<and> (find (\<lambda>r. s_id r = lm_sessionId lm) (sessions dbA) = None
        \<and> find (\<lambda>r. s_id r = lm_sessionId lm) (sessions dbB) = Some session
        \<and> s_userId session \<noteq> u_id user
      \<longrightarrow> fst (listChatMessages_handler lm ctx rt dbA) = fst (listChatMessages_handler lm ctx rt dbB)
        \<and> fst (listChatMessages_handler lm ctx rt dbA)
            = Inl (ActionError FORBIDDEN ''Session not found or you do not have access.''))"
  using assms
  by (simp add: updateCharacter_absent updateCharacter_foreign
      updateChatSession_absent updateChatSession_foreign
      createChatMessage_absent createChatMessage_foreign
      listChatMessages_absent listChatMessages_foreign)

text \<open>
  At a concrete call: \<open>bob\<close> addresses character \<open>c-2\<close> and session \<open>s-9\<close>, once against an
  empty store and once against a store where both exist and belong to \<open>amy\<close>.
\<close>

theorem absent_and_foreign_indistinguishable_witness:
  "context_user \<lparr>context_locals = Some \<lparr>locals_user = Some \<lparr>u_id = ''bob''\<rparr>\<rparr>\<rparr>
     = Some \<lparr>u_id = ''bob''\<rparr>
   \<and> find (\<lambda>r. c_id r = uc_id
        \<lparr>uc_id = ''c-2'', uc_name = Some ''Mine'', uc_slug = None,
         uc_shortDescription = None, uc_fullDescription = None, uc_systemPrompt = None,
         uc_speakingStyle = None, uc_domain = None, uc_avatarUrl = None,
         uc_isPublic = None\<rparr>) (characters \<lparr>characters = [], sessions = [], messages = [], accesses = []\<rparr>) = None
   \<and> find (\<lambda>r. c_id r = uc_id
        \<lparr>uc_id = ''c-2'', uc_name = Some ''Mine'', uc_slug = None,
         uc_shortDescription = None, uc_fullDescription = None, uc_systemPrompt = None,
         uc_speakingStyle = None, uc_domain = None, uc_avatarUrl = None,
         uc_isPublic = None\<rparr>)
        (characters
        \<lparr>characters =
           [\<lparr>c_id = ''c-2'', c_userId = Some ''amy'', c_name = ''Secret'', c_slug = None,
             c_shortDescription = None, c_fullDescription = None, c_systemPrompt = None,
             c_speakingStyle = None, c_domain = None, c_avatarUrl = None,
             c_isSystem = False, c_isPublic = False, c_createdAt = 1000,
             c_updatedAt = 1000\<rparr>],
         sessions =
           [\<lparr>s_id = ''s-9'', s_characterId = ''c-2'', s_userId = ''amy'', s_title = None,
             s_contextSummary = None, s_isPinned = False, s_isArchived = False,
             s_createdAt = 1000, s_updatedAt = 1000, s_lastMessageAt = None\<rparr>],
         messages = [], accesses = []\<rparr>)
     = Some \<lparr>c_id = ''c-2'', c_userId = Some ''amy'', c_name = ''Secret'', c_slug = None,
             c_shortDescription = None, c_fullDescription = None, c_systemPrompt = None,
             c_speakingStyle = None, c_domain = None, c_avatarUrl = None,
             c_isSystem = False, c_isPublic = False, c_createdAt = 1000,
             c_updatedAt = 1000\<rparr>
   \<and> c_userId \<lparr>c_id = ''c-2'', c_userId = Some ''amy'', c_name = ''Secret'', c_slug = None,
             c_shortDescription = None, c_fullDescription = None, c_systemPrompt = None,
             c_speakingStyle = None, c_domain = None, c_avatarUrl = None,
             c_isSystem = False, c_isPublic = False, c_createdAt = 1000,
             c_updatedAt = 1000\<rparr>
     \<noteq> Some (u_id \<lparr>u_id = ''bob''\<rparr>)
   \<and> find (\<lambda>r. s_id r = ''s-9'') (sessions \<lparr>characters = [], sessions = [], messages = [], accesses = []\<rparr>) = None
   \<and> find (\<lambda>r. s_id r = ''s-9'')
        (sessions
        \<lparr>characters =
           [\<lparr>c_id = ''c-2'', c_userId = Some ''amy'', c_name = ''Secret'', c_slug = None,
             c_shortDescription = None, c_fullDescription = None, c_systemPrompt = None,
             c_speakingStyle = None, c_domain = None, c_avatarUrl = None,
             c_isSystem = False, c_isPublic = False, c_createdAt = 1000,
             c_updatedAt = 1000\<rparr>],
         sessions =
           [\<lparr>s_id = ''s-9'', s_characterId = ''c-2'', s_userId = ''amy'', s_title = None,
             s_contextSummary = None, s_isPinned = False, s_isArchived = False,
             s_createdAt = 1000, s_updatedAt = 1000, s_lastMessageAt = None\<rparr>],
         messages = [], accesses = []\<rparr>)
     = Some \<lparr>s_id = ''s-9'', s_characterId = ''c-2'', s_userId = ''amy'', s_title = None,
             s_contextSummary = None, s_isPinned = False, s_isArchived = False,
             s_createdAt = 1000, s_updatedAt = 1000, s_lastMessageAt = None\<rparr>
   \<and> s_userId \<lparr>s_id = ''s-9'', s_characterId = ''c-2'', s_userId = ''amy'', s_title = None,
             s_contextSummary = None, s_isPinned = False, s_isArchived = False,
             s_createdAt = 1000, s_updatedAt = 1000, s_lastMessageAt = None\<rparr>
     \<noteq> u_id \<lparr>u_id = ''bob''\<rparr>
   \<and> fst (updateCharacter_handler
        \<lparr>uc_id = ''c-2'', uc_name = Some ''Mine'', uc_slug = None,
         uc_shortDescription = None, uc_fullDescription = None, uc_systemPrompt = None,
         uc_speakingStyle = None, uc_domain = None, uc_avatarUrl = None,
         uc_isPublic = None\<rparr>
        \<lparr>context_locals = Some \<lparr>locals_user = Some \<lparr>u_id = ''bob''\<rparr>\<rparr>\<rparr>
        \<lparr>new_Date = 2000, randomUUID = ''x''\<rparr>
        \<lparr>characters = [], sessions = [], messages = [], accesses = []\<rparr>)
     = Inl (ActionError FORBIDDEN ''Character not found or you do not have access.'')
   \<and> fst (updateCharacter_handler
        \<lparr>uc_id = ''c-2'', uc_name = Some ''Mine'', uc_slug = None,
         uc_shortDescription = None, uc_fullDescription = None, uc_systemPrompt = None,
         uc_speakingStyle = None, uc_domain = None, uc_avatarUrl = None,
         uc_isPublic = None\<rparr>
        \<lparr>context_locals = Some \<lparr>locals_user = Some \<lparr>u_id = ''bob''\<rparr>\<rparr>\<rparr>
        \<lparr>new_Date = 2000, randomUUID = ''x''\<rparr>
        \<lparr>characters =
           [\<lparr>c_id = ''c-2'', c_userId = Some ''amy'', c_name = ''Secret'', c_slug = None,
             c_shortDescription = None, c_fullDescription = None, c_systemPrompt = None,
             c_speakingStyle = None, c_domain = None, c_avatarUrl = None,
             c_isSystem = False, c_isPublic = False, c_createdAt = 1000,
             c_updatedAt = 1000\<rparr>],
         sessions =
           [\<lparr>s_id = ''s-9'', s_characterId = ''c-2'', s_userId = ''amy'', s_title = None,
             s_contextSummary = None, s_isPinned = False, s_isArchived = False,
             s_createdAt = 1000, s_updatedAt = 1000, s_lastMessageAt = None\<rparr>],
         messages = [], accesses = []\<rparr>)
     = Inl (ActionError FORBIDDEN ''Character not found or you do not have access.'')
   \<and> fst (updateChatSession_handler
        \<lparr>us_id = ''s-9'', us_title = Some ''Mine'', us_contextSummary = None,
         us_isPinned = None, us_isArchived = None\<rparr>
        \<lparr>context_locals = Some \<lparr>locals_user = Some \<lparr>u_id = ''bob''\<rparr>\<rparr>\<rparr>
        \<lparr>new_Date = 2000, randomUUID = ''x''\<rparr>
        \<lparr>characters = [], sessions = [], messages = [], accesses = []\<rparr>)
     = Inl (ActionError FORBIDDEN ''Session not found or you do not have access.'')
   \<and> fst (updateChatSession_handler
        \<lparr>us_id = ''s-9'', us_title = Some ''Mine'', us_contextSummary = None,
         us_isPinned = None, us_isArchived = None\<rparr>
        \<lparr>context_locals = Some \<lparr>locals_user = Some \<lparr>u_id = ''bob''\<rparr>\<rparr>\<rparr>
        \<lparr>new_Date = 2000, randomUUID = ''x''\<rparr>
        \<lparr>characters =
           [\<lparr>c_id = ''c-2'', c_userId = Some ''amy'', c_name = ''Secret'', c_slug = None,
             c_shortDescription = None, c_fullDescription = None, c_systemPrompt = None,
             c_speakingStyle = None, c_domain = None, c_avatarUrl = None,
             c_isSystem = False, c_isPublic = False, c_createdAt = 1000,
             c_updatedAt = 1000\<rparr>],
         sessions =
           [\<lparr>s_id = ''s-9'', s_characterId = ''c-2'', s_userId = ''amy'', s_title = None,
             s_contextSummary = None, s_isPinned = False, s_isArchived = False,
             s_createdAt = 1000, s_updatedAt = 1000, s_lastMessageAt = None\<rparr>],
         messages = [], accesses = []\<rparr>)
     = Inl (ActionError FORBIDDEN ''Session not found or you do not have access.'')
   \<and> fst (createChatMessage_handler (\<lambda>j. j)
        \<lparr>cm_sessionId = ''s-9'', cm_senderRole = ''user'', cm_content = ''hello'',
         cm_metadata = (None :: string option)\<rparr>
        \<lparr>context_locals = Some \<lparr>locals_user = Some \<lparr>u_id = ''bob''\<rparr>\<rparr>\<rparr>
        \<lparr>new_Date = 2000, randomUUID = ''x''\<rparr>
        \<lparr>characters = [], sessions = [], messages = [], accesses = []\<rparr>)
     = Inl (ActionError FORBIDDEN ''Session not found or you do not have access.'')
   \<and> fst (createChatMessage_handler (\<lambda>j. j)
        \<lparr>cm_sessionId = ''s-9'', cm_senderRole = ''user'', cm_content = ''hello'',
         cm_metadata = (None :: string option)\<rparr>
        \<lparr>context_locals = Some \<lparr>locals_user = Some \<lparr>u_id = ''bob''\<rparr>\<rparr>\<rparr>
        \<lparr>new_Date = 2000, randomUUID = ''x''\<rparr>
        \<lparr>characters =
           [\<lparr>c_id = ''c-2'', c_userId = Some ''amy'', c_name = ''Secret'', c_slug = None,
             c_shortDescription = None, c_fullDescription = None, c_systemPrompt = None,
             c_speakingStyle = None, c_domain = None, c_avatarUrl = None,
             c_isSystem = False, c_isPublic = False, c_createdAt = 1000,
             c_updatedAt = 1000\<rparr>],
         sessions =
           [\<lparr>s_id = ''s-9'', s_characterId = ''c-2'', s_userId = ''amy'', s_title = None,
             s_contextSummary = None, s_isPinned = False, s_isArchived = False,
             s_createdAt = 1000, s_updatedAt = 1000, s_lastMessageAt = None\<rparr>],
         messages = [], accesses = []\<rparr>)
     = Inl (ActionError FORBIDDEN ''Session not found or you do not have access.'')
   \<and> fst (listChatMessages_handler
        \<lparr>lm_sessionId = ''s-9''\<rparr>
        \<lparr>context_locals = Some \<lparr>locals_user = Some \<lparr>u_id = ''bob''\<rparr>\<rparr>\<rparr>
        \<lparr>new_Date = 2000, randomUUID = ''x''\<rparr>
        \<lparr>characters = [], sessions = [], messages = [], accesses = []\<rparr>)
     = Inl (ActionError FORBIDDEN ''Session not found or you do not have access.'')
   \<and> fst (listChatMessages_handler
        \<lparr>lm_sessionId = ''s-9''\<rparr>
        \<lparr>context_locals = Some \<lparr>locals_user = Some \<lparr>u_id = ''bob''\<rparr>\<rparr>\<rparr>
        \<lparr>new_Date = 2000, randomUUID = ''x''\<rparr>
        \<lparr>characters =
           [\<lparr>c_id = ''c-2'', c_userId = Some ''amy'', c_name = ''Secret'', c_slug = None,
             c_shortDescription = None, c_fullDescription = None, c_systemPrompt = None,
             c_speakingStyle = None, c_domain = None, c_avatarUrl = None,
             c_isSystem = False, c_isPublic = False, c_createdAt = 1000,
             c_updatedAt = 1000\<rparr>],
         sessions =
           [\<lparr>s_id = ''s-9'', s_characterId = ''c-2'', s_userId = ''amy'', s_title = None,
             s_contextSummary = None, s_isPinned = False, s_isArchived = False,
             s_createdAt = 1000, s_updatedAt = 1000, s_lastMessageAt = None\<rparr>],
         messages = [], accesses = []\<rparr>)
     = Inl (ActionError FORBIDDEN ''Session not found or you do not have access.'')"
  using absent_and_foreign_indistinguishable
    [where ctx = "\<lparr>context_locals = Some \<lparr>locals_user = Some \<lparr>u_id = ''bob''\<rparr>\<rparr>\<rparr>"
       and user = "\<lparr>u_id = ''bob''\<rparr>"
       and rt = "\<lparr>new_Date = 2000, randomUUID = ''x''\<rparr>"
       and dbA = "\<lparr>characters = [], sessions = [], messages = [], accesses = []\<rparr>"
       and dbB = "\<lparr>characters =
           [\<lparr>c_id = ''c-2'', c_userId = Some ''amy'', c_name = ''Secret'', c_slug = None,
             c_shortDescription = None, c_fullDescription = None, c_systemPrompt = None,
             c_speakingStyle = None, c_domain = None, c_avatarUrl = None,
             c_isSystem = False, c_isPublic = False, c_createdAt = 1000,
             c_updatedAt = 1000\<rparr>],
         sessions =
           [\<lparr>s_id = ''s-9'', s_characterId = ''c-2'', s_userId = ''amy'', s_title = None,
             s_contextSummary = None, s_isPinned = False, s_isArchived = False,
             s_createdAt = 1000, s_updatedAt = 1000, s_lastMessageAt = None\<rparr>],
         messages = [], accesses = []\<rparr>"
       and character = "\<lparr>c_id = ''c-2'', c_userId = Some ''amy'', c_name = ''Secret'', c_slug = None,
             c_shortDescription = None, c_fullDescription = None, c_systemPrompt = None,
             c_speakingStyle = None, c_domain = None, c_avatarUrl = None,
             c_isSystem = False, c_isPublic = False, c_createdAt = 1000,
             c_updatedAt = 1000\<rparr>"
       and session = "\<lparr>s_id = ''s-9'', s_characterId = ''c-2'', s_userId = ''amy'', s_title = None,
             s_contextSummary = None, s_isPinned = False, s_isArchived = False,
             s_createdAt = 1000, s_updatedAt = 1000, s_lastMessageAt = None\<rparr>"
       and uc = "\<lparr>uc_id = ''c-2'', uc_name = Some ''Mine'', uc_slug = None,
         uc_shortDescription = None, uc_fullDescription = None, uc_systemPrompt = None,
         uc_speakingStyle = None, uc_domain = None, uc_avatarUrl = None,
         uc_isPublic = None\<rparr>"
       and us = "\<lparr>us_id = ''s-9'', us_title = Some ''Mine'', us_contextSummary = None,
         us_isPinned = None, us_isArchived = None\<rparr>"
       and cm = "\<lparr>cm_sessionId = ''s-9'', cm_senderRole = ''user'', cm_content = ''hello'',
         cm_metadata = (None :: string option)\<rparr>"
       and stringify = "\<lambda>j. j"
       and lm = "\<lparr>lm_sessionId = ''s-9''\<rparr>"]
  by (simp add: context_user_def requireUser_def updateCharacter_handler_def
      updateChatSession_handler_def createChatMessage_handler_def listChatMessages_handler_def
      select_AiCharacters_def select_CharacterChatSessions_def)

subsection \<open>createChatSession: invalid, not found, forbidden, created\<close>

lemma createChatSession_valid:
  "cs_characterId raw \<noteq> [] \<Longrightarrow>
     createChatSession raw ctx rt db = createChatSession_handler raw ctx rt db"
  by (cases "cs_characterId raw")
    (simp_all add: createChatSession_def defineAction_def createChatSession_schema_def min1_def)

lemma createChatSession_invalid:
  "cs_characterId raw = [] \<Longrightarrow>
     createChatSession raw ctx rt db = (Inl ActionInputError, db)"
  by (simp add: createChatSession_def defineAction_def createChatSession_schema_def min1_def)

lemma find_character_id:
  "find (\<lambda>r. c_id r = k) xs = Some character \<Longrightarrow> c_id character = k"
  by (induction xs) (auto split: if_splits)

text \<open>
  Claim C3. For an authenticated caller, the action \<open>createChatSession\<close> has five
  outcomes. An empty \<open>characterId\<close> does not pass the input schema: the action fails with
  the validation error before any lookup, also when no character has that id. With a
  non-empty \<open>characterId\<close> it fails with \<open>NOT_FOUND\<close> when no character has that id, and
  with \<open>FORBIDDEN\<close> when the character exists but is not public, not a system character and
  not owned by the caller. Otherwise, when the generated id is not yet a session's id, it
  succeeds: it appends one session to the session table and returns it, owned by the
  caller, referring to that character, with \<open>isPinned = false\<close>, \<open>isArchived = false\<close>,
  \<open>contextSummary = null\<close>, \<open>lastMessageAt = null\<close> and \<open>createdAt = updatedAt\<close> = the time
  of the call; and when the generated id is already a session's id, the insert violates
  the primary key and the action fails. Every failure leaves the session table as it was.
\<close>

theorem createChatSession_outcomes:
  assumes "context_user ctx = Some user"
  shows
    "(cs_characterId inp = [] \<longrightarrow>
        createChatSession inp ctx rt db = (Inl ActionInputError, db))
   \<and> (cs_characterId inp \<noteq> [] \<longrightarrow>
        (find (\<lambda>r. c_id r = cs_characterId inp) (characters db) = None \<longrightarrow>
           fst (createChatSession inp ctx rt db)
             = Inl (ActionError NOT_FOUND ''Character not found.'')
           \<and> sessions (snd (createChatSession inp ctx rt db)) = sessions db)
      \<and> (\<forall>character.
           find (\<lambda>r. c_id r = cs_characterId inp) (characters db) = Some character \<longrightarrow>
             (\<not> c_isPublic character \<and> \<not> c_isSystem character
                \<and> c_userId character \<noteq> Some (u_id user) \<longrightarrow>
                 fst (createChatSession inp ctx rt db)
                   = Inl (ActionError FORBIDDEN ''You do not have access to this character.'')
                 \<and> sessions (snd (createChatSession inp ctx rt db)) = sessions db)
           \<and> ((c_isPublic character \<or> c_isSystem character
                 \<or> c_userId character = Some (u_id user))
                \<and> randomUUID rt \<notin> set (map s_id (sessions db)) \<longrightarrow>
                 (\<exists>session.
                    fst (createChatSession inp ctx rt db) = Inr session
                  \<and> sessions (snd (createChatSession inp ctx rt db))
                      = sessions db @ [session]
                  \<and> characters (snd (createChatSession inp ctx rt db)) = characters db
                  \<and> messages (snd (createChatSession inp ctx rt db)) = messages db
                  \<and> s_id session = randomUUID rt
                  \<and> s_userId session = u_id user
                  \<and> s_characterId session = cs_characterId inp
                  \<and> s_characterId session = c_id character
                  \<and> s_isPinned session = False
                  \<and> s_isArchived session = False
                  \<and> s_contextSummary session = None
                  \<and> s_lastMessageAt session = None
                  \<and> s_createdAt session = new_Date rt
                  \<and> s_updatedAt session = new_Date rt))
           \<and> ((c_isPublic character \<or> c_isSystem character
                 \<or> c_userId character = Some (u_id user))
                \<and> randomUUID rt \<in> set (map s_id (sessions db)) \<longrightarrow>
                 fst (createChatSession inp ctx rt db)
                   = Inl (Uncaught (UniqueConstraintFailed CharacterChatSessions))
                 \<and> sessions (snd (createChatSession inp ctx rt db)) = sessions db)))"
proof (intro conjI impI allI)
  assume "cs_characterId inp = []"
  then show "createChatSession inp ctx rt db = (Inl ActionInputError, db)"
    by (rule createChatSession_invalid)
next
  assume ne: "cs_characterId inp \<noteq> []"
    and "find (\<lambda>r. c_id r = cs_characterId inp) (characters db) = None"
  from createChatSession_absent [OF assms this(2), of rt]
    createChatSession_valid [OF ne, of ctx rt db]
  show "fst (createChatSession inp ctx rt db)
          = Inl (ActionError NOT_FOUND ''Character not found.'')"
    and "sessions (snd (createChatSession inp ctx rt db)) = sessions db"
    by simp_all
next
  fix character
  assume ne: "cs_characterId inp \<noteq> []"
    and f: "find (\<lambda>r. c_id r = cs_characterId inp) (characters db) = Some character"
    and h: "\<not> c_isPublic character \<and> \<not> c_isSystem character
             \<and> c_userId character \<noteq> Some (u_id user)"
  from h have "\<not> c_isPublic character" "\<not> c_isSystem character"
    "c_userId character \<noteq> Some (u_id user)"
    by simp_all
  from createChatSession_hidden [OF assms f this, of rt]
    createChatSession_valid [OF ne, of ctx rt db]
  show "fst (createChatSession inp ctx rt db)
          = Inl (ActionError FORBIDDEN ''You do not have access to this character.'')"
    and "sessions (snd (createChatSession inp ctx rt db)) = sessions db"
    by simp_all
next
  fix character
  assume ne: "cs_characterId inp \<noteq> []"
    and f: "find (\<lambda>r. c_id r = cs_characterId inp) (characters db) = Some character"
    and v: "(c_isPublic character \<or> c_isSystem character
              \<or> c_userId character = Some (u_id user))
            \<and> randomUUID rt \<notin> set (map s_id (sessions db))"
  from v have v1: "c_isPublic character \<or> c_isSystem character
                    \<or> c_userId character = Some (u_id user)"
    and v2: "randomUUID rt \<notin> set (map s_id (sessions db))"
    by simp_all
  from createChatSession_visible [OF assms f v1 v2]
    createChatSession_valid [OF ne, of ctx rt db] find_character_id [OF f]
  show "\<exists>session.
                    fst (createChatSession inp ctx rt db) = Inr session
                  \<and> sessions (snd (createChatSession inp ctx rt db))
                      = sessions db @ [session]
                  \<and> characters (snd (createChatSession inp ctx rt db)) = characters db
                  \<and> messages (snd (createChatSession inp ctx rt db)) = messages db
                  \<and> s_id session = randomUUID rt
                  \<and> s_userId session = u_id user
                  \<and> s_characterId session = cs_characterId inp
                  \<and> s_characterId session = c_id character
                  \<and> s_isPinned session = False
                  \<and> s_isArchived session = False
                  \<and> s_contextSummary session = None
                  \<and> s_lastMessageAt session = None
                  \<and> s_createdAt session = new_Date rt
                  \<and> s_updatedAt session = new_Date rt"
    by simp
next
  fix character
  assume ne: "cs_characterId inp \<noteq> []"
    and f: "find (\<lambda>r. c_id r = cs_characterId inp) (characters db) = Some character"
    and v: "(c_isPublic character \<or> c_isSystem character
              \<or> c_userId character = Some (u_id user))
            \<and> randomUUID rt \<in> set (map s_id (sessions db))"
  from v have v1: "c_isPublic character \<or> c_isSystem character
                    \<or> c_userId character = Some (u_id user)"
    and v2: "randomUUID rt \<in> set (map s_id (sessions db))"
    by simp_all
  from createChatSession_collision [OF assms f v1 v2]
    createChatSession_valid [OF ne, of ctx rt db]
  show "fst (createChatSession inp ctx rt db)
          = Inl (Uncaught (UniqueConstraintFailed CharacterChatSessions))"
    and "sessions (snd (createChatSession inp ctx rt db)) = sessions db"
    by simp_all
qed

text \<open>
  Two calls by \<open>bob\<close> that the three outcomes of the specification do not cover. With the
  empty \<open>characterId\<close>, which no character has, the action fails with the validation error
  (code \<open>BAD_REQUEST\<close>), not with \<open>NOT_FOUND\<close>, and does not look the character up. With
  the public character \<open>c-1\<close> and a generated id \<open>s-1\<close> that a session already has, the
  action does not succeed: the insert fails and the session table is unchanged.
\<close>

theorem createChatSession_invalid_or_collision:
  "context_user \<lparr>context_locals = Some \<lparr>locals_user = Some \<lparr>u_id = ''bob''\<rparr>\<rparr>\<rparr>
     = Some \<lparr>u_id = ''bob''\<rparr>
   \<and> find (\<lambda>r. c_id r = '''')
         (characters
         \<lparr>characters =
           [\<lparr>c_id = ''c-1'', c_userId = Some ''amy'', c_name = ''Mentor'', c_slug = None,
             c_shortDescription = None, c_fullDescription = None, c_systemPrompt = None,
             c_speakingStyle = None, c_domain = None, c_avatarUrl = None,
             c_isSystem = False, c_isPublic = True, c_createdAt = 1000,
             c_updatedAt = 1000\<rparr>,
            \<lparr>c_id = ''c-2'', c_userId = Some ''amy'', c_name = ''Diary'', c_slug = None,
             c_shortDescription = None, c_fullDescription = None, c_systemPrompt = None,
             c_speakingStyle = None, c_domain = None, c_avatarUrl = None,
             c_isSystem = False, c_isPublic = False, c_createdAt = 1000,
             c_updatedAt = 1000\<rparr>],
          sessions = [], messages = [], accesses = []\<rparr>) = None
   \<and> createChatSession \<lparr>cs_characterId = '''', cs_title = None\<rparr>
         \<lparr>context_locals = Some \<lparr>locals_user = Some \<lparr>u_id = ''bob''\<rparr>\<rparr>\<rparr>
         \<lparr>new_Date = 2000, randomUUID = ''s-1''\<rparr>
         \<lparr>characters =
           [\<lparr>c_id = ''c-1'', c_userId = Some ''amy'', c_name = ''Mentor'', c_slug = None,
             c_shortDescription = None, c_fullDescription = None, c_systemPrompt = None,
             c_speakingStyle = None, c_domain = None, c_avatarUrl = None,
             c_isSystem = False, c_isPublic = True, c_createdAt = 1000,
             c_updatedAt = 1000\<rparr>,
            \<lparr>c_id = ''c-2'', c_userId = Some ''amy'', c_name = ''Diary'', c_slug = None,
             c_shortDescription = None, c_fullDescription = None, c_systemPrompt = None,
             c_speakingStyle = None, c_domain = None, c_avatarUrl = None,
             c_isSystem = False, c_isPublic = False, c_createdAt = 1000,
             c_updatedAt = 1000\<rparr>],
          sessions = [], messages = [], accesses = []\<rparr>
     = (Inl ActionInputError,
         \<lparr>characters =
           [\<lparr>c_id = ''c-1'', c_userId = Some ''amy'', c_name = ''Mentor'', c_slug = None,
             c_shortDescription = None, c_fullDescription = None, c_systemPrompt = None,
             c_speakingStyle = None, c_domain = None, c_avatarUrl = None,
             c_isSystem = False, c_isPublic = True, c_createdAt = 1000,
             c_updatedAt = 1000\<rparr>,
            \<lparr>c_id = ''c-2'', c_userId = Some ''amy'', c_name = ''Diary'', c_slug = None,
             c_shortDescription = None, c_fullDescription = None, c_systemPrompt = None,
             c_speakingStyle = None, c_domain = None, c_avatarUrl = None,
             c_isSystem = False, c_isPublic = False, c_createdAt = 1000,
             c_updatedAt = 1000\<rparr>],
          sessions = [], messages = [], accesses = []\<rparr>)
   \<and> code ActionInputError = BAD_REQUEST
   \<and> BAD_REQUEST \<noteq> NOT_FOUND
   \<and> find (\<lambda>r. c_id r = ''c-1'')
         (characters
         \<lparr>characters =
           [\<lparr>c_id = ''c-1'', c_userId = Some ''amy'', c_name = ''Mentor'', c_slug = None,
             c_shortDescription = None, c_fullDescription = None, c_systemPrompt = None,
             c_speakingStyle = None, c_domain = None, c_avatarUrl = None,
             c_isSystem = False, c_isPublic = True, c_createdAt = 1000,
             c_updatedAt = 1000\<rparr>,
            \<lparr>c_id = ''c-2'', c_userId = Some ''amy'', c_name = ''Diary'', c_slug = None,
             c_shortDescription = None, c_fullDescription = None, c_systemPrompt = None,
             c_speakingStyle = None, c_domain = None, c_avatarUrl = None,
             c_isSystem = False, c_isPublic = False, c_createdAt = 1000,
             c_updatedAt = 1000\<rparr>],
          sessions = [\<lparr>s_id = ''s-1'', s_characterId = ''c-1'', s_userId = ''bob'',
             s_title = None, s_contextSummary = None, s_isPinned = False,
             s_isArchived = False, s_createdAt = 1500, s_updatedAt = 1500,
             s_lastMessageAt = None\<rparr>], messages = [], accesses = []\<rparr>)
     = Some \<lparr>c_id = ''c-1'', c_userId = Some ''amy'', c_name = ''Mentor'', c_slug = None,
             c_shortDescription = None, c_fullDescription = None, c_systemPrompt = None,
             c_speakingStyle = None, c_domain = None, c_avatarUrl = None,
             c_isSystem = False, c_isPublic = True, c_createdAt = 1000,
             c_updatedAt = 1000\<rparr>
   \<and> c_isPublic \<lparr>c_id = ''c-1'', c_userId = Some ''amy'', c_name = ''Mentor'', c_slug = None,
             c_shortDescription = None, c_fullDescription = None, c_systemPrompt = None,
             c_speakingStyle = None, c_domain = None, c_avatarUrl = None,
             c_isSystem = False, c_isPublic = True, c_createdAt = 1000,
             c_updatedAt = 1000\<rparr>
   \<and> createChatSession \<lparr>cs_characterId = ''c-1'', cs_title = None\<rparr>
         \<lparr>context_locals = Some \<lparr>locals_user = Some \<lparr>u_id = ''bob''\<rparr>\<rparr>\<rparr>
         \<lparr>new_Date = 2000, randomUUID = ''s-1''\<rparr>
         \<lparr>characters =
           [\<lparr>c_id = ''c-1'', c_userId = Some ''amy'', c_name = ''Mentor'', c_slug = None,
             c_shortDescription = None, c_fullDescription = None, c_systemPrompt = None,
             c_speakingStyle = None, c_domain = None, c_avatarUrl = None,
             c_isSystem = False, c_isPublic = True, c_createdAt = 1000,
             c_updatedAt = 1000\<rparr>,
            \<lparr>c_id = ''c-2'', c_userId = Some ''amy'', c_name = ''Diary'', c_slug = None,
             c_shortDescription = None, c_fullDescription = None, c_systemPrompt = None,
             c_speakingStyle = None, c_domain = None, c_avatarUrl = None,
             c_isSystem = False, c_isPublic = False, c_createdAt = 1000,
             c_updatedAt = 1000\<rparr>],
          sessions = [\<lparr>s_id = ''s-1'', s_characterId = ''c-1'', s_userId = ''bob'',
             s_title = None, s_contextSummary = None, s_isPinned = False,
             s_isArchived = False, s_createdAt = 1500, s_updatedAt = 1500,
             s_lastMessageAt = None\<rparr>], messages = [], accesses = []\<rparr>
     = (Inl (Uncaught (UniqueConstraintFailed CharacterChatSessions)),
         \<lparr>characters =
           [\<lparr>c_id = ''c-1'', c_userId = Some ''amy'', c_name = ''Mentor'', c_slug = None,
             c_shortDescription = None, c_fullDescription = None, c_systemPrompt = None,
             c_speakingStyle = None, c_domain = None, c_avatarUrl = None,
             c_isSystem = False, c_isPublic = True, c_createdAt = 1000,
             c_updatedAt = 1000\<rparr>,
            \<lparr>c_id = ''c-2'', c_userId = Some ''amy'', c_name = ''Diary'', c_slug = None,
             c_shortDescription = None, c_fullDescription = None, c_systemPrompt = None,
             c_speakingStyle = None, c_domain = None, c_avatarUrl = None,
             c_isSystem = False, c_isPublic = False, c_createdAt = 1000,
             c_updatedAt = 1000\<rparr>],
          sessions = [\<lparr>s_id = ''s-1'', s_characterId = ''c-1'', s_userId = ''bob'',
             s_title = None, s_contextSummary = None, s_isPinned = False,
             s_isArchived = False, s_createdAt = 1500, s_updatedAt = 1500,
             s_lastMessageAt = None\<rparr>], messages = [], accesses = [Select AiCharacters, Insert CharacterChatSessions]\<rparr>)
   \<and> code (Uncaught (UniqueConstraintFailed CharacterChatSessions)) = INTERNAL_SERVER_ERROR"
  by (simp add: context_user_def requireUser_def createChatSession_def defineAction_def
        createChatSession_schema_def min1_def createChatSession_handler_def
        select_AiCharacters_def insert_CharacterChatSessions_def Let_def)

text \<open>
  The outcomes at concrete calls by \<open>bob\<close>, when \<open>amy\<close> owns a public character
  \<open>c-1\<close> and a private one \<open>c-2\<close>, and no character \<open>c-0\<close> exists.
\<close>

theorem createChatSession_outcomes_witness:
  "context_user \<lparr>context_locals = Some \<lparr>locals_user = Some \<lparr>u_id = ''bob''\<rparr>\<rparr>\<rparr>
     = Some \<lparr>u_id = ''bob''\<rparr>
   \<and> fst (createChatSession \<lparr>cs_characterId = ''c-0'', cs_title = None\<rparr>
         \<lparr>context_locals = Some \<lparr>locals_user = Some \<lparr>u_id = ''bob''\<rparr>\<rparr>\<rparr>
         \<lparr>new_Date = 2000, randomUUID = ''s-1''\<rparr>
         \<lparr>characters =
           [\<lparr>c_id = ''c-1'', c_userId = Some ''amy'', c_name = ''Mentor'', c_slug = None,
             c_shortDescription = None, c_fullDescription = None, c_systemPrompt = None,
             c_speakingStyle = None, c_domain = None, c_avatarUrl = None,
             c_isSystem = False, c_isPublic = True, c_createdAt = 1000,
             c_updatedAt = 1000\<rparr>,
            \<lparr>c_id = ''c-2'', c_userId = Some ''amy'', c_name = ''Diary'', c_slug = None,
             c_shortDescription = None, c_fullDescription = None, c_systemPrompt = None,
             c_speakingStyle = None, c_domain = None, c_avatarUrl = None,
             c_isSystem = False, c_isPublic = False, c_createdAt = 1000,
             c_updatedAt = 1000\<rparr>],
          sessions = [], messages = [], accesses = []\<rparr>)
     = Inl (ActionError NOT_FOUND ''Character not found.'')
   \<and> fst (createChatSession \<lparr>cs_characterId = ''c-2'', cs_title = None\<rparr>
         \<lparr>context_locals = Some \<lparr>locals_user = Some \<lparr>u_id = ''bob''\<rparr>\<rparr>\<rparr>
         \<lparr>new_Date = 2000, randomUUID = ''s-1''\<rparr>
         \<lparr>characters =
           [\<lparr>c_id = ''c-1'', c_userId = Some ''amy'', c_name = ''Mentor'', c_slug = None,
             c_shortDescription = None, c_fullDescription = None, c_systemPrompt = None,
             c_speakingStyle = None, c_domain = None, c_avatarUrl = None,
             c_isSystem = False, c_isPublic = True, c_createdAt = 1000,
             c_updatedAt = 1000\<rparr>,
            \<lparr>c_id = ''c-2'', c_userId = Some ''amy'', c_name = ''Diary'', c_slug = None,
             c_shortDescription = None, c_fullDescription = None, c_systemPrompt = None,
             c_speakingStyle = None, c_domain = None, c_avatarUrl = None,
             c_isSystem = False, c_isPublic = False, c_createdAt = 1000,
             c_updatedAt = 1000\<rparr>],
          sessions = [], messages = [], accesses = []\<rparr>)
     = Inl (ActionError FORBIDDEN ''You do not have access to this character.'')
   \<and> createChatSession \<lparr>cs_characterId = ''c-1'', cs_title = None\<rparr>
         \<lparr>context_locals = Some \<lparr>locals_user = Some \<lparr>u_id = ''bob''\<rparr>\<rparr>\<rparr>
         \<lparr>new_Date = 2000, randomUUID = ''s-1''\<rparr>
         \<lparr>characters =
           [\<lparr>c_id = ''c-1'', c_userId = Some ''amy'', c_name = ''Mentor'', c_slug = None,
             c_shortDescription = None, c_fullDescription = None, c_systemPrompt = None,
             c_speakingStyle = None, c_domain = None, c_avatarUrl = None,
             c_isSystem = False, c_isPublic = True, c_createdAt = 1000,
             c_updatedAt = 1000\<rparr>,
            \<lparr>c_id = ''c-2'', c_userId = Some ''amy'', c_name = ''Diary'', c_slug = None,
             c_shortDescription = None, c_fullDescription = None, c_systemPrompt = None,
             c_speakingStyle = None, c_domain = None, c_avatarUrl = None,
             c_isSystem = False, c_isPublic = False, c_createdAt = 1000,
             c_updatedAt = 1000\<rparr>],
          sessions = [], messages = [], accesses = []\<rparr>
     = (Inr \<lparr>s_id = ''s-1'', s_characterId = ''c-1'', s_userId = ''bob'',
             s_title = None, s_contextSummary = None, s_isPinned = False,
             s_isArchived = False, s_createdAt = 2000, s_updatedAt = 2000,
             s_lastMessageAt = None\<rparr>,
         \<lparr>characters =
           [\<lparr>c_id = ''c-1'', c_userId = Some ''amy'', c_name = ''Mentor'', c_slug = None,
             c_shortDescription = None, c_fullDescription = None, c_systemPrompt = None,
             c_speakingStyle = None, c_domain = None, c_avatarUrl = None,
             c_isSystem = False, c_isPublic = True, c_createdAt = 1000,
             c_updatedAt = 1000\<rparr>,
            \<lparr>c_id = ''c-2'', c_userId = Some ''amy'', c_name = ''Diary'', c_slug = None,
             c_shortDescription = None, c_fullDescription = None, c_systemPrompt = None,
             c_speakingStyle = None, c_domain = None, c_avatarUrl = None,
             c_isSystem = False, c_isPublic = False, c_createdAt = 1000,
             c_updatedAt = 1000\<rparr>],
          sessions = [\<lparr>s_id = ''s-1'', s_characterId = ''c-1'', s_userId = ''bob'',
             s_title = None, s_contextSummary = None, s_isPinned = False,
             s_isArchived = False, s_createdAt = 2000, s_updatedAt = 2000,
             s_lastMessageAt = None\<rparr>], messages = [], accesses = [Select AiCharacters, Insert CharacterChatSessions]\<rparr>)
   \<and> fst (createChatSession \<lparr>cs_characterId = ''c-1'', cs_title = None\<rparr>
         \<lparr>context_locals = Some \<lparr>locals_user = Some \<lparr>u_id = ''bob''\<rparr>\<rparr>\<rparr>
         \<lparr>new_Date = 2000, randomUUID = ''s-1''\<rparr>
         \<lparr>characters =
           [\<lparr>c_id = ''c-1'', c_userId = Some ''amy'', c_name = ''Mentor'', c_slug = None,
             c_shortDescription = None, c_fullDescription = None, c_systemPrompt = None,
             c_speakingStyle = None, c_domain = None, c_avatarUrl = None,
             c_isSystem = False, c_isPublic = True, c_createdAt = 1000,
             c_updatedAt = 1000\<rparr>,
            \<lparr>c_id = ''c-2'', c_userId = Some ''amy'', c_name = ''Diary'', c_slug = None,
             c_shortDescription = None, c_fullDescription = None, c_systemPrompt = None,
             c_speakingStyle = None, c_domain = None, c_avatarUrl = None,
             c_isSystem = False, c_isPublic = False, c_createdAt = 1000,
             c_updatedAt = 1000\<rparr>],
          sessions = [\<lparr>s_id = ''s-1'', s_characterId = ''c-1'', s_userId = ''bob'',
             s_title = None, s_contextSummary = None, s_isPinned = False,
             s_isArchived = False, s_createdAt = 1500, s_updatedAt = 1500,
             s_lastMessageAt = None\<rparr>], messages = [], accesses = []\<rparr>)
     = Inl (Uncaught (UniqueConstraintFailed CharacterChatSessions))
   \<and> sessions (snd (createChatSession \<lparr>cs_characterId = ''c-1'', cs_title = None\<rparr>
         \<lparr>context_locals = Some \<lparr>locals_user = Some \<lparr>u_id = ''bob''\<rparr>\<rparr>\<rparr>
         \<lparr>new_Date = 2000, randomUUID = ''s-1''\<rparr>
         \<lparr>characters =
           [\<lparr>c_id = ''c-1'', c_userId = Some ''amy'', c_name = ''Mentor'', c_slug = None,
             c_shortDescription = None, c_fullDescription = None, c_systemPrompt = None,
             c_speakingStyle = None, c_domain = None, c_avatarUrl = None,
             c_isSystem = False, c_isPublic = True, c_createdAt = 1000,
             c_updatedAt = 1000\<rparr>,
            \<lparr>c_id = ''c-2'', c_userId = Some ''amy'', c_name = ''Diary'', c_slug = None,
             c_shortDescription = None, c_fullDescription = None, c_systemPrompt = None,
             c_speakingStyle = None, c_domain = None, c_avatarUrl = None,
             c_isSystem = False, c_isPublic = False, c_createdAt = 1000,
             c_updatedAt = 1000\<rparr>],
          sessions = [\<lparr>s_id = ''s-1'', s_characterId = ''c-1'', s_userId = ''bob'',
             s_title = None, s_contextSummary = None, s_isPinned = False,
             s_isArchived = False, s_createdAt = 1500, s_updatedAt = 1500,
             s_lastMessageAt = None\<rparr>], messages = [], accesses = []\<rparr>))
     = [\<lparr>s_id = ''s-1'', s_characterId = ''c-1'', s_userId = ''bob'',
             s_title = None, s_contextSummary = None, s_isPinned = False,
             s_isArchived = False, s_createdAt = 1500, s_updatedAt = 1500,
             s_lastMessageAt = None\<rparr>]
   \<and> createChatSession \<lparr>cs_characterId = '''', cs_title = None\<rparr>
         \<lparr>context_locals = Some \<lparr>locals_user = Some \<lparr>u_id = ''bob''\<rparr>\<rparr>\<rparr>
         \<lparr>new_Date = 2000, randomUUID = ''s-1''\<rparr>
         \<lparr>characters =
           [\<lparr>c_id = ''c-1'', c_userId = Some ''amy'', c_name = ''Mentor'', c_slug = None,
             c_shortDescription = None, c_fullDescription = None, c_systemPrompt = None,
             c_speakingStyle = None, c_domain = None, c_avatarUrl = None,
             c_isSystem = False, c_isPublic = True, c_createdAt = 1000,
             c_updatedAt = 1000\<rparr>,
            \<lparr>c_id = ''c-2'', c_userId = Some ''amy'', c_name = ''Diary'', c_slug = None,
             c_shortDescription = None, c_fullDescription = None, c_systemPrompt = None,
             c_speakingStyle = None, c_domain = None, c_avatarUrl = None,
             c_isSystem = False, c_isPublic = False, c_createdAt = 1000,
             c_updatedAt = 1000\<rparr>],
          sessions = [], messages = [], accesses = []\<rparr>
     = (Inl ActionInputError,
         \<lparr>characters =
           [\<lparr>c_id = ''c-1'', c_userId = Some ''amy'', c_name = ''Mentor'', c_slug = None,
             c_shortDescription = None, c_fullDescription = None, c_systemPrompt = None,
             c_speakingStyle = None, c_domain = None, c_avatarUrl = None,
             c_isSystem = False, c_isPublic = True, c_createdAt = 1000,
             c_updatedAt = 1000\<rparr>,
            \<lparr>c_id = ''c-2'', c_userId = Some ''amy'', c_name = ''Diary'', c_slug = None,
             c_shortDescription = None, c_fullDescription = None, c_systemPrompt = None,
             c_speakingStyle = None, c_domain = None, c_avatarUrl = None,
             c_isSystem = False, c_isPublic = False, c_createdAt = 1000,
             c_updatedAt = 1000\<rparr>],
          sessions = [], messages = [], accesses = []\<rparr>)"
proof -
  let ?ctx = "\<lparr>context_locals = Some \<lparr>locals_user = Some \<lparr>u_id = ''bob''\<rparr>\<rparr>\<rparr>"
  let ?user = "\<lparr>u_id = ''bob''\<rparr>"
  let ?rt = "\<lparr>new_Date = 2000, randomUUID = ''s-1''\<rparr>"
  let ?db = "\<lparr>characters =
           [\<lparr>c_id = ''c-1'', c_userId = Some ''amy'', c_name = ''Mentor'', c_slug = None,
             c_shortDescription = None, c_fullDescription = None, c_systemPrompt = None,
             c_speakingStyle = None, c_domain = None, c_avatarUrl = None,
             c_isSystem = False, c_isPublic = True, c_createdAt = 1000,
             c_updatedAt = 1000\<rparr>,
            \<lparr>c_id = ''c-2'', c_userId = Some ''amy'', c_name = ''Diary'', c_slug = None,
             c_shortDescription = None, c_fullDescription = None, c_systemPrompt = None,
             c_speakingStyle = None, c_domain = None, c_avatarUrl = None,
             c_isSystem = False, c_isPublic = False, c_createdAt = 1000,
             c_updatedAt = 1000\<rparr>],
          sessions = [], messages = [], accesses = []\<rparr>"
  let ?dbc = "\<lparr>characters =
           [\<lparr>c_id = ''c-1'', c_userId = Some ''amy'', c_name = ''Mentor'', c_slug = None,
             c_shortDescription = None, c_fullDescription = None, c_systemPrompt = None,
             c_speakingStyle = None, c_domain = None, c_avatarUrl = None,
             c_isSystem = False, c_isPublic = True, c_createdAt = 1000,
             c_updatedAt = 1000\<rparr>,
            \<lparr>c_id = ''c-2'', c_userId = Some ''amy'', c_name = ''Diary'', c_slug = None,
             c_shortDescription = None, c_fullDescription = None, c_systemPrompt = None,
             c_speakingStyle = None, c_domain = None, c_avatarUrl = None,
             c_isSystem = False, c_isPublic = False, c_createdAt = 1000,
             c_updatedAt = 1000\<rparr>],
          sessions = [\<lparr>s_id = ''s-1'', s_characterId = ''c-1'', s_userId = ''bob'',
             s_title = None, s_contextSummary = None, s_isPinned = False,
             s_isArchived = False, s_createdAt = 1500, s_updatedAt = 1500,
             s_lastMessageAt = None\<rparr>], messages = [], accesses = []\<rparr>"
  let ?c1 = "\<lparr>c_id = ''c-1'', c_userId = Some ''amy'', c_name = ''Mentor'', c_slug = None,
             c_shortDescription = None, c_fullDescription = None, c_systemPrompt = None,
             c_speakingStyle = None, c_domain = None, c_avatarUrl = None,
             c_isSystem = False, c_isPublic = True, c_createdAt = 1000,
             c_updatedAt = 1000\<rparr>"
  let ?c2 = "\<lparr>c_id = ''c-2'', c_userId = Some ''amy'', c_name = ''Diary'', c_slug = None,
             c_shortDescription = None, c_fullDescription = None, c_systemPrompt = None,
             c_speakingStyle = None, c_domain = None, c_avatarUrl = None,
             c_isSystem = False, c_isPublic = False, c_createdAt = 1000,
             c_updatedAt = 1000\<rparr>"
  have a: "context_user ?ctx = Some ?user"
    by (simp add: context_user_def)
  have ne0: "cs_characterId \<lparr>cs_characterId = ''c-0'', cs_title = None\<rparr> \<noteq> []"
    and ne1: "cs_characterId \<lparr>cs_characterId = ''c-1'', cs_title = None\<rparr> \<noteq> []"
    and ne2: "cs_characterId \<lparr>cs_characterId = ''c-2'', cs_title = None\<rparr> \<noteq> []"
    and e0: "cs_characterId \<lparr>cs_characterId = '''', cs_title = None\<rparr> = []"
    by simp_all
  have f0: "find (\<lambda>r. c_id r = cs_characterId \<lparr>cs_characterId = ''c-0'', cs_title = None\<rparr>) (characters ?db) = None"
    by simp
  have f2: "find (\<lambda>r. c_id r = cs_characterId \<lparr>cs_characterId = ''c-2'', cs_title = None\<rparr>) (characters ?db) = Some ?c2"
    by simp
  have h2: "\<not> c_isPublic ?c2 \<and> \<not> c_isSystem ?c2 \<and> c_userId ?c2 \<noteq> Some (u_id ?user)"
    by simp
  have f1: "find (\<lambda>r. c_id r = cs_characterId \<lparr>cs_characterId = ''c-1'', cs_title = None\<rparr>) (characters ?dbc) = Some ?c1"
    by simp
  have v1: "(c_isPublic ?c1 \<or> c_isSystem ?c1 \<or> c_userId ?c1 = Some (u_id ?user))
            \<and> randomUUID ?rt \<in> set (map s_id (sessions ?dbc))"
    by simp
  have n: "fst (createChatSession \<lparr>cs_characterId = ''c-0'', cs_title = None\<rparr> ?ctx ?rt ?db)
           = Inl (ActionError NOT_FOUND ''Character not found.'')"
    by (rule createChatSession_outcomes
        [where inp = "\<lparr>cs_characterId = ''c-0'', cs_title = None\<rparr>" and rt = ?rt and db = ?db,
         OF a, THEN conjunct2, THEN mp, OF ne0, THEN conjunct1, THEN mp, OF f0,
         THEN conjunct1])
  have h: "fst (createChatSession \<lparr>cs_characterId = ''c-2'', cs_title = None\<rparr> ?ctx ?rt ?db)
           = Inl (ActionError FORBIDDEN ''You do not have access to this character.'')"
    by (rule createChatSession_outcomes
        [where inp = "\<lparr>cs_characterId = ''c-2'', cs_title = None\<rparr>" and rt = ?rt and db = ?db,
         OF a, THEN conjunct2, THEN mp, OF ne2, THEN conjunct2, THEN spec, THEN mp, OF f2,
         THEN conjunct1, THEN mp, OF h2, THEN conjunct1])
  have v: "createChatSession \<lparr>cs_characterId = ''c-1'', cs_title = None\<rparr> ?ctx ?rt ?db
           = (Inr \<lparr>s_id = ''s-1'', s_characterId = ''c-1'', s_userId = ''bob'',
             s_title = None, s_contextSummary = None, s_isPinned = False,
             s_isArchived = False, s_createdAt = 2000, s_updatedAt = 2000,
             s_lastMessageAt = None\<rparr>,
         \<lparr>characters =
           [\<lparr>c_id = ''c-1'', c_userId = Some ''amy'', c_name = ''Mentor'', c_slug = None,
             c_shortDescription = None, c_fullDescription = None, c_systemPrompt = None,
             c_speakingStyle = None, c_domain = None, c_avatarUrl = None,
             c_isSystem = False, c_isPublic = True, c_createdAt = 1000,
             c_updatedAt = 1000\<rparr>,
            \<lparr>c_id = ''c-2'', c_userId = Some ''amy'', c_name = ''Diary'', c_slug = None,
             c_shortDescription = None, c_fullDescription = None, c_systemPrompt = None,
             c_speakingStyle = None, c_domain = None, c_avatarUrl = None,
             c_isSystem = False, c_isPublic = False, c_createdAt = 1000,
             c_updatedAt = 1000\<rparr>],
          sessions = [\<lparr>s_id = ''s-1'', s_characterId = ''c-1'', s_userId = ''bob'',
             s_title = None, s_contextSummary = None, s_isPinned = False,
             s_isArchived = False, s_createdAt = 2000, s_updatedAt = 2000,
             s_lastMessageAt = None\<rparr>], messages = [], accesses = [Select AiCharacters, Insert CharacterChatSessions]\<rparr>)"
    by (simp add: context_user_def requireUser_def createChatSession_def defineAction_def
        createChatSession_schema_def min1_def createChatSession_handler_def
        select_AiCharacters_def insert_CharacterChatSessions_def Let_def)
  note col = createChatSession_outcomes
        [where inp = "\<lparr>cs_characterId = ''c-1'', cs_title = None\<rparr>" and rt = ?rt and db = ?dbc,
         OF a, THEN conjunct2, THEN mp, OF ne1, THEN conjunct2, THEN spec, THEN mp, OF f1,
         THEN conjunct2, THEN conjunct2, THEN mp, OF v1]
  have c: "fst (createChatSession \<lparr>cs_characterId = ''c-1'', cs_title = None\<rparr> ?ctx ?rt ?dbc)
           = Inl (Uncaught (UniqueConstraintFailed CharacterChatSessions))"
    by (rule col [THEN conjunct1])
  have s: "sessions (snd (createChatSession \<lparr>cs_characterId = ''c-1'', cs_title = None\<rparr> ?ctx ?rt ?dbc))
           = [\<lparr>s_id = ''s-1'', s_characterId = ''c-1'', s_userId = ''bob'',
             s_title = None, s_contextSummary = None, s_isPinned = False,
             s_isArchived = False, s_createdAt = 1500, s_updatedAt = 1500,
             s_lastMessageAt = None\<rparr>]"
    using col [THEN conjunct2] by simp
  have e: "createChatSession \<lparr>cs_characterId = '''', cs_title = None\<rparr> ?ctx ?rt ?db = (Inl ActionInputError, ?db)"
    by (rule createChatSession_outcomes
        [where inp = "\<lparr>cs_characterId = '''', cs_title = None\<rparr>" and rt = ?rt and db = ?db,
         OF a, THEN conjunct1, THEN mp, OF e0])
  show ?thesis
    by (intro conjI a n h v c s e)
qed

subsection \<open>createCharacter: the record created\<close>

lemma createCharacter_valid:
  "createCharacter_schema isUrl raw \<noteq> None \<Longrightarrow>
     createCharacter isUrl raw ctx rt db = createCharacter_handler raw ctx rt db"
  by (simp add: createCharacter_def defineAction_def createCharacter_schema_def
      split: if_splits)

lemma createCharacter_invalid:
  "createCharacter_schema isUrl raw = None \<Longrightarrow>
     createCharacter isUrl raw ctx rt db = (Inl ActionInputError, db)"
  by (simp add: createCharacter_def defineAction_def)

text \<open>
  Claim C4. For an authenticated caller and any input, every character record that
  \<open>createCharacter\<close> creates (the handler, and so the action) is the record it returns and
  the one row it appends to the character table, and it has \<open>isSystem = false\<close> (the input
  has no way to say otherwise), the caller as owner, \<open>isPublic\<close> as requested or \<open>false\<close>
  when not given, and \<open>createdAt = updatedAt\<close>, both the time of the call. A record is
  created whenever the generated id is not yet a character's id; when it is, the insert
  violates the primary key and no record is created.
\<close>

theorem createCharacter_record:
  assumes "context_user ctx = Some user"
  shows
    "(\<forall>character db'.
        createCharacter_handler inp ctx rt db = (Inr character, db')
          \<or> createCharacter isUrl inp ctx rt db = (Inr character, db') \<longrightarrow>
          characters db' = characters db @ [character]
        \<and> c_isSystem character = False
        \<and> c_userId character = Some (u_id user)
        \<and> c_isPublic character = (case cc_isPublic inp of None \<Rightarrow> False | Some b \<Rightarrow> b)
        \<and> c_createdAt character = c_updatedAt character
        \<and> c_createdAt character = new_Date rt)
   \<and> (randomUUID rt \<notin> set (map c_id (characters db)) \<longrightarrow>
        (\<exists>character db'.
           createCharacter_handler inp ctx rt db = (Inr character, db')
         \<and> c_id character = randomUUID rt
         \<and> sessions db' = sessions db
         \<and> messages db' = messages db))
   \<and> (randomUUID rt \<in> set (map c_id (characters db)) \<longrightarrow>
        createCharacter_handler inp ctx rt db
          = (Inl (Uncaught (UniqueConstraintFailed AiCharacters)),
             db\<lparr>accesses := accesses db @ [Insert AiCharacters]\<rparr>))"
proof -
  have act: "createCharacter isUrl inp ctx rt db = createCharacter_handler inp ctx rt db
             \<or> createCharacter isUrl inp ctx rt db = (Inl ActionInputError, db)"
    using createCharacter_valid [of isUrl inp ctx rt db]
      createCharacter_invalid [of isUrl inp ctx rt db]
    by blast
  show ?thesis
  proof (cases "randomUUID rt \<in> set (map c_id (characters db))")
    case True
    note run = createCharacter_collision [OF assms True, of inp]
    from act run
    have none: "\<not> (createCharacter_handler inp ctx rt db = (Inr character, db')
                   \<or> createCharacter isUrl inp ctx rt db = (Inr character, db'))"
      for character db'
      by auto
    from True run none show ?thesis by blast
  next
    case False
    let ?c = "\<lparr>c_id = randomUUID rt, c_userId = Some (u_id user), c_name = cc_name inp,
                 c_slug = cc_slug inp, c_shortDescription = cc_shortDescription inp,
                 c_fullDescription = cc_fullDescription inp,
                 c_systemPrompt = cc_systemPrompt inp,
                 c_speakingStyle = cc_speakingStyle inp, c_domain = cc_domain inp,
                 c_avatarUrl = cc_avatarUrl inp, c_isSystem = False,
                 c_isPublic = (case cc_isPublic inp of None \<Rightarrow> False | Some b \<Rightarrow> b),
                 c_createdAt = new_Date rt, c_updatedAt = new_Date rt\<rparr>"
    let ?db' = "db\<lparr>characters := characters db @ [?c],
                  accesses := accesses db @ [Insert AiCharacters]\<rparr>"
    have run: "createCharacter_handler inp ctx rt db = (Inr ?c, ?db')"
      by (rule createCharacter_fresh [OF assms False])
    have only: "character = ?c \<and> db' = ?db'"
      if "createCharacter_handler inp ctx rt db = (Inr character, db')
            \<or> createCharacter isUrl inp ctx rt db = (Inr character, db')"
      for character db'
      using that act run by auto
    have created:
      "characters ?db' = characters db @ [?c]
       \<and> c_isSystem ?c = False
       \<and> c_userId ?c = Some (u_id user)
       \<and> c_isPublic ?c = (case cc_isPublic inp of None \<Rightarrow> False | Some b \<Rightarrow> b)
       \<and> c_createdAt ?c = c_updatedAt ?c
       \<and> c_createdAt ?c = new_Date rt"
      by simp
    have first: "\<forall>character db'.
        createCharacter_handler inp ctx rt db = (Inr character, db')
          \<or> createCharacter isUrl inp ctx rt db = (Inr character, db') \<longrightarrow>
          characters db' = characters db @ [character]
        \<and> c_isSystem character = False
        \<and> c_userId character = Some (u_id user)
        \<and> c_isPublic character = (case cc_isPublic inp of None \<Rightarrow> False | Some b \<Rightarrow> b)
        \<and> c_createdAt character = c_updatedAt character
        \<and> c_createdAt character = new_Date rt"
    proof (intro allI impI)
      fix character db'
      assume "createCharacter_handler inp ctx rt db = (Inr character, db')
                \<or> createCharacter isUrl inp ctx rt db = (Inr character, db')"
      from only [OF this] created
      show "characters db' = characters db @ [character]
        \<and> c_isSystem character = False
        \<and> c_userId character = Some (u_id user)
        \<and> c_isPublic character = (case cc_isPublic inp of None \<Rightarrow> False | Some b \<Rightarrow> b)
        \<and> c_createdAt character = c_updatedAt character
        \<and> c_createdAt character = new_Date rt"
        by simp
    qed
    have second: "\<exists>character db'.
           createCharacter_handler inp ctx rt db = (Inr character, db')
         \<and> c_id character = randomUUID rt
         \<and> sessions db' = sessions db
         \<and> messages db' = messages db"
      by (intro exI [of _ ?c] exI [of _ ?db']) (simp add: run)
    from False first second show ?thesis by blast
  qed
qed

text \<open>
  At concrete calls by \<open>alice\<close>: into an empty table, and with a generated id that the
  table already holds.
\<close>

theorem createCharacter_record_witness:
  "context_user \<lparr>context_locals = Some \<lparr>locals_user = Some \<lparr>u_id = ''alice''\<rparr>\<rparr>\<rparr>
     = Some \<lparr>u_id = ''alice''\<rparr>
   \<and> ''c-1'' \<notin> set (map c_id [])
   \<and> createCharacter_handler
        \<lparr>cc_name = ''Mentor'', cc_slug = None, cc_shortDescription = None,
         cc_fullDescription = None, cc_systemPrompt = None, cc_speakingStyle = None,
         cc_domain = None, cc_avatarUrl = None, cc_isPublic = Some True\<rparr>
        \<lparr>context_locals = Some \<lparr>locals_user = Some \<lparr>u_id = ''alice''\<rparr>\<rparr>\<rparr>
        \<lparr>new_Date = 1000, randomUUID = ''c-1''\<rparr>
        \<lparr>characters = [], sessions = [], messages = [], accesses = []\<rparr>
     = (Inr \<lparr>c_id = ''c-1'', c_userId = Some ''alice'', c_name = ''Mentor'', c_slug = None,
              c_shortDescription = None, c_fullDescription = None, c_systemPrompt = None,
              c_speakingStyle = None, c_domain = None, c_avatarUrl = None,
              c_isSystem = False, c_isPublic = True, c_createdAt = 1000,
              c_updatedAt = 1000\<rparr>,
        \<lparr>characters =
           [\<lparr>c_id = ''c-1'', c_userId = Some ''alice'', c_name = ''Mentor'', c_slug = None,
             c_shortDescription = None, c_fullDescription = None, c_systemPrompt = None,
             c_speakingStyle = None, c_domain = None, c_avatarUrl = None,
             c_isSystem = False, c_isPublic = True, c_createdAt = 1000,
             c_updatedAt = 1000\<rparr>],
         sessions = [], messages = [], accesses = [Insert AiCharacters]\<rparr>)
   \<and> createCharacter_handler
        \<lparr>cc_name = ''Mentor'', cc_slug = None, cc_shortDescription = None,
         cc_fullDescription = None, cc_systemPrompt = None, cc_speakingStyle = None,
         cc_domain = None, cc_avatarUrl = None, cc_isPublic = Some True\<rparr>
        \<lparr>context_locals = Some \<lparr>locals_user = Some \<lparr>u_id = ''alice''\<rparr>\<rparr>\<rparr>
        \<lparr>new_Date = 2000, randomUUID = ''c-1''\<rparr>
        \<lparr>characters =
           [\<lparr>c_id = ''c-1'', c_userId = Some ''alice'', c_name = ''Mentor'', c_slug = None,
             c_shortDescription = None, c_fullDescription = None, c_systemPrompt = None,
             c_speakingStyle = None, c_domain = None, c_avatarUrl = None,
             c_isSystem = False, c_isPublic = True, c_createdAt = 1000,
             c_updatedAt = 1000\<rparr>],
         sessions = [], messages = [], accesses = []\<rparr>
     = (Inl (Uncaught (UniqueConstraintFailed AiCharacters)),
        \<lparr>characters =
           [\<lparr>c_id = ''c-1'', c_userId = Some ''alice'', c_name = ''Mentor'', c_slug = None,
             c_shortDescription = None, c_fullDescription = None, c_systemPrompt = None,
             c_speakingStyle = None, c_domain = None, c_avatarUrl = None,
             c_isSystem = False, c_isPublic = True, c_createdAt = 1000,
             c_updatedAt = 1000\<rparr>],
         sessions = [], messages = [], accesses = [Insert AiCharacters]\<rparr>)"
proof -
  have a: "context_user \<lparr>context_locals = Some \<lparr>locals_user = Some \<lparr>u_id = ''alice''\<rparr>\<rparr>\<rparr>
             = Some \<lparr>u_id = ''alice''\<rparr>"
    by (simp add: context_user_def)
  have b: "''c-1'' \<notin> set (map c_id [])"
    by simp
  have c: "createCharacter_handler
        \<lparr>cc_name = ''Mentor'', cc_slug = None, cc_shortDescription = None,
         cc_fullDescription = None, cc_systemPrompt = None, cc_speakingStyle = None,
         cc_domain = None, cc_avatarUrl = None, cc_isPublic = Some True\<rparr>
        \<lparr>context_locals = Some \<lparr>locals_user = Some \<lparr>u_id = ''alice''\<rparr>\<rparr>\<rparr>
        \<lparr>new_Date = 1000, randomUUID = ''c-1''\<rparr>
        \<lparr>characters = [], sessions = [], messages = [], accesses = []\<rparr>
     = (Inr \<lparr>c_id = ''c-1'', c_userId = Some ''alice'', c_name = ''Mentor'', c_slug = None,
              c_shortDescription = None, c_fullDescription = None, c_systemPrompt = None,
              c_speakingStyle = None, c_domain = None, c_avatarUrl = None,
              c_isSystem = False, c_isPublic = True, c_createdAt = 1000,
              c_updatedAt = 1000\<rparr>,
        \<lparr>characters =
           [\<lparr>c_id = ''c-1'', c_userId = Some ''alice'', c_name = ''Mentor'', c_slug = None,
             c_shortDescription = None, c_fullDescription = None, c_systemPrompt = None,
             c_speakingStyle = None, c_domain = None, c_avatarUrl = None,
             c_isSystem = False, c_isPublic = True, c_createdAt = 1000,
             c_updatedAt = 1000\<rparr>],
         sessions = [], messages = [], accesses = [Insert AiCharacters]\<rparr>)"
    by (simp add: a requireUser_def createCharacter_handler_def insert_AiCharacters_def Let_def)
  have d: "createCharacter_handler
        \<lparr>cc_name = ''Mentor'', cc_slug = None, cc_shortDescription = None,
         cc_fullDescription = None, cc_systemPrompt = None, cc_speakingStyle = None,
         cc_domain = None, cc_avatarUrl = None, cc_isPublic = Some True\<rparr>
        \<lparr>context_locals = Some \<lparr>locals_user = Some \<lparr>u_id = ''alice''\<rparr>\<rparr>\<rparr>
        \<lparr>new_Date = 2000, randomUUID = ''c-1''\<rparr>
        \<lparr>characters =
           [\<lparr>c_id = ''c-1'', c_userId = Some ''alice'', c_name = ''Mentor'', c_slug = None,
             c_shortDescription = None, c_fullDescription = None, c_systemPrompt = None,
             c_speakingStyle = None, c_domain = None, c_avatarUrl = None,
             c_isSystem = False, c_isPublic = True, c_createdAt = 1000,
             c_updatedAt = 1000\<rparr>],
         sessions = [], messages = [], accesses = []\<rparr>
     = (Inl (Uncaught (UniqueConstraintFailed AiCharacters)),
        \<lparr>characters =
           [\<lparr>c_id = ''c-1'', c_userId = Some ''alice'', c_name = ''Mentor'', c_slug = None,
             c_shortDescription = None, c_fullDescription = None, c_systemPrompt = None,
             c_speakingStyle = None, c_domain = None, c_avatarUrl = None,
             c_isSystem = False, c_isPublic = True, c_createdAt = 1000,
             c_updatedAt = 1000\<rparr>],
         sessions = [], messages = [], accesses = [Insert AiCharacters]\<rparr>)"
    using createCharacter_record
      [where inp = "\<lparr>cc_name = ''Mentor'', cc_slug = None, cc_shortDescription = None,
           cc_fullDescription = None, cc_systemPrompt = None, cc_speakingStyle = None,
           cc_domain = None, cc_avatarUrl = None, cc_isPublic = Some True\<rparr>"
         and rt = "\<lparr>new_Date = 2000, randomUUID = ''c-1''\<rparr>"
         and db = "\<lparr>characters =
           [\<lparr>c_id = ''c-1'', c_userId = Some ''alice'', c_name = ''Mentor'', c_slug = None,
             c_shortDescription = None, c_fullDescription = None, c_systemPrompt = None,
             c_speakingStyle = None, c_domain = None, c_avatarUrl = None,
             c_isSystem = False, c_isPublic = True, c_createdAt = 1000,
             c_updatedAt = 1000\<rparr>],
         sessions = [], messages = [], accesses = []\<rparr>",
       OF a, THEN conjunct2, THEN conjunct2]
    by simp
  show ?thesis by (intro conjI a b c d)
qed

subsection \<open>createChatMessage: the stored message and the session's recency\<close>

lemma createChatMessage_valid:
  "createChatMessage_schema raw \<noteq> None \<Longrightarrow>
     createChatMessage stringify raw ctx rt db = createChatMessage_handler stringify raw ctx rt db"
  by (simp add: createChatMessage_def defineAction_def createChatMessage_schema_def
      split: if_splits)

lemma createChatMessage_invalid:
  "createChatMessage_schema raw = None \<Longrightarrow>
     createChatMessage stringify raw ctx rt db = (Inl ActionInputError, db)"
  by (simp add: createChatMessage_def defineAction_def)

text \<open>
  Claim C5. Let the caller own the session that \<open>createChatMessage\<close> is called on. Every
  successful call (of the handler, and so of the action) returns the message it appends to
  the message table. The message's \<open>userId\<close> is the caller's identifier exactly when
  \<open>senderRole\<close> is \<open>user\<close>, and \<open>null\<close> otherwise; its \<open>metadataJson\<close> is \<open>JSON.stringify\<close> of
  the given metadata, or \<open>null\<close> when none was given; the parent session's \<open>updatedAt\<close> and
  \<open>lastMessageAt\<close> are both set to the message's \<open>createdAt\<close>; and any later
  \<open>listChatMessages\<close> of that session by the same caller, run on the resulting store,
  succeeds and lists the message. The call is successful whenever the generated id is not
  yet a message's id; when it is, the insert violates the primary key, the call fails, and
  neither the message table nor the session is changed.
\<close>

theorem createChatMessage_effect:
  assumes "context_user ctx = Some user"
    and "find (\<lambda>r. s_id r = cm_sessionId inp) (sessions db) = Some session"
    and "s_userId session = u_id user"
  shows
    "(\<forall>message db'.
        createChatMessage_handler stringify inp ctx rt db = (Inr message, db')
          \<or> createChatMessage stringify inp ctx rt db = (Inr message, db') \<longrightarrow>
          (m_userId message = Some (u_id user) \<longleftrightarrow> cm_senderRole inp = ''user'')
        \<and> (cm_senderRole inp \<noteq> ''user'' \<longrightarrow> m_userId message = None)
        \<and> m_metadataJson message
            = (case cm_metadata inp of None \<Rightarrow> None | Some md \<Rightarrow> Some (stringify md))
        \<and> m_sessionId message = cm_sessionId inp
        \<and> m_senderRole message = cm_senderRole inp
        \<and> m_content message = cm_content inp
        \<and> m_createdAt message = new_Date rt
        \<and> messages db' = messages db @ [message]
        \<and> characters db' = characters db
        \<and> find (\<lambda>r. s_id r = cm_sessionId inp) (sessions db')
            = Some (session\<lparr>s_updatedAt := m_createdAt message,
                            s_lastMessageAt := Some (m_createdAt message)\<rparr>)
        \<and> (\<forall>lm rt'. lm_sessionId lm = cm_sessionId inp \<longrightarrow>
              (\<exists>page db''.
                 listChatMessages_handler lm ctx rt' db' = (Inr page, db'')
               \<and> message \<in> set (items page))))
   \<and> (randomUUID rt \<notin> set (map m_id (messages db)) \<longrightarrow>
        (\<exists>message db'.
           createChatMessage_handler stringify inp ctx rt db = (Inr message, db')
         \<and> m_id message = randomUUID rt))
   \<and> (randomUUID rt \<in> set (map m_id (messages db)) \<longrightarrow>
        createChatMessage_handler stringify inp ctx rt db
          = (Inl (Uncaught (UniqueConstraintFailed CharacterChatMessages)),
             db\<lparr>accesses := accesses db
                  @ [Select CharacterChatSessions, Insert CharacterChatMessages]\<rparr>))"
proof -
  have act: "createChatMessage stringify inp ctx rt db
               = createChatMessage_handler stringify inp ctx rt db
             \<or> createChatMessage stringify inp ctx rt db = (Inl ActionInputError, db)"
    using createChatMessage_valid [of inp stringify ctx rt db]
      createChatMessage_invalid [of inp stringify ctx rt db]
    by blast
  show ?thesis
  proof (cases "randomUUID rt \<in> set (map m_id (messages db))")
    case True
    note run = createChatMessage_collision [OF assms True, of stringify]
    from act run
    have none: "\<not> (createChatMessage_handler stringify inp ctx rt db = (Inr message, db')
                   \<or> createChatMessage stringify inp ctx rt db = (Inr message, db'))"
      for message db'
      by auto
    from True run none show ?thesis by blast
  next
    case False
    let ?t = "new_Date rt"
    let ?message = "\<lparr>m_id = randomUUID rt,
                   m_sessionId = cm_sessionId inp,
                   m_userId = (if cm_senderRole inp = ''user'' then Some (u_id user) else None),
                   m_senderRole = cm_senderRole inp,
                   m_content = cm_content inp,
                   m_metadataJson = (case cm_metadata inp of None \<Rightarrow> None | Some md \<Rightarrow> Some (stringify md)),
                   m_createdAt = ?t\<rparr>"
    let ?db' = "db\<lparr>messages := messages db @ [?message],
                 sessions :=
                   map (\<lambda>r. if s_id r = cm_sessionId inp \<and> s_userId r = u_id user
                            then r\<lparr>s_updatedAt := ?t, s_lastMessageAt := Some ?t\<rparr>
                            else r)
                     (sessions db),
                 accesses := accesses db
                   @ [Select CharacterChatSessions, Insert CharacterChatMessages,
                      Update CharacterChatSessions]\<rparr>"
    have run: "createChatMessage_handler stringify inp ctx rt db = (Inr ?message, ?db')"
      by (rule createChatMessage_owner [OF assms False])
    have touched: "find (\<lambda>r. s_id r = cm_sessionId inp) (sessions ?db')
                     = Some (session\<lparr>s_updatedAt := ?t, s_lastMessageAt := Some ?t\<rparr>)"
      using find_session_touched [OF assms(2,3)] by simp
    have listed: "\<exists>page db''.
                    listChatMessages_handler lm ctx rt' ?db' = (Inr page, db'')
                  \<and> ?message \<in> set (items page)"
      if "lm_sessionId lm = cm_sessionId inp" for lm rt'
    proof -
      from touched that
      have "find (\<lambda>r. s_id r = lm_sessionId lm) (sessions ?db')
              = Some (session\<lparr>s_updatedAt := ?t, s_lastMessageAt := Some ?t\<rparr>)"
        by simp
      from listChatMessages_owner [OF assms(1) this, of rt'] assms(3) that
      show ?thesis by simp
    qed
    have fields:
      "(m_userId ?message = Some (u_id user) \<longleftrightarrow> cm_senderRole inp = ''user'')"
      "(cm_senderRole inp \<noteq> ''user'' \<longrightarrow> m_userId ?message = None)"
      "m_metadataJson ?message
         = (case cm_metadata inp of None \<Rightarrow> None | Some md \<Rightarrow> Some (stringify md))"
      by (simp_all split: option.split)
    have props:
      "(m_userId message = Some (u_id user) \<longleftrightarrow> cm_senderRole inp = ''user'')
        \<and> (cm_senderRole inp \<noteq> ''user'' \<longrightarrow> m_userId message = None)
        \<and> m_metadataJson message
            = (case cm_metadata inp of None \<Rightarrow> None | Some md \<Rightarrow> Some (stringify md))
        \<and> m_sessionId message = cm_sessionId inp
        \<and> m_senderRole message = cm_senderRole inp
        \<and> m_content message = cm_content inp
        \<and> m_createdAt message = new_Date rt
        \<and> messages db' = messages db @ [message]
        \<and> characters db' = characters db
        \<and> find (\<lambda>r. s_id r = cm_sessionId inp) (sessions db')
            = Some (session\<lparr>s_updatedAt := m_createdAt message,
                            s_lastMessageAt := Some (m_createdAt message)\<rparr>)
        \<and> (\<forall>lm rt'. lm_sessionId lm = cm_sessionId inp \<longrightarrow>
              (\<exists>page db''.
                 listChatMessages_handler lm ctx rt' db' = (Inr page, db'')
               \<and> message \<in> set (items page)))"
      if "createChatMessage_handler stringify inp ctx rt db = (Inr message, db')
          \<or> createChatMessage stringify inp ctx rt db = (Inr message, db')"
      for message db'
    proof -
      from that act have "createChatMessage_handler stringify inp ctx rt db = (Inr message, db')"
        by auto
      with run have eq: "message = ?message" "db' = ?db'" by simp_all
      from touched listed fields show ?thesis unfolding eq by simp
    qed
    have ex: "\<exists>message db'.
                createChatMessage_handler stringify inp ctx rt db = (Inr message, db')
              \<and> m_id message = randomUUID rt"
      using run by simp
    from False props ex show ?thesis by blast
  qed
qed

text \<open>
  At concrete calls by \<open>bob\<close> on his session \<open>s-1\<close>: a \<open>user\<close> message without
  metadata, then listed; a \<open>character\<close> message with metadata; and a call whose
  generated id \<open>m-1\<close> is already taken.
\<close>

theorem createChatMessage_effect_witness:
  "context_user \<lparr>context_locals = Some \<lparr>locals_user = Some \<lparr>u_id = ''bob''\<rparr>\<rparr>\<rparr>
     = Some \<lparr>u_id = ''bob''\<rparr>
   \<and> find (\<lambda>r. s_id r = ''s-1'')
       (sessions
        \<lparr>characters = [], sessions = [\<lparr>s_id = ''s-1'', s_characterId = ''c-1'', s_userId = ''bob'',
           s_title = None, s_contextSummary = None, s_isPinned = False,
           s_isArchived = False, s_createdAt = 1000, s_updatedAt = 1000,
           s_lastMessageAt = None\<rparr>],
        messages = [], accesses = []\<rparr>)
     = Some \<lparr>s_id = ''s-1'', s_characterId = ''c-1'', s_userId = ''bob'',
           s_title = None, s_contextSummary = None, s_isPinned = False,
           s_isArchived = False, s_createdAt = 1000, s_updatedAt = 1000,
           s_lastMessageAt = None\<rparr>
   \<and> s_userId \<lparr>s_id = ''s-1'', s_characterId = ''c-1'', s_userId = ''bob'',
           s_title = None, s_contextSummary = None, s_isPinned = False,
           s_isArchived = False, s_createdAt = 1000, s_updatedAt = 1000,
           s_lastMessageAt = None\<rparr> = u_id \<lparr>u_id = ''bob''\<rparr>
   \<and> createChatMessage (\<lambda>j. ''{'' @ j @ ''}'')
        \<lparr>cm_sessionId = ''s-1'', cm_senderRole = ''user'',
           cm_content = ''Hi'', cm_metadata = (None :: string option)\<rparr>
        \<lparr>context_locals = Some \<lparr>locals_user = Some \<lparr>u_id = ''bob''\<rparr>\<rparr>\<rparr>
        \<lparr>new_Date = 2000, randomUUID = ''m-1''\<rparr>
        \<lparr>characters = [], sessions = [\<lparr>s_id = ''s-1'', s_characterId = ''c-1'', s_userId = ''bob'',
           s_title = None, s_contextSummary = None, s_isPinned = False,
           s_isArchived = False, s_createdAt = 1000, s_updatedAt = 1000,
           s_lastMessageAt = None\<rparr>],
        messages = [], accesses = []\<rparr>
     = (Inr \<lparr>m_id = ''m-1'', m_sessionId = ''s-1'', m_userId = Some ''bob'',
           m_senderRole = ''user'', m_content = ''Hi'', m_metadataJson = None,
           m_createdAt = 2000\<rparr>,
        \<lparr>characters = [], sessions = [\<lparr>s_id = ''s-1'', s_characterId = ''c-1'', s_userId = ''bob'',
           s_title = None, s_contextSummary = None, s_isPinned = False,
           s_isArchived = False, s_createdAt = 1000, s_updatedAt = 2000,
           s_lastMessageAt = Some 2000\<rparr>],
        messages = [\<lparr>m_id = ''m-1'', m_sessionId = ''s-1'', m_userId = Some ''bob'',
           m_senderRole = ''user'', m_content = ''Hi'', m_metadataJson = None,
           m_createdAt = 2000\<rparr>],
        accesses = [Select CharacterChatSessions, Insert CharacterChatMessages,
                    Update CharacterChatSessions]\<rparr>)
   \<and> find (\<lambda>r. s_id r = ''s-1'')
       (sessions
        \<lparr>characters = [], sessions = [\<lparr>s_id = ''s-1'', s_characterId = ''c-1'', s_userId = ''bob'',
           s_title = None, s_contextSummary = None, s_isPinned = False,
           s_isArchived = False, s_createdAt = 1000, s_updatedAt = 2000,
           s_lastMessageAt = Some 2000\<rparr>],
        messages = [\<lparr>m_id = ''m-1'', m_sessionId = ''s-1'', m_userId = Some ''bob'',
           m_senderRole = ''user'', m_content = ''Hi'', m_metadataJson = None,
           m_createdAt = 2000\<rparr>],
        accesses = [Select CharacterChatSessions, Insert CharacterChatMessages,
                    Update CharacterChatSessions]\<rparr>)
     = Some \<lparr>s_id = ''s-1'', s_characterId = ''c-1'', s_userId = ''bob'',
           s_title = None, s_contextSummary = None, s_isPinned = False,
           s_isArchived = False, s_createdAt = 1000, s_updatedAt = 2000,
           s_lastMessageAt = Some 2000\<rparr>
   \<and> fst (listChatMessages_handler \<lparr>lm_sessionId = ''s-1''\<rparr>
        \<lparr>context_locals = Some \<lparr>locals_user = Some \<lparr>u_id = ''bob''\<rparr>\<rparr>\<rparr>
        \<lparr>new_Date = 3000, randomUUID = ''x''\<rparr>
        \<lparr>characters = [], sessions = [\<lparr>s_id = ''s-1'', s_characterId = ''c-1'', s_userId = ''bob'',
           s_title = None, s_contextSummary = None, s_isPinned = False,
           s_isArchived = False, s_createdAt = 1000, s_updatedAt = 2000,
           s_lastMessageAt = Some 2000\<rparr>],
        messages = [\<lparr>m_id = ''m-1'', m_sessionId = ''s-1'', m_userId = Some ''bob'',
           m_senderRole = ''user'', m_content = ''Hi'', m_metadataJson = None,
           m_createdAt = 2000\<rparr>],
        accesses = [Select CharacterChatSessions, Insert CharacterChatMessages,
                    Update CharacterChatSessions]\<rparr>)
     = Inr \<lparr>items = [\<lparr>m_id = ''m-1'', m_sessionId = ''s-1'', m_userId = Some ''bob'',
           m_senderRole = ''user'', m_content = ''Hi'', m_metadataJson = None,
           m_createdAt = 2000\<rparr>], total = 1\<rparr>
   \<and> fst (createChatMessage_handler (\<lambda>j. ''{'' @ j @ ''}'')
        \<lparr>cm_sessionId = ''s-1'', cm_senderRole = ''character'',
           cm_content = ''Hello, how can I help?'', cm_metadata = Some ''k''\<rparr>
        \<lparr>context_locals = Some \<lparr>locals_user = Some \<lparr>u_id = ''bob''\<rparr>\<rparr>\<rparr>
        \<lparr>new_Date = 2000, randomUUID = ''m-1''\<rparr>
        \<lparr>characters = [], sessions = [\<lparr>s_id = ''s-1'', s_characterId = ''c-1'', s_userId = ''bob'',
           s_title = None, s_contextSummary = None, s_isPinned = False,
           s_isArchived = False, s_createdAt = 1000, s_updatedAt = 1000,
           s_lastMessageAt = None\<rparr>],
        messages = [], accesses = []\<rparr>)
     = Inr \<lparr>m_id = ''m-1'', m_sessionId = ''s-1'', m_userId = None,
           m_senderRole = ''character'',
           m_content = ''Hello, how can I help?'',
           m_metadataJson = Some ''{k}'', m_createdAt = 2000\<rparr>
   \<and> ''m-1'' \<in> set (map m_id (messages
        \<lparr>characters = [], sessions = [\<lparr>s_id = ''s-1'', s_characterId = ''c-1'', s_userId = ''bob'',
           s_title = None, s_contextSummary = None, s_isPinned = False,
           s_isArchived = False, s_createdAt = 1000, s_updatedAt = 1000,
           s_lastMessageAt = None\<rparr>],
        messages = [\<lparr>m_id = ''m-1'', m_sessionId = ''s-1'', m_userId = Some ''bob'',
           m_senderRole = ''user'', m_content = ''Hi'', m_metadataJson = None,
           m_createdAt = 1500\<rparr>], accesses = []\<rparr>))
   \<and> createChatMessage_handler (\<lambda>j. ''{'' @ j @ ''}'')
        \<lparr>cm_sessionId = ''s-1'', cm_senderRole = ''user'',
           cm_content = ''Hi'', cm_metadata = (None :: string option)\<rparr>
        \<lparr>context_locals = Some \<lparr>locals_user = Some \<lparr>u_id = ''bob''\<rparr>\<rparr>\<rparr>
        \<lparr>new_Date = 2000, randomUUID = ''m-1''\<rparr>
        \<lparr>characters = [], sessions = [\<lparr>s_id = ''s-1'', s_characterId = ''c-1'', s_userId = ''bob'',
           s_title = None, s_contextSummary = None, s_isPinned = False,
           s_isArchived = False, s_createdAt = 1000, s_updatedAt = 1000,
           s_lastMessageAt = None\<rparr>],
        messages = [\<lparr>m_id = ''m-1'', m_sessionId = ''s-1'', m_userId = Some ''bob'',
           m_senderRole = ''user'', m_content = ''Hi'', m_metadataJson = None,
           m_createdAt = 1500\<rparr>], accesses = []\<rparr>
     = (Inl (Uncaught (UniqueConstraintFailed CharacterChatMessages)),
        \<lparr>characters = [], sessions = [\<lparr>s_id = ''s-1'', s_characterId = ''c-1'', s_userId = ''bob'',
           s_title = None, s_contextSummary = None, s_isPinned = False,
           s_isArchived = False, s_createdAt = 1000, s_updatedAt = 1000,
           s_lastMessageAt = None\<rparr>],
        messages = [\<lparr>m_id = ''m-1'', m_sessionId = ''s-1'', m_userId = Some ''bob'',
           m_senderRole = ''user'', m_content = ''Hi'', m_metadataJson = None,
           m_createdAt = 1500\<rparr>],
        accesses = [Select CharacterChatSessions, Insert CharacterChatMessages]\<rparr>)"
proof -
  let ?ctx = "\<lparr>context_locals = Some \<lparr>locals_user = Some \<lparr>u_id = ''bob''\<rparr>\<rparr>\<rparr>"
  let ?user = "\<lparr>u_id = ''bob''\<rparr>"
  let ?session = "\<lparr>s_id = ''s-1'', s_characterId = ''c-1'', s_userId = ''bob'',
           s_title = None, s_contextSummary = None, s_isPinned = False,
           s_isArchived = False, s_createdAt = 1000, s_updatedAt = 1000,
           s_lastMessageAt = None\<rparr>"
  let ?db = "\<lparr>characters = [], sessions = [\<lparr>s_id = ''s-1'', s_characterId = ''c-1'', s_userId = ''bob'',
           s_title = None, s_contextSummary = None, s_isPinned = False,
           s_isArchived = False, s_createdAt = 1000, s_updatedAt = 1000,
           s_lastMessageAt = None\<rparr>],
        messages = [], accesses = []\<rparr>"
  let ?dbc = "\<lparr>characters = [], sessions = [\<lparr>s_id = ''s-1'', s_characterId = ''c-1'', s_userId = ''bob'',
           s_title = None, s_contextSummary = None, s_isPinned = False,
           s_isArchived = False, s_createdAt = 1000, s_updatedAt = 1000,
           s_lastMessageAt = None\<rparr>],
        messages = [\<lparr>m_id = ''m-1'', m_sessionId = ''s-1'', m_userId = Some ''bob'',
           m_senderRole = ''user'', m_content = ''Hi'', m_metadataJson = None,
           m_createdAt = 1500\<rparr>], accesses = []\<rparr>"
  let ?rt = "\<lparr>new_Date = 2000, randomUUID = ''m-1''\<rparr>"
  let ?inp = "\<lparr>cm_sessionId = ''s-1'', cm_senderRole = ''user'',
           cm_content = ''Hi'', cm_metadata = (None :: string option)\<rparr>"
  let ?m = "\<lparr>m_id = ''m-1'', m_sessionId = ''s-1'', m_userId = Some ''bob'',
           m_senderRole = ''user'', m_content = ''Hi'', m_metadataJson = None,
           m_createdAt = 2000\<rparr>"
  let ?db' = "\<lparr>characters = [], sessions = [\<lparr>s_id = ''s-1'', s_characterId = ''c-1'', s_userId = ''bob'',
           s_title = None, s_contextSummary = None, s_isPinned = False,
           s_isArchived = False, s_createdAt = 1000, s_updatedAt = 2000,
           s_lastMessageAt = Some 2000\<rparr>],
        messages = [?m],
        accesses = [Select CharacterChatSessions, Insert CharacterChatMessages,
                    Update CharacterChatSessions]\<rparr>"
  have a: "context_user ?ctx = Some ?user"
    by (simp add: context_user_def)
  have b: "find (\<lambda>r. s_id r = ''s-1'') (sessions ?db) = Some ?session"
    by simp
  have c: "s_userId ?session = u_id ?user"
    by simp
  have b': "find (\<lambda>r. s_id r = cm_sessionId ?inp) (sessions ?db) = Some ?session"
    by simp
  have bc: "find (\<lambda>r. s_id r = cm_sessionId ?inp) (sessions ?dbc) = Some ?session"
    by simp
  have d: "createChatMessage (\<lambda>j. ''{'' @ j @ ''}'') ?inp ?ctx ?rt ?db = (Inr ?m, ?db')"
    by (simp add: createChatMessage_def defineAction_def createChatMessage_schema_def
        min1_def senderRole_enum_def
        context_user_def requireUser_def createChatMessage_handler_def
        listChatMessages_handler_def select_CharacterChatSessions_def
        select_CharacterChatMessages_def insert_CharacterChatMessages_def
        update_CharacterChatSessions_def set_CharacterChatSessions_def Let_def)
  note all = createChatMessage_effect
      [where stringify = "(\<lambda>j. ''{'' @ j @ ''}'')" and inp = ?inp and rt = ?rt and db = ?db,
       OF a b' c, THEN conjunct1, rule_format, of ?m ?db', OF disjI2, OF d]
  have f: "find (\<lambda>r. s_id r = ''s-1'') (sessions ?db') = Some \<lparr>s_id = ''s-1'', s_characterId = ''c-1'', s_userId = ''bob'',
           s_title = None, s_contextSummary = None, s_isPinned = False,
           s_isArchived = False, s_createdAt = 1000, s_updatedAt = 2000,
           s_lastMessageAt = Some 2000\<rparr>"
    using all by simp
  have g: "fst (listChatMessages_handler \<lparr>lm_sessionId = ''s-1''\<rparr> ?ctx
             \<lparr>new_Date = 3000, randomUUID = ''x''\<rparr> ?db')
           = Inr \<lparr>items = [?m], total = 1\<rparr>"
    by (simp add: context_user_def requireUser_def createChatMessage_handler_def
        listChatMessages_handler_def select_CharacterChatSessions_def
        select_CharacterChatMessages_def insert_CharacterChatMessages_def
        update_CharacterChatSessions_def set_CharacterChatSessions_def Let_def)
  have h: "fst (createChatMessage_handler (\<lambda>j. ''{'' @ j @ ''}'')
        \<lparr>cm_sessionId = ''s-1'', cm_senderRole = ''character'',
           cm_content = ''Hello, how can I help?'', cm_metadata = Some ''k''\<rparr>
        \<lparr>context_locals = Some \<lparr>locals_user = Some \<lparr>u_id = ''bob''\<rparr>\<rparr>\<rparr>
        \<lparr>new_Date = 2000, randomUUID = ''m-1''\<rparr>
        ?db)
           = Inr \<lparr>m_id = ''m-1'', m_sessionId = ''s-1'', m_userId = None,
           m_senderRole = ''character'',
           m_content = ''Hello, how can I help?'',
           m_metadataJson = Some ''{k}'', m_createdAt = 2000\<rparr>"
    by (simp add: context_user_def requireUser_def createChatMessage_handler_def
        listChatMessages_handler_def select_CharacterChatSessions_def
        select_CharacterChatMessages_def insert_CharacterChatMessages_def
        update_CharacterChatSessions_def set_CharacterChatSessions_def Let_def)
  have i: "''m-1'' \<in> set (map m_id (messages ?dbc))"
    by simp
  have i': "randomUUID ?rt \<in> set (map m_id (messages ?dbc))"
    by simp
  have j: "createChatMessage_handler (\<lambda>j. ''{'' @ j @ ''}'') ?inp ?ctx ?rt ?dbc
           = (Inl (Uncaught (UniqueConstraintFailed CharacterChatMessages)),
        \<lparr>characters = [], sessions = [?session],
        messages = [\<lparr>m_id = ''m-1'', m_sessionId = ''s-1'', m_userId = Some ''bob'',
           m_senderRole = ''user'', m_content = ''Hi'', m_metadataJson = None,
           m_createdAt = 1500\<rparr>],
        accesses = [Select CharacterChatSessions, Insert CharacterChatMessages]\<rparr>)"
    using createChatMessage_effect
      [where stringify = "(\<lambda>j. ''{'' @ j @ ''}'')" and inp = ?inp and rt = ?rt and db = ?dbc,
       OF a bc c, THEN conjunct2, THEN conjunct2, rule_format, OF i']
    by simp
  show ?thesis
    by (intro conjI a b c d f g h i j)
qed

subsection \<open>updateCharacter and updateChatSession: what an update changes\<close>

text \<open>
  Claim C6. When the owner calls \<open>updateCharacter\<close> or \<open>updateChatSession\<close>, the call
  succeeds and, in the row addressed (every row with the given id and the caller as owner),
  each field given in the input takes the given value, each field not given keeps its value,
  and \<open>updatedAt\<close> becomes the time of the call; \<open>isSystem\<close>, the owner, the id and
  \<open>createdAt\<close> (and for a session its character and \<open>lastMessageAt\<close>) are not changed,
  whatever the input. Every other row, the number and order of the rows, and the other two
  tables are left as they were.
\<close>

theorem partial_update_frame:
  assumes "context_user ctx = Some user"
  shows
    "(find (\<lambda>r. c_id r = uc_id uc) (characters db) = Some character
        \<and> c_userId character = Some (u_id user) \<longrightarrow>
        fst (updateCharacter_handler uc ctx rt db) = Inr (uc_id uc)
      \<and> sessions (snd (updateCharacter_handler uc ctx rt db)) = sessions db
      \<and> messages (snd (updateCharacter_handler uc ctx rt db)) = messages db
      \<and> length (characters (snd (updateCharacter_handler uc ctx rt db)))
          = length (characters db)
      \<and> (\<exists>i < length (characters db). characters db ! i = character)
      \<and> (\<forall>i < length (characters db).
            (c_id (characters db ! i) = uc_id uc
               \<and> c_userId (characters db ! i) = Some (u_id user) \<longrightarrow>
                c_name (characters (snd (updateCharacter_handler uc ctx rt db)) ! i)
                  = (case uc_name uc of None \<Rightarrow> c_name (characters db ! i) | Some v \<Rightarrow> v)
              \<and> c_slug (characters (snd (updateCharacter_handler uc ctx rt db)) ! i)
                  = (case uc_slug uc of None \<Rightarrow> c_slug (characters db ! i)
                     | Some v \<Rightarrow> Some v)
              \<and> c_shortDescription (characters (snd (updateCharacter_handler uc ctx rt db)) ! i)
                  = (case uc_shortDescription uc of
                       None \<Rightarrow> c_shortDescription (characters db ! i) | Some v \<Rightarrow> Some v)
              \<and> c_fullDescription (characters (snd (updateCharacter_handler uc ctx rt db)) ! i)
                  = (case uc_fullDescription uc of
                       None \<Rightarrow> c_fullDescription (characters db ! i) | Some v \<Rightarrow> Some v)
              \<and> c_systemPrompt (characters (snd (updateCharacter_handler uc ctx rt db)) ! i)
                  = (case uc_systemPrompt uc of
                       None \<Rightarrow> c_systemPrompt (characters db ! i) | Some v \<Rightarrow> Some v)
              \<and> c_speakingStyle (characters (snd (updateCharacter_handler uc ctx rt db)) ! i)
                  = (case uc_speakingStyle uc of
                       None \<Rightarrow> c_speakingStyle (characters db ! i) | Some v \<Rightarrow> Some v)
              \<and> c_domain (characters (snd (updateCharacter_handler uc ctx rt db)) ! i)
                  = (case uc_domain uc of None \<Rightarrow> c_domain (characters db ! i)
                     | Some v \<Rightarrow> Some v)
              \<and> c_avatarUrl (characters (snd (updateCharacter_handler uc ctx rt db)) ! i)
                  = (case uc_avatarUrl uc of None \<Rightarrow> c_avatarUrl (characters db ! i)
                     | Some v \<Rightarrow> Some v)
              \<and> c_isPublic (characters (snd (updateCharacter_handler uc ctx rt db)) ! i)
                  = (case uc_isPublic uc of None \<Rightarrow> c_isPublic (characters db ! i)
                     | Some v \<Rightarrow> v)
              \<and> c_updatedAt (characters (snd (updateCharacter_handler uc ctx rt db)) ! i)
                  = new_Date rt
              \<and> c_isSystem (characters (snd (updateCharacter_handler uc ctx rt db)) ! i)
                  = c_isSystem (characters db ! i)
              \<and> c_userId (characters (snd (updateCharacter_handler uc ctx rt db)) ! i)
                  = c_userId (characters db ! i)
              \<and> c_id (characters (snd (updateCharacter_handler uc ctx rt db)) ! i)
                  = c_id (characters db ! i)
              \<and> c_createdAt (characters (snd (updateCharacter_handler uc ctx rt db)) ! i)
                  = c_createdAt (characters db ! i))
          \<and> (\<not> (c_id (characters db ! i) = uc_id uc
                   \<and> c_userId (characters db ! i) = Some (u_id user)) \<longrightarrow>
                characters (snd (updateCharacter_handler uc ctx rt db)) ! i
                  = characters db ! i)))
   \<and> (find (\<lambda>r. s_id r = us_id us) (sessions db) = Some session
        \<and> s_userId session = u_id user \<longrightarrow>
        fst (updateChatSession_handler us ctx rt db) = Inr (us_id us)
      \<and> characters (snd (updateChatSession_handler us ctx rt db)) = characters db
      \<and> messages (snd (updateChatSession_handler us ctx rt db)) = messages db
      \<and> length (sessions (snd (updateChatSession_handler us ctx rt db)))
          = length (sessions db)
      \<and> (\<exists>i < length (sessions db). sessions db ! i = session)
      \<and> (\<forall>i < length (sessions db).
            (s_id (sessions db ! i) = us_id us \<and> s_userId (sessions db ! i) = u_id user \<longrightarrow>
                s_title (sessions (snd (updateChatSession_handler us ctx rt db)) ! i)
                  = (case us_title us of None \<Rightarrow> s_title (sessions db ! i)
                     | Some v \<Rightarrow> Some v)
              \<and> s_contextSummary (sessions (snd (updateChatSession_handler us ctx rt db)) ! i)
                  = (case us_contextSummary us of
                       None \<Rightarrow> s_contextSummary (sessions db ! i) | Some v \<Rightarrow> Some v)
              \<and> s_isPinned (sessions (snd (updateChatSession_handler us ctx rt db)) ! i)
                  = (case us_isPinned us of None \<Rightarrow> s_isPinned (sessions db ! i)
                     | Some v \<Rightarrow> v)
              \<and> s_isArchived (sessions (snd (updateChatSession_handler us ctx rt db)) ! i)
                  = (case us_isArchived us of None \<Rightarrow> s_isArchived (sessions db ! i)
                     | Some v \<Rightarrow> v)
              \<and> s_updatedAt (sessions (snd (updateChatSession_handler us ctx rt db)) ! i)
                  = new_Date rt
              \<and> s_userId (sessions (snd (updateChatSession_handler us ctx rt db)) ! i)
                  = s_userId (sessions db ! i)
              \<and> s_id (sessions (snd (updateChatSession_handler us ctx rt db)) ! i)
                  = s_id (sessions db ! i)
              \<and> s_characterId (sessions (snd (updateChatSession_handler us ctx rt db)) ! i)
                  = s_characterId (sessions db ! i)
              \<and> s_createdAt (sessions (snd (updateChatSession_handler us ctx rt db)) ! i)
                  = s_createdAt (sessions db ! i)
              \<and> s_lastMessageAt (sessions (snd (updateChatSession_handler us ctx rt db)) ! i)
                  = s_lastMessageAt (sessions db ! i))
          \<and> (\<not> (s_id (sessions db ! i) = us_id us
                   \<and> s_userId (sessions db ! i) = u_id user) \<longrightarrow>
                sessions (snd (updateChatSession_handler us ctx rt db)) ! i
                  = sessions db ! i)))"
    (is "(?ownsCharacter \<longrightarrow> ?characterUpdated) \<and> (?ownsSession \<longrightarrow> ?sessionUpdated)")
proof (rule conjI; rule impI)
  assume ?ownsCharacter
  then have f: "find (\<lambda>r. c_id r = uc_id uc) (characters db) = Some character"
    and o: "c_userId character = Some (u_id user)" by simp_all
  note eq = updateCharacter_owner [OF assms f o, of rt]
  from find_Some_holds [OF f]
  have "\<exists>i < length (characters db). characters db ! i = character"
    by (simp add: in_set_conv_nth)
  then show ?characterUpdated
    by (simp add: eq set_AiCharacters_fields)
next
  assume ?ownsSession
  then have f: "find (\<lambda>r. s_id r = us_id us) (sessions db) = Some session"
    and o: "s_userId session = u_id user" by simp_all
  note eq = updateChatSession_owner [OF assms f o, of rt]
  from find_Some_holds [OF f]
  have "\<exists>i < length (sessions db). sessions db ! i = session"
    by (simp add: in_set_conv_nth)
  then show ?sessionUpdated
    by (simp add: eq set_CharacterChatSessions_fields)
qed

text \<open>
  At concrete calls: \<open>bob\<close> renames and publishes his character \<open>c-1\<close>, and titles and
  pins his session \<open>s-1\<close>; \<open>amy\<close>'s rows stay as they are.
\<close>

theorem partial_update_frame_witness:
  "context_user \<lparr>context_locals = Some \<lparr>locals_user = Some \<lparr>u_id = ''bob''\<rparr>\<rparr>\<rparr>
     = Some \<lparr>u_id = ''bob''\<rparr>
   \<and> find (\<lambda>r. c_id r = ''c-1'')
       (characters
        \<lparr>characters =
         [\<lparr>c_id = ''c-1'', c_userId = Some ''bob'', c_name = ''Diary'',
           c_slug = Some ''diary'', c_shortDescription = None,
           c_fullDescription = None, c_systemPrompt = None,
           c_speakingStyle = None, c_domain = None, c_avatarUrl = None,
           c_isSystem = False, c_isPublic = False, c_createdAt = 1000,
           c_updatedAt = 1000\<rparr>,
          \<lparr>c_id = ''c-2'', c_userId = Some ''amy'', c_name = ''Secret'',
           c_slug = None, c_shortDescription = None, c_fullDescription = None,
           c_systemPrompt = None, c_speakingStyle = None, c_domain = None,
           c_avatarUrl = None, c_isSystem = False, c_isPublic = False,
           c_createdAt = 1000, c_updatedAt = 1000\<rparr>],
        sessions =
         [\<lparr>s_id = ''s-1'', s_characterId = ''c-1'', s_userId = ''bob'',
           s_title = None, s_contextSummary = Some ''earlier'',
           s_isPinned = False, s_isArchived = False, s_createdAt = 1000,
           s_updatedAt = 1000, s_lastMessageAt = None\<rparr>,
          \<lparr>s_id = ''s-2'', s_characterId = ''c-1'', s_userId = ''amy'',
           s_title = None, s_contextSummary = None, s_isPinned = False,
           s_isArchived = False, s_createdAt = 1000, s_updatedAt = 1000,
           s_lastMessageAt = None\<rparr>],
        messages = [],
        accesses = []\<rparr>)
     = Some \<lparr>c_id = ''c-1'', c_userId = Some ''bob'', c_name = ''Diary'',
           c_slug = Some ''diary'', c_shortDescription = None,
           c_fullDescription = None, c_systemPrompt = None,
           c_speakingStyle = None, c_domain = None, c_avatarUrl = None,
           c_isSystem = False, c_isPublic = False, c_createdAt = 1000,
           c_updatedAt = 1000\<rparr>
   \<and> c_userId \<lparr>c_id = ''c-1'', c_userId = Some ''bob'', c_name = ''Diary'',
           c_slug = Some ''diary'', c_shortDescription = None,
           c_fullDescription = None, c_systemPrompt = None,
           c_speakingStyle = None, c_domain = None, c_avatarUrl = None,
           c_isSystem = False, c_isPublic = False, c_createdAt = 1000,
           c_updatedAt = 1000\<rparr> = Some (u_id \<lparr>u_id = ''bob''\<rparr>)
   \<and> find (\<lambda>r. s_id r = ''s-1'')
       (sessions
        \<lparr>characters =
         [\<lparr>c_id = ''c-1'', c_userId = Some ''bob'', c_name = ''Diary'',
           c_slug = Some ''diary'', c_shortDescription = None,
           c_fullDescription = None, c_systemPrompt = None,
           c_speakingStyle = None, c_domain = None, c_avatarUrl = None,
           c_isSystem = False, c_isPublic = False, c_createdAt = 1000,
           c_updatedAt = 1000\<rparr>,
          \<lparr>c_id = ''c-2'', c_userId = Some ''amy'', c_name = ''Secret'',
           c_slug = None, c_shortDescription = None, c_fullDescription = None,
           c_systemPrompt = None, c_speakingStyle = None, c_domain = None,
           c_avatarUrl = None, c_isSystem = False, c_isPublic = False,
           c_createdAt = 1000, c_updatedAt = 1000\<rparr>],
        sessions =
         [\<lparr>s_id = ''s-1'', s_characterId = ''c-1'', s_userId = ''bob'',
           s_title = None, s_contextSummary = Some ''earlier'',
           s_isPinned = False, s_isArchived = False, s_createdAt = 1000,
           s_updatedAt = 1000, s_lastMessageAt = None\<rparr>,
          \<lparr>s_id = ''s-2'', s_characterId = ''c-1'', s_userId = ''amy'',
           s_title = None, s_contextSummary = None, s_isPinned = False,
           s_isArchived = False, s_createdAt = 1000, s_updatedAt = 1000,
           s_lastMessageAt = None\<rparr>],
        messages = [],
        accesses = []\<rparr>)
     = Some \<lparr>s_id = ''s-1'', s_characterId = ''c-1'', s_userId = ''bob'',
           s_title = None, s_contextSummary = Some ''earlier'',
           s_isPinned = False, s_isArchived = False, s_createdAt = 1000,
           s_updatedAt = 1000, s_lastMessageAt = None\<rparr>
   \<and> s_userId \<lparr>s_id = ''s-1'', s_characterId = ''c-1'', s_userId = ''bob'',
           s_title = None, s_contextSummary = Some ''earlier'',
           s_isPinned = False, s_isArchived = False, s_createdAt = 1000,
           s_updatedAt = 1000, s_lastMessageAt = None\<rparr> = u_id \<lparr>u_id = ''bob''\<rparr>
   \<and> updateCharacter_handler
        \<lparr>uc_id = ''c-1'', uc_name = Some ''Journal'', uc_slug = None,
           uc_shortDescription = None, uc_fullDescription = None,
           uc_systemPrompt = None, uc_speakingStyle = None, uc_domain = None,
           uc_avatarUrl = None, uc_isPublic = Some True\<rparr>
        \<lparr>context_locals = Some \<lparr>locals_user = Some \<lparr>u_id = ''bob''\<rparr>\<rparr>\<rparr>
        \<lparr>new_Date = 5000, randomUUID = ''x''\<rparr>
        \<lparr>characters =
         [\<lparr>c_id = ''c-1'', c_userId = Some ''bob'', c_name = ''Diary'',
           c_slug = Some ''diary'', c_shortDescription = None,
           c_fullDescription = None, c_systemPrompt = None,
           c_speakingStyle = None, c_domain = None, c_avatarUrl = None,
           c_isSystem = False, c_isPublic = False, c_createdAt = 1000,
           c_updatedAt = 1000\<rparr>,
          \<lparr>c_id = ''c-2'', c_userId = Some ''amy'', c_name = ''Secret'',
           c_slug = None, c_shortDescription = None, c_fullDescription = None,
           c_systemPrompt = None, c_speakingStyle = None, c_domain = None,
           c_avatarUrl = None, c_isSystem = False, c_isPublic = False,
           c_createdAt = 1000, c_updatedAt = 1000\<rparr>],
        sessions =
         [\<lparr>s_id = ''s-1'', s_characterId = ''c-1'', s_userId = ''bob'',
           s_title = None, s_contextSummary = Some ''earlier'',
           s_isPinned = False, s_isArchived = False, s_createdAt = 1000,
           s_updatedAt = 1000, s_lastMessageAt = None\<rparr>,
          \<lparr>s_id = ''s-2'', s_characterId = ''c-1'', s_userId = ''amy'',
           s_title = None, s_contextSummary = None, s_isPinned = False,
           s_isArchived = False, s_createdAt = 1000, s_updatedAt = 1000,
           s_lastMessageAt = None\<rparr>],
        messages = [],
        accesses = []\<rparr>
     = (Inr ''c-1'',
        \<lparr>characters =
         [\<lparr>c_id = ''c-1'', c_userId = Some ''bob'', c_name = ''Journal'',
           c_slug = Some ''diary'', c_shortDescription = None,
           c_fullDescription = None, c_systemPrompt = None,
           c_speakingStyle = None, c_domain = None, c_avatarUrl = None,
           c_isSystem = False, c_isPublic = True, c_createdAt = 1000,
           c_updatedAt = 5000\<rparr>,
          \<lparr>c_id = ''c-2'', c_userId = Some ''amy'', c_name = ''Secret'',
           c_slug = None, c_shortDescription = None, c_fullDescription = None,
           c_systemPrompt = None, c_speakingStyle = None, c_domain = None,
           c_avatarUrl = None, c_isSystem = False, c_isPublic = False,
           c_createdAt = 1000, c_updatedAt = 1000\<rparr>],
        sessions =
         [\<lparr>s_id = ''s-1'', s_characterId = ''c-1'', s_userId = ''bob'',
           s_title = None, s_contextSummary = Some ''earlier'',
           s_isPinned = False, s_isArchived = False, s_createdAt = 1000,
           s_updatedAt = 1000, s_lastMessageAt = None\<rparr>,
          \<lparr>s_id = ''s-2'', s_characterId = ''c-1'', s_userId = ''amy'',
           s_title = None, s_contextSummary = None, s_isPinned = False,
           s_isArchived = False, s_createdAt = 1000, s_updatedAt = 1000,
           s_lastMessageAt = None\<rparr>],
        messages = [],
        accesses = [Select AiCharacters, Update AiCharacters]\<rparr>)
   \<and> updateChatSession_handler
        \<lparr>us_id = ''s-1'', us_title = Some ''Plans'',
           us_contextSummary = None, us_isPinned = Some True,
           us_isArchived = None\<rparr>
        \<lparr>context_locals = Some \<lparr>locals_user = Some \<lparr>u_id = ''bob''\<rparr>\<rparr>\<rparr>
        \<lparr>new_Date = 5000, randomUUID = ''x''\<rparr>
        \<lparr>characters =
         [\<lparr>c_id = ''c-1'', c_userId = Some ''bob'', c_name = ''Diary'',
           c_slug = Some ''diary'', c_shortDescription = None,
           c_fullDescription = None, c_systemPrompt = None,
           c_speakingStyle = None, c_domain = None, c_avatarUrl = None,
           c_isSystem = False, c_isPublic = False, c_createdAt = 1000,
           c_updatedAt = 1000\<rparr>,
          \<lparr>c_id = ''c-2'', c_userId = Some ''amy'', c_name = ''Secret'',
           c_slug = None, c_shortDescription = None, c_fullDescription = None,
           c_systemPrompt = None, c_speakingStyle = None, c_domain = None,
           c_avatarUrl = None, c_isSystem = False, c_isPublic = False,
           c_createdAt = 1000, c_updatedAt = 1000\<rparr>],
        sessions =
         [\<lparr>s_id = ''s-1'', s_characterId = ''c-1'', s_userId = ''bob'',
           s_title = None, s_contextSummary = Some ''earlier'',
           s_isPinned = False, s_isArchived = False, s_createdAt = 1000,
           s_updatedAt = 1000, s_lastMessageAt = None\<rparr>,
          \<lparr>s_id = ''s-2'', s_characterId = ''c-1'', s_userId = ''amy'',
           s_title = None, s_contextSummary = None, s_isPinned = False,
           s_isArchived = False, s_createdAt = 1000, s_updatedAt = 1000,
           s_lastMessageAt = None\<rparr>],
        messages = [],
        accesses = []\<rparr>
     = (Inr ''s-1'',
        \<lparr>characters =
         [\<lparr>c_id = ''c-1'', c_userId = Some ''bob'', c_name = ''Diary'',
           c_slug = Some ''diary'', c_shortDescription = None,
           c_fullDescription = None, c_systemPrompt = None,
           c_speakingStyle = None, c_domain = None, c_avatarUrl = None,
           c_isSystem = False, c_isPublic = False, c_createdAt = 1000,
           c_updatedAt = 1000\<rparr>,
          \<lparr>c_id = ''c-2'', c_userId = Some ''amy'', c_name = ''Secret'',
           c_slug = None, c_shortDescription = None, c_fullDescription = None,
           c_systemPrompt = None, c_speakingStyle = None, c_domain = None,
           c_avatarUrl = None, c_isSystem = False, c_isPublic = False,
           c_createdAt = 1000, c_updatedAt = 1000\<rparr>],
        sessions =
         [\<lparr>s_id = ''s-1'', s_characterId = ''c-1'', s_userId = ''bob'',
           s_title = Some ''Plans'', s_contextSummary = Some ''earlier'',
           s_isPinned = True, s_isArchived = False, s_createdAt = 1000,
           s_updatedAt = 5000, s_lastMessageAt = None\<rparr>,
          \<lparr>s_id = ''s-2'', s_characterId = ''c-1'', s_userId = ''amy'',
           s_title = None, s_contextSummary = None, s_isPinned = False,
           s_isArchived = False, s_createdAt = 1000, s_updatedAt = 1000,
           s_lastMessageAt = None\<rparr>],
        messages = [],
        accesses = [Select CharacterChatSessions, Update CharacterChatSessions]\<rparr>)"
  using
    partial_update_frame
      [where ctx = "\<lparr>context_locals = Some \<lparr>locals_user = Some \<lparr>u_id = ''bob''\<rparr>\<rparr>\<rparr>"
         and user = "\<lparr>u_id = ''bob''\<rparr>"
         and uc = "\<lparr>uc_id = ''c-1'', uc_name = Some ''Journal'', uc_slug = None,
           uc_shortDescription = None, uc_fullDescription = None,
           uc_systemPrompt = None, uc_speakingStyle = None, uc_domain = None,
           uc_avatarUrl = None, uc_isPublic = Some True\<rparr>"
         and us = "\<lparr>us_id = ''s-1'', us_title = Some ''Plans'',
           us_contextSummary = None, us_isPinned = Some True,
           us_isArchived = None\<rparr>"
         and db = "\<lparr>characters =
         [\<lparr>c_id = ''c-1'', c_userId = Some ''bob'', c_name = ''Diary'',
           c_slug = Some ''diary'', c_shortDescription = None,
           c_fullDescription = None, c_systemPrompt = None,
           c_speakingStyle = None, c_domain = None, c_avatarUrl = None,
           c_isSystem = False, c_isPublic = False, c_createdAt = 1000,
           c_updatedAt = 1000\<rparr>,
          \<lparr>c_id = ''c-2'', c_userId = Some ''amy'', c_name = ''Secret'',
           c_slug = None, c_shortDescription = None, c_fullDescription = None,
           c_systemPrompt = None, c_speakingStyle = None, c_domain = None,
           c_avatarUrl = None, c_isSystem = False, c_isPublic = False,
           c_createdAt = 1000, c_updatedAt = 1000\<rparr>],
        sessions =
         [\<lparr>s_id = ''s-1'', s_characterId = ''c-1'', s_userId = ''bob'',
           s_title = None, s_contextSummary = Some ''earlier'',
           s_isPinned = False, s_isArchived = False, s_createdAt = 1000,
           s_updatedAt = 1000, s_lastMessageAt = None\<rparr>,
          \<lparr>s_id = ''s-2'', s_characterId = ''c-1'', s_userId = ''amy'',
           s_title = None, s_contextSummary = None, s_isPinned = False,
           s_isArchived = False, s_createdAt = 1000, s_updatedAt = 1000,
           s_lastMessageAt = None\<rparr>],
        messages = [],
        accesses = []\<rparr>"
         and rt = "\<lparr>new_Date = 5000, randomUUID = ''x''\<rparr>"
         and character = "\<lparr>c_id = ''c-1'', c_userId = Some ''bob'', c_name = ''Diary'',
           c_slug = Some ''diary'', c_shortDescription = None,
           c_fullDescription = None, c_systemPrompt = None,
           c_speakingStyle = None, c_domain = None, c_avatarUrl = None,
           c_isSystem = False, c_isPublic = False, c_createdAt = 1000,
           c_updatedAt = 1000\<rparr>"
         and session = "\<lparr>s_id = ''s-1'', s_characterId = ''c-1'', s_userId = ''bob'',
           s_title = None, s_contextSummary = Some ''earlier'',
           s_isPinned = False, s_isArchived = False, s_createdAt = 1000,
           s_updatedAt = 1000, s_lastMessageAt = None\<rparr>"]
  by (simp add: context_user_def requireUser_def updateCharacter_handler_def
      updateChatSession_handler_def select_AiCharacters_def select_CharacterChatSessions_def
      update_AiCharacters_def update_CharacterChatSessions_def set_AiCharacters_def
      set_CharacterChatSessions_def updateCharacter_updateData_def
      updateChatSession_updateData_def)

subsection \<open>createChatMessage: input that fails the schema\<close>

text \<open>
  Claim C7. A call of \<open>createChatMessage\<close> whose \<open>content\<close> is empty, or whose
  \<open>senderRole\<close> is none of \<open>user\<close>, \<open>character\<close>, \<open>system\<close>, fails with the input
  validation error (code \<open>BAD_REQUEST\<close>) and returns the store exactly as it received it:
  no statement was run, no table changed, so the parent session keeps its \<open>updatedAt\<close> and
  \<open>lastMessageAt\<close>.
\<close>

theorem createChatMessage_validation:
  assumes "cm_content raw = [] \<or> cm_senderRole raw \<notin> {''user'', ''character'', ''system''}"
  shows "createChatMessage stringify raw ctx rt db = (Inl ActionInputError, db)
       \<and> code ActionInputError = BAD_REQUEST"
  using assms
  by (auto simp add: createChatMessage_def defineAction_def createChatMessage_schema_def
      min1_def senderRole_enum_def)

text \<open>
  At two concrete calls by the owner of session \<open>s-1\<close>: one with empty content, one with
  the role \<open>admin\<close>.
\<close>

theorem createChatMessage_validation_witness:
  "cm_content \<lparr>cm_sessionId = ''s-1'', cm_senderRole = ''user'', cm_content = '''',
                cm_metadata = (None :: string option)\<rparr> = []
   \<and> createChatMessage (\<lambda>j. j)
        \<lparr>cm_sessionId = ''s-1'', cm_senderRole = ''user'', cm_content = '''',
         cm_metadata = None\<rparr>
        \<lparr>context_locals = Some \<lparr>locals_user = Some \<lparr>u_id = ''bob''\<rparr>\<rparr>\<rparr>
        \<lparr>new_Date = 2000, randomUUID = ''m-1''\<rparr>
        \<lparr>characters = [],
         sessions =
           [\<lparr>s_id = ''s-1'', s_characterId = ''c-1'', s_userId = ''bob'', s_title = None,
             s_contextSummary = None, s_isPinned = False, s_isArchived = False,
             s_createdAt = 1000, s_updatedAt = 1000, s_lastMessageAt = None\<rparr>],
         messages = [], accesses = []\<rparr>
       = (Inl ActionInputError,
          \<lparr>characters = [],
           sessions =
             [\<lparr>s_id = ''s-1'', s_characterId = ''c-1'', s_userId = ''bob'', s_title = None,
               s_contextSummary = None, s_isPinned = False, s_isArchived = False,
               s_createdAt = 1000, s_updatedAt = 1000, s_lastMessageAt = None\<rparr>],
           messages = [], accesses = []\<rparr>)
   \<and> createChatMessage (\<lambda>j. j)
        \<lparr>cm_sessionId = ''s-1'', cm_senderRole = ''admin'', cm_content = ''hello'',
         cm_metadata = None\<rparr>
        \<lparr>context_locals = Some \<lparr>locals_user = Some \<lparr>u_id = ''bob''\<rparr>\<rparr>\<rparr>
        \<lparr>new_Date = 2000, randomUUID = ''m-1''\<rparr>
        \<lparr>characters = [],
         sessions =
           [\<lparr>s_id = ''s-1'', s_characterId = ''c-1'', s_userId = ''bob'', s_title = None,
             s_contextSummary = None, s_isPinned = False, s_isArchived = False,
             s_createdAt = 1000, s_updatedAt = 1000, s_lastMessageAt = None\<rparr>],
         messages = [], accesses = []\<rparr>
       = (Inl ActionInputError,
          \<lparr>characters = [],
           sessions =
             [\<lparr>s_id = ''s-1'', s_characterId = ''c-1'', s_userId = ''bob'', s_title = None,
               s_contextSummary = None, s_isPinned = False, s_isArchived = False,
               s_createdAt = 1000, s_updatedAt = 1000, s_lastMessageAt = None\<rparr>],
           messages = [], accesses = []\<rparr>)"
  using
    createChatMessage_validation
      [of "\<lparr>cm_sessionId = ''s-1'', cm_senderRole = ''user'', cm_content = '''',
            cm_metadata = (None :: string option)\<rparr>"
          "\<lambda>j. j"
          "\<lparr>context_locals = Some \<lparr>locals_user = Some \<lparr>u_id = ''bob''\<rparr>\<rparr>\<rparr>"
          "\<lparr>new_Date = 2000, randomUUID = ''m-1''\<rparr>"
          "\<lparr>characters = [],
         sessions =
           [\<lparr>s_id = ''s-1'', s_characterId = ''c-1'', s_userId = ''bob'', s_title = None,
             s_contextSummary = None, s_isPinned = False, s_isArchived = False,
             s_createdAt = 1000, s_updatedAt = 1000, s_lastMessageAt = None\<rparr>],
         messages = [], accesses = []\<rparr>"]
    createChatMessage_validation
      [of "\<lparr>cm_sessionId = ''s-1'', cm_senderRole = ''admin'', cm_content = ''hello'',
            cm_metadata = (None :: string option)\<rparr>"
          "\<lambda>j. j"
          "\<lparr>context_locals = Some \<lparr>locals_user = Some \<lparr>u_id = ''bob''\<rparr>\<rparr>\<rparr>"
          "\<lparr>new_Date = 2000, randomUUID = ''m-1''\<rparr>"
          "\<lparr>characters = [],
         sessions =
           [\<lparr>s_id = ''s-1'', s_characterId = ''c-1'', s_userId = ''bob'', s_title = None,
             s_contextSummary = None, s_isPinned = False, s_isArchived = False,
             s_createdAt = 1000, s_updatedAt = 1000, s_lastMessageAt = None\<rparr>],
         messages = [], accesses = []\<rparr>"]
  by simp

subsection \<open>listMyChatSessions: the caller's sessions\<close>

text \<open>
  Claim C8. For an authenticated caller \<open>U\<close>, \<open>listMyChatSessions\<close> returns exactly the
  sessions whose owner is \<open>U\<close> when \<open>includeArchived\<close> is \<open>true\<close>, and exactly the sessions
  whose owner is \<open>U\<close> and that are not archived when \<open>includeArchived\<close> is \<open>false\<close> or not
  given (the schema's default is \<open>false\<close>); in both cases in table order, and never a session
  of another user. The session table is left as it was.
\<close>

theorem listMyChatSessions_owned:
  assumes "context_user ctx = Some user"
  shows "\<exists>sess db'.
           listMyChatSessions raw ctx rt db = (Inr \<lparr>items = sess, total = length sess\<rparr>, db')
         \<and> sessions db' = sessions db
         \<and> (lsr_includeArchived raw = Some True \<longrightarrow>
               sess = filter (\<lambda>r. s_userId r = u_id user) (sessions db))
         \<and> (lsr_includeArchived raw \<noteq> Some True \<longrightarrow>
               sess = filter (\<lambda>r. s_userId r = u_id user \<and> s_isArchived r = False) (sessions db))
         \<and> (\<forall>r \<in> set sess. s_userId r = u_id user)"
  using assms
  by (cases "lsr_includeArchived raw")
     (auto simp add: listMyChatSessions_def defineAction_def listMyChatSessions_schema_def
        listMyChatSessions_handler_def requireUser_def select_CharacterChatSessions_def Let_def)

text \<open>
  At a concrete call: \<open>bob\<close> owns an open and an archived session, \<open>amy\<close> owns a third.
\<close>

theorem listMyChatSessions_owned_witness:
  "context_user \<lparr>context_locals = Some \<lparr>locals_user = Some \<lparr>u_id = ''bob''\<rparr>\<rparr>\<rparr>
     = Some \<lparr>u_id = ''bob''\<rparr>
   \<and> fst (listMyChatSessions \<lparr>lsr_includeArchived = None\<rparr>
         \<lparr>context_locals = Some \<lparr>locals_user = Some \<lparr>u_id = ''bob''\<rparr>\<rparr>\<rparr>
         \<lparr>new_Date = 3000, randomUUID = ''x''\<rparr>
         \<lparr>characters = [],
          sessions =
            [\<lparr>s_id = ''s-1'', s_characterId = ''c-1'', s_userId = ''bob'', s_title = None,
              s_contextSummary = None, s_isPinned = False, s_isArchived = False,
              s_createdAt = 1000, s_updatedAt = 1000, s_lastMessageAt = None\<rparr>,
             \<lparr>s_id = ''s-2'', s_characterId = ''c-1'', s_userId = ''bob'', s_title = None,
              s_contextSummary = None, s_isPinned = False, s_isArchived = True,
              s_createdAt = 1000, s_updatedAt = 1000, s_lastMessageAt = None\<rparr>,
             \<lparr>s_id = ''s-3'', s_characterId = ''c-1'', s_userId = ''amy'', s_title = None,
              s_contextSummary = None, s_isPinned = False, s_isArchived = False,
              s_createdAt = 1000, s_updatedAt = 1000, s_lastMessageAt = None\<rparr>],
          messages = [], accesses = []\<rparr>)
     = Inr \<lparr>items =
            [\<lparr>s_id = ''s-1'', s_characterId = ''c-1'', s_userId = ''bob'', s_title = None,
              s_contextSummary = None, s_isPinned = False, s_isArchived = False,
              s_createdAt = 1000, s_updatedAt = 1000, s_lastMessageAt = None\<rparr>],
           total = 1\<rparr>
   \<and> fst (listMyChatSessions \<lparr>lsr_includeArchived = Some True\<rparr>
         \<lparr>context_locals = Some \<lparr>locals_user = Some \<lparr>u_id = ''bob''\<rparr>\<rparr>\<rparr>
         \<lparr>new_Date = 3000, randomUUID = ''x''\<rparr>
         \<lparr>characters = [],
          sessions =
            [\<lparr>s_id = ''s-1'', s_characterId = ''c-1'', s_userId = ''bob'', s_title = None,
              s_contextSummary = None, s_isPinned = False, s_isArchived = False,
              s_createdAt = 1000, s_updatedAt = 1000, s_lastMessageAt = None\<rparr>,
             \<lparr>s_id = ''s-2'', s_characterId = ''c-1'', s_userId = ''bob'', s_title = None,
              s_contextSummary = None, s_isPinned = False, s_isArchived = True,
              s_createdAt = 1000, s_updatedAt = 1000, s_lastMessageAt = None\<rparr>,
             \<lparr>s_id = ''s-3'', s_characterId = ''c-1'', s_userId = ''amy'', s_title = None,
              s_contextSummary = None, s_isPinned = False, s_isArchived = False,
              s_createdAt = 1000, s_updatedAt = 1000, s_lastMessageAt = None\<rparr>],
          messages = [], accesses = []\<rparr>)
     = Inr \<lparr>items =
            [\<lparr>s_id = ''s-1'', s_characterId = ''c-1'', s_userId = ''bob'', s_title = None,
              s_contextSummary = None, s_isPinned = False, s_isArchived = False,
              s_createdAt = 1000, s_updatedAt = 1000, s_lastMessageAt = None\<rparr>,
             \<lparr>s_id = ''s-2'', s_characterId = ''c-1'', s_userId = ''bob'', s_title = None,
              s_contextSummary = None, s_isPinned = False, s_isArchived = True,
              s_createdAt = 1000, s_updatedAt = 1000, s_lastMessageAt = None\<rparr>],
           total = 2\<rparr>"
  using
    listMyChatSessions_owned
      [of "\<lparr>context_locals = Some \<lparr>locals_user = Some \<lparr>u_id = ''bob''\<rparr>\<rparr>\<rparr>"
          "\<lparr>u_id = ''bob''\<rparr>"
          "\<lparr>lsr_includeArchived = None\<rparr>"
          "\<lparr>new_Date = 3000, randomUUID = ''x''\<rparr>"
          "\<lparr>characters = [],
          sessions =
            [\<lparr>s_id = ''s-1'', s_characterId = ''c-1'', s_userId = ''bob'', s_title = None,
              s_contextSummary = None, s_isPinned = False, s_isArchived = False,
              s_createdAt = 1000, s_updatedAt = 1000, s_lastMessageAt = None\<rparr>,
             \<lparr>s_id = ''s-2'', s_characterId = ''c-1'', s_userId = ''bob'', s_title = None,
              s_contextSummary = None, s_isPinned = False, s_isArchived = True,
              s_createdAt = 1000, s_updatedAt = 1000, s_lastMessageAt = None\<rparr>,
             \<lparr>s_id = ''s-3'', s_characterId = ''c-1'', s_userId = ''amy'', s_title = None,
              s_contextSummary = None, s_isPinned = False, s_isArchived = False,
              s_createdAt = 1000, s_updatedAt = 1000, s_lastMessageAt = None\<rparr>],
          messages = [], accesses = []\<rparr>"]
    listMyChatSessions_owned
      [of "\<lparr>context_locals = Some \<lparr>locals_user = Some \<lparr>u_id = ''bob''\<rparr>\<rparr>\<rparr>"
          "\<lparr>u_id = ''bob''\<rparr>"
          "\<lparr>lsr_includeArchived = Some True\<rparr>"
          "\<lparr>new_Date = 3000, randomUUID = ''x''\<rparr>"
          "\<lparr>characters = [],
          sessions =
            [\<lparr>s_id = ''s-1'', s_characterId = ''c-1'', s_userId = ''bob'', s_title = None,
              s_contextSummary = None, s_isPinned = False, s_isArchived = False,
              s_createdAt = 1000, s_updatedAt = 1000, s_lastMessageAt = None\<rparr>,
             \<lparr>s_id = ''s-2'', s_characterId = ''c-1'', s_userId = ''bob'', s_title = None,
              s_contextSummary = None, s_isPinned = False, s_isArchived = True,
              s_createdAt = 1000, s_updatedAt = 1000, s_lastMessageAt = None\<rparr>,
             \<lparr>s_id = ''s-3'', s_characterId = ''c-1'', s_userId = ''amy'', s_title = None,
              s_contextSummary = None, s_isPinned = False, s_isArchived = False,
              s_createdAt = 1000, s_updatedAt = 1000, s_lastMessageAt = None\<rparr>],
          messages = [], accesses = []\<rparr>"]
  by (auto simp add: context_user_def)

subsection \<open>Calls without an identity\<close>

text \<open>
  Claim C9. Let the request carry no user. Each action other than \<open>listCharacters\<close>
  (\<open>createCharacter\<close>, \<open>updateCharacter\<close>, \<open>createChatSession\<close>, \<open>updateChatSession\<close>,
  \<open>listMyChatSessions\<close>, \<open>createChatMessage\<close>, \<open>listChatMessages\<close>) fails and returns the
  store exactly as it received it: no statement was run against it. The input schema is
  checked before the handler looks for the user, so the failure is the validation error
  when the input does not pass the schema, and the \<open>UNAUTHORIZED\<close> error when it does;
  every input of \<open>listMyChatSessions\<close> passes its schema. Each of the seven handlers, which
  run on input that has passed, fails with \<open>UNAUTHORIZED\<close>. \<open>listCharacters\<close>, the action
  and its handler, succeeds and returns the public and system characters.
\<close>

theorem unauthenticated_rejected:
  assumes "context_user ctx = None"
  shows
    "createCharacter isUrl cc ctx rt db
       = (Inl (if createCharacter_schema isUrl cc = None then ActionInputError
               else ActionError UNAUTHORIZED ''You must be signed in to perform this action.''), db)
   \<and> updateCharacter isUrl uc ctx rt db
       = (Inl (if updateCharacter_schema isUrl uc = None then ActionInputError
               else ActionError UNAUTHORIZED ''You must be signed in to perform this action.''), db)
   \<and> createChatSession cs ctx rt db
       = (Inl (if createChatSession_schema cs = None then ActionInputError
               else ActionError UNAUTHORIZED ''You must be signed in to perform this action.''), db)
   \<and> updateChatSession us ctx rt db
       = (Inl (if updateChatSession_schema us = None then ActionInputError
               else ActionError UNAUTHORIZED ''You must be signed in to perform this action.''), db)
   \<and> createChatMessage stringify cm ctx rt db
       = (Inl (if createChatMessage_schema cm = None then ActionInputError
               else ActionError UNAUTHORIZED ''You must be signed in to perform this action.''), db)
   \<and> listChatMessages lm ctx rt db
       = (Inl (if listChatMessages_schema lm = None then ActionInputError
               else ActionError UNAUTHORIZED ''You must be signed in to perform this action.''), db)
   \<and> listMyChatSessions lsr ctx rt db
       = (Inl (ActionError UNAUTHORIZED ''You must be signed in to perform this action.''), db)
   \<and> listCharacters lcr ctx rt db
       = (Inr \<lparr>items = filter (\<lambda>r. c_isPublic r \<or> c_isSystem r) (characters db),
                total = length (filter (\<lambda>r. c_isPublic r \<or> c_isSystem r) (characters db))\<rparr>,
          db\<lparr>accesses := accesses db @ [Select AiCharacters]\<rparr>)
   \<and> createCharacter_handler cc ctx rt db
       = (Inl (ActionError UNAUTHORIZED ''You must be signed in to perform this action.''), db)
   \<and> updateCharacter_handler uc ctx rt db
       = (Inl (ActionError UNAUTHORIZED ''You must be signed in to perform this action.''), db)
   \<and> createChatSession_handler cs ctx rt db
       = (Inl (ActionError UNAUTHORIZED ''You must be signed in to perform this action.''), db)
   \<and> updateChatSession_handler us ctx rt db
       = (Inl (ActionError UNAUTHORIZED ''You must be signed in to perform this action.''), db)
   \<and> listMyChatSessions_handler ls ctx rt db
       = (Inl (ActionError UNAUTHORIZED ''You must be signed in to perform this action.''), db)
   \<and> createChatMessage_handler stringify cm ctx rt db
       = (Inl (ActionError UNAUTHORIZED ''You must be signed in to perform this action.''), db)
   \<and> listChatMessages_handler lm ctx rt db
       = (Inl (ActionError UNAUTHORIZED ''You must be signed in to perform this action.''), db)
   \<and> listCharacters_handler lc ctx rt db
       = (Inr \<lparr>items = filter (\<lambda>r. c_isPublic r \<or> c_isSystem r) (characters db),
                total = length (filter (\<lambda>r. c_isPublic r \<or> c_isSystem r) (characters db))\<rparr>,
          db\<lparr>accesses := accesses db @ [Select AiCharacters]\<rparr>)"
proof -
  have r: "requireUser ctx
             = Inl (ActionError UNAUTHORIZED ''You must be signed in to perform this action.'')"
    using assms by (simp add: requireUser_def)
  have b: "baseVisibility = (\<lambda>r. c_isPublic r \<or> c_isSystem r)"
    by (auto simp add: fun_eq_iff baseVisibility_def)
  have a0: "createCharacter isUrl cc ctx rt db
       = (Inl (if createCharacter_schema isUrl cc = None then ActionInputError
               else ActionError UNAUTHORIZED ''You must be signed in to perform this action.''), db)"
    by (cases "createCharacter_schema isUrl cc")
      (simp_all add: createCharacter_def defineAction_def createCharacter_handler_def r)
  have a1: "updateCharacter isUrl uc ctx rt db
       = (Inl (if updateCharacter_schema isUrl uc = None then ActionInputError
               else ActionError UNAUTHORIZED ''You must be signed in to perform this action.''), db)"
    by (cases "updateCharacter_schema isUrl uc")
      (simp_all add: updateCharacter_def defineAction_def updateCharacter_handler_def r)
  have a2: "createChatSession cs ctx rt db
       = (Inl (if createChatSession_schema cs = None then ActionInputError
               else ActionError UNAUTHORIZED ''You must be signed in to perform this action.''), db)"
    by (cases "createChatSession_schema cs")
      (simp_all add: createChatSession_def defineAction_def createChatSession_handler_def r)
  have a3: "updateChatSession us ctx rt db
       = (Inl (if updateChatSession_schema us = None then ActionInputError
               else ActionError UNAUTHORIZED ''You must be signed in to perform this action.''), db)"
    by (cases "updateChatSession_schema us")
      (simp_all add: updateChatSession_def defineAction_def updateChatSession_handler_def r)
  have a4: "createChatMessage stringify cm ctx rt db
       = (Inl (if createChatMessage_schema cm = None then ActionInputError
               else ActionError UNAUTHORIZED ''You must be signed in to perform this action.''), db)"
    by (cases "createChatMessage_schema cm")
      (simp_all add: createChatMessage_def defineAction_def createChatMessage_handler_def r)
  have a5: "listChatMessages lm ctx rt db
       = (Inl (if listChatMessages_schema lm = None then ActionInputError
               else ActionError UNAUTHORIZED ''You must be signed in to perform this action.''), db)"
    by (cases "listChatMessages_schema lm")
      (simp_all add: listChatMessages_def defineAction_def listChatMessages_handler_def r)
  have a6: "listMyChatSessions lsr ctx rt db
       = (Inl (ActionError UNAUTHORIZED ''You must be signed in to perform this action.''), db)"
    by (simp add: listMyChatSessions_def defineAction_def listMyChatSessions_schema_def
        listMyChatSessions_handler_def r)
  have a7: "listCharacters lcr ctx rt db
       = (Inr \<lparr>items = filter (\<lambda>r. c_isPublic r \<or> c_isSystem r) (characters db),
                total = length (filter (\<lambda>r. c_isPublic r \<or> c_isSystem r) (characters db))\<rparr>,
          db\<lparr>accesses := accesses db @ [Select AiCharacters]\<rparr>)"
    using assms
    by (simp add: listCharacters_def defineAction_def listCharacters_schema_def
        listCharacters_handler_def select_AiCharacters_def truthy_def b Let_def)
  have h0: "createCharacter_handler cc ctx rt db
       = (Inl (ActionError UNAUTHORIZED ''You must be signed in to perform this action.''), db)"
    by (simp add: createCharacter_handler_def r)
  have h1: "updateCharacter_handler uc ctx rt db
       = (Inl (ActionError UNAUTHORIZED ''You must be signed in to perform this action.''), db)"
    by (simp add: updateCharacter_handler_def r)
  have h2: "createChatSession_handler cs ctx rt db
       = (Inl (ActionError UNAUTHORIZED ''You must be signed in to perform this action.''), db)"
    by (simp add: createChatSession_handler_def r)
  have h3: "updateChatSession_handler us ctx rt db
       = (Inl (ActionError UNAUTHORIZED ''You must be signed in to perform this action.''), db)"
    by (simp add: updateChatSession_handler_def r)
  have h4: "listMyChatSessions_handler ls ctx rt db
       = (Inl (ActionError UNAUTHORIZED ''You must be signed in to perform this action.''), db)"
    by (simp add: listMyChatSessions_handler_def r)
  have h5: "createChatMessage_handler stringify cm ctx rt db
       = (Inl (ActionError UNAUTHORIZED ''You must be signed in to perform this action.''), db)"
    by (simp add: createChatMessage_handler_def r)
  have h6: "listChatMessages_handler lm ctx rt db
       = (Inl (ActionError UNAUTHORIZED ''You must be signed in to perform this action.''), db)"
    by (simp add: listChatMessages_handler_def r)
  have h7: "listCharacters_handler lc ctx rt db
       = (Inr \<lparr>items = filter (\<lambda>r. c_isPublic r \<or> c_isSystem r) (characters db),
                total = length (filter (\<lambda>r. c_isPublic r \<or> c_isSystem r) (characters db))\<rparr>,
          db\<lparr>accesses := accesses db @ [Select AiCharacters]\<rparr>)"
    using assms
    by (simp add: listCharacters_handler_def select_AiCharacters_def truthy_def b Let_def)
  show ?thesis
    by (intro conjI a0 a1 a2 a3 a4 a5 a6 a7 h0 h1 h2 h3 h4 h5 h6 h7)
qed

text \<open>
  A call without a user that does not fail with \<open>UNAUTHORIZED\<close>: \<open>createChatMessage\<close>
  with empty \<open>content\<close> fails with the validation error, whose code is \<open>BAD_REQUEST\<close>.
\<close>

theorem unauthenticated_invalid_input:
  "context_user \<lparr>context_locals = Some \<lparr>locals_user = None\<rparr>\<rparr> = None
   \<and> createChatMessage (\<lambda>j. j)
        \<lparr>cm_sessionId = ''s-1'', cm_senderRole = ''user'', cm_content = '''',
           cm_metadata = (None :: string option)\<rparr>
        \<lparr>context_locals = Some \<lparr>locals_user = None\<rparr>\<rparr>
        \<lparr>new_Date = 2000, randomUUID = ''s-1''\<rparr>
        \<lparr>characters = [], sessions = [], messages = [], accesses = []\<rparr>
       = (Inl ActionInputError,
          \<lparr>characters = [], sessions = [], messages = [], accesses = []\<rparr>)
   \<and> code ActionInputError = BAD_REQUEST
   \<and> ActionInputError \<noteq> ActionError UNAUTHORIZED ''You must be signed in to perform this action.''
   \<and> BAD_REQUEST \<noteq> UNAUTHORIZED"
  by (simp add: context_user_def createChatMessage_def defineAction_def
      createChatMessage_schema_def min1_def)

text \<open>At concrete calls whose request has \<open>locals\<close> but no user.\<close>

theorem unauthenticated_rejected_witness:
  "context_user \<lparr>context_locals = Some \<lparr>locals_user = None\<rparr>\<rparr> = None
   \<and> createCharacter (\<lambda>u. u \<noteq> [])
        \<lparr>cc_name = ''Mentor'', cc_slug = None, cc_shortDescription = None,
           cc_fullDescription = None, cc_systemPrompt = None, cc_speakingStyle = None,
           cc_domain = None, cc_avatarUrl = None, cc_isPublic = Some True\<rparr>
        \<lparr>context_locals = Some \<lparr>locals_user = None\<rparr>\<rparr>
        \<lparr>new_Date = 2000, randomUUID = ''s-1''\<rparr>
        \<lparr>characters = [], sessions = [], messages = [], accesses = []\<rparr>
       = (Inl (ActionError UNAUTHORIZED ''You must be signed in to perform this action.''),
          \<lparr>characters = [], sessions = [], messages = [], accesses = []\<rparr>)
   \<and> updateCharacter (\<lambda>u. u \<noteq> [])
        \<lparr>uc_id = ''c-1'', uc_name = Some ''Mentor'', uc_slug = None,
           uc_shortDescription = None, uc_fullDescription = None, uc_systemPrompt = None,
           uc_speakingStyle = None, uc_domain = None, uc_avatarUrl = None,
           uc_isPublic = None\<rparr>
        \<lparr>context_locals = Some \<lparr>locals_user = None\<rparr>\<rparr>
        \<lparr>new_Date = 2000, randomUUID = ''s-1''\<rparr>
        \<lparr>characters = [], sessions = [], messages = [], accesses = []\<rparr>
       = (Inl (ActionError UNAUTHORIZED ''You must be signed in to perform this action.''),
          \<lparr>characters = [], sessions = [], messages = [], accesses = []\<rparr>)
   \<and> createChatSession \<lparr>cs_characterId = ''c-1'', cs_title = None\<rparr>
        \<lparr>context_locals = Some \<lparr>locals_user = None\<rparr>\<rparr>
        \<lparr>new_Date = 2000, randomUUID = ''s-1''\<rparr>
        \<lparr>characters = [], sessions = [], messages = [], accesses = []\<rparr>
       = (Inl (ActionError UNAUTHORIZED ''You must be signed in to perform this action.''),
          \<lparr>characters = [], sessions = [], messages = [], accesses = []\<rparr>)
   \<and> updateChatSession
        \<lparr>us_id = ''s-1'', us_title = Some ''Chat'', us_contextSummary = None,
           us_isPinned = None, us_isArchived = None\<rparr>
        \<lparr>context_locals = Some \<lparr>locals_user = None\<rparr>\<rparr>
        \<lparr>new_Date = 2000, randomUUID = ''s-1''\<rparr>
        \<lparr>characters = [], sessions = [], messages = [], accesses = []\<rparr>
       = (Inl (ActionError UNAUTHORIZED ''You must be signed in to perform this action.''),
          \<lparr>characters = [], sessions = [], messages = [], accesses = []\<rparr>)
   \<and> createChatMessage (\<lambda>j. j)
        \<lparr>cm_sessionId = ''s-1'', cm_senderRole = ''user'', cm_content = ''hello'',
           cm_metadata = (None :: string option)\<rparr>
        \<lparr>context_locals = Some \<lparr>locals_user = None\<rparr>\<rparr>
        \<lparr>new_Date = 2000, randomUUID = ''s-1''\<rparr>
        \<lparr>characters = [], sessions = [], messages = [], accesses = []\<rparr>
       = (Inl (ActionError UNAUTHORIZED ''You must be signed in to perform this action.''),
          \<lparr>characters = [], sessions = [], messages = [], accesses = []\<rparr>)
   \<and> listChatMessages \<lparr>lm_sessionId = ''s-1''\<rparr>
        \<lparr>context_locals = Some \<lparr>locals_user = None\<rparr>\<rparr>
        \<lparr>new_Date = 2000, randomUUID = ''s-1''\<rparr>
        \<lparr>characters = [], sessions = [], messages = [], accesses = []\<rparr>
       = (Inl (ActionError UNAUTHORIZED ''You must be signed in to perform this action.''),
          \<lparr>characters = [], sessions = [], messages = [], accesses = []\<rparr>)
   \<and> listMyChatSessions \<lparr>lsr_includeArchived = None\<rparr>
        \<lparr>context_locals = Some \<lparr>locals_user = None\<rparr>\<rparr>
        \<lparr>new_Date = 2000, randomUUID = ''s-1''\<rparr>
        \<lparr>characters = [], sessions = [], messages = [], accesses = []\<rparr>
       = (Inl (ActionError UNAUTHORIZED ''You must be signed in to perform this action.''),
          \<lparr>characters = [], sessions = [], messages = [], accesses = []\<rparr>)
   \<and> createChatMessage (\<lambda>j. j)
        \<lparr>cm_sessionId = ''s-1'', cm_senderRole = ''user'', cm_content = '''',
           cm_metadata = (None :: string option)\<rparr>
        \<lparr>context_locals = Some \<lparr>locals_user = None\<rparr>\<rparr>
        \<lparr>new_Date = 2000, randomUUID = ''s-1''\<rparr>
        \<lparr>characters = [], sessions = [], messages = [], accesses = []\<rparr>
       = (Inl ActionInputError,
          \<lparr>characters = [], sessions = [], messages = [], accesses = []\<rparr>)
   \<and> createChatMessage_handler (\<lambda>j. j)
        \<lparr>cm_sessionId = ''s-1'', cm_senderRole = ''user'', cm_content = '''',
           cm_metadata = (None :: string option)\<rparr>
        \<lparr>context_locals = Some \<lparr>locals_user = None\<rparr>\<rparr>
        \<lparr>new_Date = 2000, randomUUID = ''s-1''\<rparr>
        \<lparr>characters = [], sessions = [], messages = [], accesses = []\<rparr>
       = (Inl (ActionError UNAUTHORIZED ''You must be signed in to perform this action.''),
          \<lparr>characters = [], sessions = [], messages = [], accesses = []\<rparr>)
   \<and> fst (listCharacters \<lparr>lcr_includePrivate = Some True\<rparr>
        \<lparr>context_locals = Some \<lparr>locals_user = None\<rparr>\<rparr>
        \<lparr>new_Date = 2000, randomUUID = ''s-1''\<rparr>
        \<lparr>characters = [], sessions = [], messages = [], accesses = []\<rparr>)
       = Inr \<lparr>items = [], total = 0\<rparr>"
proof -
  let ?ctx = "\<lparr>context_locals = Some \<lparr>locals_user = None\<rparr>\<rparr>"
  let ?rt = "\<lparr>new_Date = 2000, randomUUID = ''s-1''\<rparr>"
  let ?db = "\<lparr>characters = [], sessions = [], messages = [], accesses = []\<rparr>"
  have a: "context_user ?ctx = None"
    by (simp add: context_user_def)
  note t = unauthenticated_rejected
      [where ctx = ?ctx and rt = ?rt and db = ?db and isUrl = "(\<lambda>u. u \<noteq> [])"
         and cc = "\<lparr>cc_name = ''Mentor'', cc_slug = None, cc_shortDescription = None,
           cc_fullDescription = None, cc_systemPrompt = None, cc_speakingStyle = None,
           cc_domain = None, cc_avatarUrl = None, cc_isPublic = Some True\<rparr>"
         and uc = "\<lparr>uc_id = ''c-1'', uc_name = Some ''Mentor'', uc_slug = None,
           uc_shortDescription = None, uc_fullDescription = None, uc_systemPrompt = None,
           uc_speakingStyle = None, uc_domain = None, uc_avatarUrl = None,
           uc_isPublic = None\<rparr>"
         and cs = "\<lparr>cs_characterId = ''c-1'', cs_title = None\<rparr>"
         and us = "\<lparr>us_id = ''s-1'', us_title = Some ''Chat'', us_contextSummary = None,
           us_isPinned = None, us_isArchived = None\<rparr>"
         and ls = "\<lparr>ls_includeArchived = False\<rparr>"
         and lsr = "\<lparr>lsr_includeArchived = None\<rparr>"
         and stringify = "(\<lambda>j. j)"
         and cm = "\<lparr>cm_sessionId = ''s-1'', cm_senderRole = ''user'', cm_content = ''hello'',
           cm_metadata = (None :: string option)\<rparr>"
         and lm = "\<lparr>lm_sessionId = ''s-1''\<rparr>"
         and lc = "\<lparr>lc_includePrivate = True\<rparr>"
         and lcr = "\<lparr>lcr_includePrivate = Some True\<rparr>",
       OF a]
  note u = unauthenticated_rejected
      [where ctx = ?ctx and rt = ?rt and db = ?db and isUrl = "(\<lambda>u. u \<noteq> [])"
         and cc = "\<lparr>cc_name = ''Mentor'', cc_slug = None, cc_shortDescription = None,
           cc_fullDescription = None, cc_systemPrompt = None, cc_speakingStyle = None,
           cc_domain = None, cc_avatarUrl = None, cc_isPublic = Some True\<rparr>"
         and uc = "\<lparr>uc_id = ''c-1'', uc_name = Some ''Mentor'', uc_slug = None,
           uc_shortDescription = None, uc_fullDescription = None, uc_systemPrompt = None,
           uc_speakingStyle = None, uc_domain = None, uc_avatarUrl = None,
           uc_isPublic = None\<rparr>"
         and cs = "\<lparr>cs_characterId = ''c-1'', cs_title = None\<rparr>"
         and us = "\<lparr>us_id = ''s-1'', us_title = Some ''Chat'', us_contextSummary = None,
           us_isPinned = None, us_isArchived = None\<rparr>"
         and ls = "\<lparr>ls_includeArchived = False\<rparr>"
         and lsr = "\<lparr>lsr_includeArchived = None\<rparr>"
         and stringify = "(\<lambda>j. j)"
         and cm = "\<lparr>cm_sessionId = ''s-1'', cm_senderRole = ''user'', cm_content = '''',
           cm_metadata = (None :: string option)\<rparr>"
         and lm = "\<lparr>lm_sessionId = ''s-1''\<rparr>"
         and lc = "\<lparr>lc_includePrivate = True\<rparr>"
         and lcr = "\<lparr>lcr_includePrivate = Some True\<rparr>",
       OF a]
  have w0: "createCharacter (\<lambda>u. u \<noteq> [])
        \<lparr>cc_name = ''Mentor'', cc_slug = None, cc_shortDescription = None,
           cc_fullDescription = None, cc_systemPrompt = None, cc_speakingStyle = None,
           cc_domain = None, cc_avatarUrl = None, cc_isPublic = Some True\<rparr>
        ?ctx ?rt ?db
       = (Inl (ActionError UNAUTHORIZED ''You must be signed in to perform this action.''), ?db)"
    using t [THEN conjunct1]
    by (simp add: createCharacter_schema_def min1_def optional_def)
  have w1: "updateCharacter (\<lambda>u. u \<noteq> [])
        \<lparr>uc_id = ''c-1'', uc_name = Some ''Mentor'', uc_slug = None,
           uc_shortDescription = None, uc_fullDescription = None, uc_systemPrompt = None,
           uc_speakingStyle = None, uc_domain = None, uc_avatarUrl = None,
           uc_isPublic = None\<rparr>
        ?ctx ?rt ?db
       = (Inl (ActionError UNAUTHORIZED ''You must be signed in to perform this action.''), ?db)"
    using t [THEN conjunct2, THEN conjunct1]
    by (simp add: updateCharacter_schema_def min1_def optional_def)
  have w2: "createChatSession \<lparr>cs_characterId = ''c-1'', cs_title = None\<rparr>
        ?ctx ?rt ?db
       = (Inl (ActionError UNAUTHORIZED ''You must be signed in to perform this action.''), ?db)"
    using t [THEN conjunct2, THEN conjunct2, THEN conjunct1]
    by (simp add: createChatSession_schema_def min1_def)
  have w3: "updateChatSession
        \<lparr>us_id = ''s-1'', us_title = Some ''Chat'', us_contextSummary = None,
           us_isPinned = None, us_isArchived = None\<rparr>
        ?ctx ?rt ?db
       = (Inl (ActionError UNAUTHORIZED ''You must be signed in to perform this action.''), ?db)"
    using t [THEN conjunct2, THEN conjunct2, THEN conjunct2, THEN conjunct1]
    by (simp add: updateChatSession_schema_def min1_def)
  have w4: "createChatMessage (\<lambda>j. j)
        \<lparr>cm_sessionId = ''s-1'', cm_senderRole = ''user'', cm_content = ''hello'',
           cm_metadata = (None :: string option)\<rparr>
        ?ctx ?rt ?db
       = (Inl (ActionError UNAUTHORIZED ''You must be signed in to perform this action.''), ?db)"
    using t [THEN conjunct2, THEN conjunct2, THEN conjunct2, THEN conjunct2, THEN conjunct1]
    by (simp add: createChatMessage_schema_def min1_def senderRole_enum_def)
  have w5: "listChatMessages \<lparr>lm_sessionId = ''s-1''\<rparr>
        ?ctx ?rt ?db
       = (Inl (ActionError UNAUTHORIZED ''You must be signed in to perform this action.''), ?db)"
    using t [THEN conjunct2, THEN conjunct2, THEN conjunct2, THEN conjunct2, THEN conjunct2, THEN conjunct1]
    by (simp add: listChatMessages_schema_def min1_def)
  have w6: "listMyChatSessions \<lparr>lsr_includeArchived = None\<rparr>
        ?ctx ?rt ?db
       = (Inl (ActionError UNAUTHORIZED ''You must be signed in to perform this action.''), ?db)"
    by (rule t [THEN conjunct2, THEN conjunct2, THEN conjunct2, THEN conjunct2, THEN conjunct2, THEN conjunct2, THEN conjunct1])
  have w7: "createChatMessage (\<lambda>j. j)
        \<lparr>cm_sessionId = ''s-1'', cm_senderRole = ''user'', cm_content = '''',
           cm_metadata = (None :: string option)\<rparr>
        ?ctx ?rt ?db
       = (Inl ActionInputError, ?db)"
    using u [THEN conjunct2, THEN conjunct2, THEN conjunct2, THEN conjunct2, THEN conjunct1]
    by (simp add: createChatMessage_schema_def min1_def)
  have w8: "createChatMessage_handler (\<lambda>j. j)
        \<lparr>cm_sessionId = ''s-1'', cm_senderRole = ''user'', cm_content = '''',
           cm_metadata = (None :: string option)\<rparr>
        ?ctx ?rt ?db
       = (Inl (ActionError UNAUTHORIZED ''You must be signed in to perform this action.''), ?db)"
    by (rule u [THEN conjunct2, THEN conjunct2, THEN conjunct2, THEN conjunct2, THEN conjunct2, THEN conjunct2, THEN conjunct2, THEN conjunct2, THEN conjunct2, THEN conjunct2, THEN conjunct2, THEN conjunct2, THEN conjunct2, THEN conjunct1])
  have w9: "fst (listCharacters \<lparr>lcr_includePrivate = Some True\<rparr> ?ctx ?rt ?db)
       = Inr \<lparr>items = [], total = 0\<rparr>"
    using t [THEN conjunct2, THEN conjunct2, THEN conjunct2, THEN conjunct2, THEN conjunct2, THEN conjunct2, THEN conjunct2, THEN conjunct1]
    by simp
  show ?thesis
    by (intro conjI a w0 w1 w2 w3 w4 w5 w6 w7 w8 w9)
qed

subsection \<open>Optional fields are never cleared by updates\<close>

text \<open>
  Claim C10. After any sequence of \<open>updateCharacter\<close> and \<open>updateChatSession\<close> calls, by
  any callers and with any inputs, both tables have the rows they had, in the same
  positions and with the same ids, and every optional text field (\<open>slug\<close>,
  \<open>shortDescription\<close>, \<open>fullDescription\<close>, \<open>systemPrompt\<close>, \<open>speakingStyle\<close>, \<open>domain\<close>,
  \<open>avatarUrl\<close>; \<open>title\<close>, \<open>contextSummary\<close>) that was not \<open>null\<close> before is not
  \<open>null\<close> after: an input field is either absent, which leaves the column alone, or a
  string, which is stored.
\<close>

theorem optional_fields_never_cleared:
  "length (characters (run_updates calls db)) = length (characters db)
   \<and> length (sessions (run_updates calls db)) = length (sessions db)
   \<and> (\<forall>i < length (characters db).
        c_id (characters (run_updates calls db) ! i) = c_id (characters db ! i)
      \<and> (c_slug (characters db ! i) \<noteq> None \<longrightarrow>
           c_slug (characters (run_updates calls db) ! i) \<noteq> None)
      \<and> (c_shortDescription (characters db ! i) \<noteq> None \<longrightarrow>
           c_shortDescription (characters (run_updates calls db) ! i) \<noteq> None)
      \<and> (c_fullDescription (characters db ! i) \<noteq> None \<longrightarrow>
           c_fullDescription (characters (run_updates calls db) ! i) \<noteq> None)
      \<and> (c_systemPrompt (characters db ! i) \<noteq> None \<longrightarrow>
           c_systemPrompt (characters (run_updates calls db) ! i) \<noteq> None)
      \<and> (c_speakingStyle (characters db ! i) \<noteq> None \<longrightarrow>
           c_speakingStyle (characters (run_updates calls db) ! i) \<noteq> None)
      \<and> (c_domain (characters db ! i) \<noteq> None \<longrightarrow>
           c_domain (characters (run_updates calls db) ! i) \<noteq> None)
      \<and> (c_avatarUrl (characters db ! i) \<noteq> None \<longrightarrow>
           c_avatarUrl (characters (run_updates calls db) ! i) \<noteq> None))
   \<and> (\<forall>i < length (sessions db).
        s_id (sessions (run_updates calls db) ! i) = s_id (sessions db ! i)
      \<and> (s_title (sessions db ! i) \<noteq> None \<longrightarrow>
           s_title (sessions (run_updates calls db) ! i) \<noteq> None)
      \<and> (s_contextSummary (sessions db ! i) \<noteq> None \<longrightarrow>
           s_contextSummary (sessions (run_updates calls db) ! i) \<noteq> None))"
proof -
  from run_updates_kept [of db calls]
  have c: "list_all2 character_kept (characters db) (characters (run_updates calls db))"
    and s: "list_all2 session_kept (sessions db) (sessions (run_updates calls db))"
    by simp_all
  from c have lc: "length (characters (run_updates calls db)) = length (characters db)"
    and pc: "\<And>i. i < length (characters db) \<Longrightarrow>
               character_kept (characters db ! i) (characters (run_updates calls db) ! i)"
    by (simp_all add: list_all2_conv_all_nth)
  from s have ls: "length (sessions (run_updates calls db)) = length (sessions db)"
    and ps: "\<And>i. i < length (sessions db) \<Longrightarrow>
               session_kept (sessions db ! i) (sessions (run_updates calls db) ! i)"
    by (simp_all add: list_all2_conv_all_nth)
  from lc ls pc ps show ?thesis
    unfolding character_kept_def session_kept_def by blast
qed

text \<open>
  At a concrete sequence of three calls by \<open>bob\<close>: the slug and the context summary that
  were set are still set, the slug to its new value.
\<close>

theorem optional_fields_never_cleared_witness:
  "c_slug (characters
        \<lparr>characters =
         [\<lparr>c_id = ''c-1'', c_userId = Some ''bob'', c_name = ''Diary'',
           c_slug = Some ''diary'', c_shortDescription = None,
           c_fullDescription = None, c_systemPrompt = None,
           c_speakingStyle = None, c_domain = None, c_avatarUrl = None,
           c_isSystem = False, c_isPublic = False, c_createdAt = 1000,
           c_updatedAt = 1000\<rparr>,
          \<lparr>c_id = ''c-2'', c_userId = Some ''amy'', c_name = ''Secret'',
           c_slug = None, c_shortDescription = None, c_fullDescription = None,
           c_systemPrompt = None, c_speakingStyle = None, c_domain = None,
           c_avatarUrl = None, c_isSystem = False, c_isPublic = False,
           c_createdAt = 1000, c_updatedAt = 1000\<rparr>],
        sessions =
         [\<lparr>s_id = ''s-1'', s_characterId = ''c-1'', s_userId = ''bob'',
           s_title = None, s_contextSummary = Some ''earlier'',
           s_isPinned = False, s_isArchived = False, s_createdAt = 1000,
           s_updatedAt = 1000, s_lastMessageAt = None\<rparr>,
          \<lparr>s_id = ''s-2'', s_characterId = ''c-1'', s_userId = ''amy'',
           s_title = None, s_contextSummary = None, s_isPinned = False,
           s_isArchived = False, s_createdAt = 1000, s_updatedAt = 1000,
           s_lastMessageAt = None\<rparr>],
        messages = [],
        accesses = []\<rparr> ! 0)
     = Some ''diary''
   \<and> s_contextSummary (sessions
        \<lparr>characters =
         [\<lparr>c_id = ''c-1'', c_userId = Some ''bob'', c_name = ''Diary'',
           c_slug = Some ''diary'', c_shortDescription = None,
           c_fullDescription = None, c_systemPrompt = None,
           c_speakingStyle = None, c_domain = None, c_avatarUrl = None,
           c_isSystem = False, c_isPublic = False, c_createdAt = 1000,
           c_updatedAt = 1000\<rparr>,
          \<lparr>c_id = ''c-2'', c_userId = Some ''amy'', c_name = ''Secret'',
           c_slug = None, c_shortDescription = None, c_fullDescription = None,
           c_systemPrompt = None, c_speakingStyle = None, c_domain = None,
           c_avatarUrl = None, c_isSystem = False, c_isPublic = False,
           c_createdAt = 1000, c_updatedAt = 1000\<rparr>],
        sessions =
         [\<lparr>s_id = ''s-1'', s_characterId = ''c-1'', s_userId = ''bob'',
           s_title = None, s_contextSummary = Some ''earlier'',
           s_isPinned = False, s_isArchived = False, s_createdAt = 1000,
           s_updatedAt = 1000, s_lastMessageAt = None\<rparr>,
          \<lparr>s_id = ''s-2'', s_characterId = ''c-1'', s_userId = ''amy'',
           s_title = None, s_contextSummary = None, s_isPinned = False,
           s_isArchived = False, s_createdAt = 1000, s_updatedAt = 1000,
           s_lastMessageAt = None\<rparr>],
        messages = [],
        accesses = []\<rparr> ! 0)
     = Some ''earlier''
   \<and> c_slug (characters (run_updates
       [UpdateCharacter
          \<lparr>uc_id = ''c-1'', uc_name = Some ''Journal'', uc_slug = None,
           uc_shortDescription = None, uc_fullDescription = None,
           uc_systemPrompt = None, uc_speakingStyle = None, uc_domain = None,
           uc_avatarUrl = None, uc_isPublic = Some True\<rparr>
          \<lparr>context_locals = Some \<lparr>locals_user = Some \<lparr>u_id = ''bob''\<rparr>\<rparr>\<rparr>
          \<lparr>new_Date = 5000, randomUUID = ''x''\<rparr>,
        UpdateChatSession
          \<lparr>us_id = ''s-1'', us_title = Some ''Plans'',
           us_contextSummary = None, us_isPinned = Some True,
           us_isArchived = None\<rparr>
          \<lparr>context_locals = Some \<lparr>locals_user = Some \<lparr>u_id = ''bob''\<rparr>\<rparr>\<rparr>
          \<lparr>new_Date = 5000, randomUUID = ''x''\<rparr>,
        UpdateCharacter
          \<lparr>uc_id = ''c-1'', uc_name = None, uc_slug = Some ''journal'',
           uc_shortDescription = None, uc_fullDescription = None,
           uc_systemPrompt = None, uc_speakingStyle = None, uc_domain = None,
           uc_avatarUrl = None, uc_isPublic = None\<rparr>
          \<lparr>context_locals = Some \<lparr>locals_user = Some \<lparr>u_id = ''bob''\<rparr>\<rparr>\<rparr>
          \<lparr>new_Date = 6000, randomUUID = ''x''\<rparr>]
       \<lparr>characters =
         [\<lparr>c_id = ''c-1'', c_userId = Some ''bob'', c_name = ''Diary'',
           c_slug = Some ''diary'', c_shortDescription = None,
           c_fullDescription = None, c_systemPrompt = None,
           c_speakingStyle = None, c_domain = None, c_avatarUrl = None,
           c_isSystem = False, c_isPublic = False, c_createdAt = 1000,
           c_updatedAt = 1000\<rparr>,
          \<lparr>c_id = ''c-2'', c_userId = Some ''amy'', c_name = ''Secret'',
           c_slug = None, c_shortDescription = None, c_fullDescription = None,
           c_systemPrompt = None, c_speakingStyle = None, c_domain = None,
           c_avatarUrl = None, c_isSystem = False, c_isPublic = False,
           c_createdAt = 1000, c_updatedAt = 1000\<rparr>],
        sessions =
         [\<lparr>s_id = ''s-1'', s_characterId = ''c-1'', s_userId = ''bob'',
           s_title = None, s_contextSummary = Some ''earlier'',
           s_isPinned = False, s_isArchived = False, s_createdAt = 1000,
           s_updatedAt = 1000, s_lastMessageAt = None\<rparr>,
          \<lparr>s_id = ''s-2'', s_characterId = ''c-1'', s_userId = ''amy'',
           s_title = None, s_contextSummary = None, s_isPinned = False,
           s_isArchived = False, s_createdAt = 1000, s_updatedAt = 1000,
           s_lastMessageAt = None\<rparr>],
        messages = [],
        accesses = []\<rparr>) ! 0)
     = Some ''journal''
   \<and> s_contextSummary (sessions (run_updates
       [UpdateCharacter
          \<lparr>uc_id = ''c-1'', uc_name = Some ''Journal'', uc_slug = None,
           uc_shortDescription = None, uc_fullDescription = None,
           uc_systemPrompt = None, uc_speakingStyle = None, uc_domain = None,
           uc_avatarUrl = None, uc_isPublic = Some True\<rparr>
          \<lparr>context_locals = Some \<lparr>locals_user = Some \<lparr>u_id = ''bob''\<rparr>\<rparr>\<rparr>
          \<lparr>new_Date = 5000, randomUUID = ''x''\<rparr>,
        UpdateChatSession
          \<lparr>us_id = ''s-1'', us_title = Some ''Plans'',
           us_contextSummary = None, us_isPinned = Some True,
           us_isArchived = None\<rparr>
          \<lparr>context_locals = Some \<lparr>locals_user = Some \<lparr>u_id = ''bob''\<rparr>\<rparr>\<rparr>
          \<lparr>new_Date = 5000, randomUUID = ''x''\<rparr>,
        UpdateCharacter
          \<lparr>uc_id = ''c-1'', uc_name = None, uc_slug = Some ''journal'',
           uc_shortDescription = None, uc_fullDescription = None,
           uc_systemPrompt = None, uc_speakingStyle = None, uc_domain = None,
           uc_avatarUrl = None, uc_isPublic = None\<rparr>
          \<lparr>context_locals = Some \<lparr>locals_user = Some \<lparr>u_id = ''bob''\<rparr>\<rparr>\<rparr>
          \<lparr>new_Date = 6000, randomUUID = ''x''\<rparr>]
       \<lparr>characters =
         [\<lparr>c_id = ''c-1'', c_userId = Some ''bob'', c_name = ''Diary'',
           c_slug = Some ''diary'', c_shortDescription = None,
           c_fullDescription = None, c_systemPrompt = None,
           c_speakingStyle = None, c_domain = None, c_avatarUrl = None,
           c_isSystem = False, c_isPublic = False, c_createdAt = 1000,
           c_updatedAt = 1000\<rparr>,
          \<lparr>c_id = ''c-2'', c_userId = Some ''amy'', c_name = ''Secret'',
           c_slug = None, c_shortDescription = None, c_fullDescription = None,
           c_systemPrompt = None, c_speakingStyle = None, c_domain = None,
           c_avatarUrl = None, c_isSystem = False, c_isPublic = False,
           c_createdAt = 1000, c_updatedAt = 1000\<rparr>],
        sessions =
         [\<lparr>s_id = ''s-1'', s_characterId = ''c-1'', s_userId = ''bob'',
           s_title = None, s_contextSummary = Some ''earlier'',
           s_isPinned = False, s_isArchived = False, s_createdAt = 1000,
           s_updatedAt = 1000, s_lastMessageAt = None\<rparr>,
          \<lparr>s_id = ''s-2'', s_characterId = ''c-1'', s_userId = ''amy'',
           s_title = None, s_contextSummary = None, s_isPinned = False,
           s_isArchived = False, s_createdAt = 1000, s_updatedAt = 1000,
           s_lastMessageAt = None\<rparr>],
        messages = [],
        accesses = []\<rparr>) ! 0)
     = Some ''earlier''
   \<and> s_title (sessions (run_updates
       [UpdateCharacter
          \<lparr>uc_id = ''c-1'', uc_name = Some ''Journal'', uc_slug = None,
           uc_shortDescription = None, uc_fullDescription = None,
           uc_systemPrompt = None, uc_speakingStyle = None, uc_domain = None,
           uc_avatarUrl = None, uc_isPublic = Some True\<rparr>
          \<lparr>context_locals = Some \<lparr>locals_user = Some \<lparr>u_id = ''bob''\<rparr>\<rparr>\<rparr>
          \<lparr>new_Date = 5000, randomUUID = ''x''\<rparr>,
        UpdateChatSession
          \<lparr>us_id = ''s-1'', us_title = Some ''Plans'',
           us_contextSummary = None, us_isPinned = Some True,
           us_isArchived = None\<rparr>
          \<lparr>context_locals = Some \<lparr>locals_user = Some \<lparr>u_id = ''bob''\<rparr>\<rparr>\<rparr>
          \<lparr>new_Date = 5000, randomUUID = ''x''\<rparr>,
        UpdateCharacter
          \<lparr>uc_id = ''c-1'', uc_name = None, uc_slug = Some ''journal'',
           uc_shortDescription = None, uc_fullDescription = None,
           uc_systemPrompt = None, uc_speakingStyle = None, uc_domain = None,
           uc_avatarUrl = None, uc_isPublic = None\<rparr>
          \<lparr>context_locals = Some \<lparr>locals_user = Some \<lparr>u_id = ''bob''\<rparr>\<rparr>\<rparr>
          \<lparr>new_Date = 6000, randomUUID = ''x''\<rparr>]
       \<lparr>characters =
         [\<lparr>c_id = ''c-1'', c_userId = Some ''bob'', c_name = ''Diary'',
           c_slug = Some ''diary'', c_shortDescription = None,
           c_fullDescription = None, c_systemPrompt = None,
           c_speakingStyle = None, c_domain = None, c_avatarUrl = None,
           c_isSystem = False, c_isPublic = False, c_createdAt = 1000,
           c_updatedAt = 1000\<rparr>,
          \<lparr>c_id = ''c-2'', c_userId = Some ''amy'', c_name = ''Secret'',
           c_slug = None, c_shortDescription = None, c_fullDescription = None,
           c_systemPrompt = None, c_speakingStyle = None, c_domain = None,
           c_avatarUrl = None, c_isSystem = False, c_isPublic = False,
           c_createdAt = 1000, c_updatedAt = 1000\<rparr>],
        sessions =
         [\<lparr>s_id = ''s-1'', s_characterId = ''c-1'', s_userId = ''bob'',
           s_title = None, s_contextSummary = Some ''earlier'',
           s_isPinned = False, s_isArchived = False, s_createdAt = 1000,
           s_updatedAt = 1000, s_lastMessageAt = None\<rparr>,
          \<lparr>s_id = ''s-2'', s_characterId = ''c-1'', s_userId = ''amy'',
           s_title = None, s_contextSummary = None, s_isPinned = False,
           s_isArchived = False, s_createdAt = 1000, s_updatedAt = 1000,
           s_lastMessageAt = None\<rparr>],
        messages = [],
        accesses = []\<rparr>) ! 0)
     = Some ''Plans''"
  using
    optional_fields_never_cleared
      [where calls = "[UpdateCharacter
          \<lparr>uc_id = ''c-1'', uc_name = Some ''Journal'', uc_slug = None,
           uc_shortDescription = None, uc_fullDescription = None,
           uc_systemPrompt = None, uc_speakingStyle = None, uc_domain = None,
           uc_avatarUrl = None, uc_isPublic = Some True\<rparr>
          \<lparr>context_locals = Some \<lparr>locals_user = Some \<lparr>u_id = ''bob''\<rparr>\<rparr>\<rparr>
          \<lparr>new_Date = 5000, randomUUID = ''x''\<rparr>,
        UpdateChatSession
          \<lparr>us_id = ''s-1'', us_title = Some ''Plans'',
           us_contextSummary = None, us_isPinned = Some True,
           us_isArchived = None\<rparr>
          \<lparr>context_locals = Some \<lparr>locals_user = Some \<lparr>u_id = ''bob''\<rparr>\<rparr>\<rparr>
          \<lparr>new_Date = 5000, randomUUID = ''x''\<rparr>,
        UpdateCharacter
          \<lparr>uc_id = ''c-1'', uc_name = None, uc_slug = Some ''journal'',
           uc_shortDescription = None, uc_fullDescription = None,
           uc_systemPrompt = None, uc_speakingStyle = None, uc_domain = None,
           uc_avatarUrl = None, uc_isPublic = None\<rparr>
          \<lparr>context_locals = Some \<lparr>locals_user = Some \<lparr>u_id = ''bob''\<rparr>\<rparr>\<rparr>
          \<lparr>new_Date = 6000, randomUUID = ''x''\<rparr>]"
         and db = "\<lparr>characters =
         [\<lparr>c_id = ''c-1'', c_userId = Some ''bob'', c_name = ''Diary'',
           c_slug = Some ''diary'', c_shortDescription = None,
           c_fullDescription = None, c_systemPrompt = None,
           c_speakingStyle = None, c_domain = None, c_avatarUrl = None,
           c_isSystem = False, c_isPublic = False, c_createdAt = 1000,
           c_updatedAt = 1000\<rparr>,
          \<lparr>c_id = ''c-2'', c_userId = Some ''amy'', c_name = ''Secret'',
           c_slug = None, c_shortDescription = None, c_fullDescription = None,
           c_systemPrompt = None, c_speakingStyle = None, c_domain = None,
           c_avatarUrl = None, c_isSystem = False, c_isPublic = False,
           c_createdAt = 1000, c_updatedAt = 1000\<rparr>],
        sessions =
         [\<lparr>s_id = ''s-1'', s_characterId = ''c-1'', s_userId = ''bob'',
           s_title = None, s_contextSummary = Some ''earlier'',
           s_isPinned = False, s_isArchived = False, s_createdAt = 1000,
           s_updatedAt = 1000, s_lastMessageAt = None\<rparr>,
          \<lparr>s_id = ''s-2'', s_characterId = ''c-1'', s_userId = ''amy'',
           s_title = None, s_contextSummary = None, s_isPinned = False,
           s_isArchived = False, s_createdAt = 1000, s_updatedAt = 1000,
           s_lastMessageAt = None\<rparr>],
        messages = [],
        accesses = []\<rparr>"]
  by (simp add: context_user_def requireUser_def updateCharacter_handler_def
      updateChatSession_handler_def select_AiCharacters_def select_CharacterChatSessions_def
      update_AiCharacters_def update_CharacterChatSessions_def set_AiCharacters_def
      set_CharacterChatSessions_def updateCharacter_updateData_def
      updateChatSession_updateData_def)

end
